(* ===== verification/Prelude.thy ===== *)
theory Prelude
  imports Complex_Main "HOL-Library.Char_ord"
begin

text \<open>
  Shared vocabulary of the development: the JavaScript string and number
  operations that src/Script.js calls (\<open>String.prototype.replace\<close> with a
  string or a digit regex, \<open>split\<close>/\<open>pop\<close>, \<open>join\<close>, \<open>includes\<close>,
  \<open>match(/\d+/)\<close>, \<open>parseInt\<close> on a string of digits, number-to-string of a
  non-negative integer), the exception values of the model and the outcome type
  of code whose exceptions leave partial effects behind.  Strings are
  \<open>char list\<close>, as JS strings restricted to the ASCII text the program
  handles; time is a number of milliseconds.
\<close>

named_theorems js_simps "evaluation rules of the JavaScript helpers"

type_synonym ms = nat

subsection \<open>Exceptions and outcomes\<close>

text \<open>
  A JS exception unwinds to the nearest \<open>try\<close>, but what the code did before
  the throw stays done (the DOM is mutated in place).  \<open>Threw e s\<close> is the
  state at the throw, \<open>Done s\<close> a normal return.
\<close>

datatype js_exn = TypeError string | ReferenceError string

datatype 'a outcome = Done 'a | Threw js_exn 'a

fun outcome_state :: "'a outcome \<Rightarrow> 'a" where
  "outcome_state (Done s) = s"
| "outcome_state (Threw e s) = s"

fun outcome_bind :: "'a outcome \<Rightarrow> ('a \<Rightarrow> 'a outcome) \<Rightarrow> 'a outcome" where
  "outcome_bind (Done s) f = f s"
| "outcome_bind (Threw e s) f = Threw e s"

text \<open>Running code on a part of the state: the effects, or the effects up to the
  throw, land in that part.\<close>

fun outcome_map :: "('a \<Rightarrow> 'b) \<Rightarrow> 'a outcome \<Rightarrow> 'b outcome" where
  "outcome_map f (Done s) = Done (f s)"
| "outcome_map f (Threw e s) = Threw e (f s)"

subsection \<open>Characters and digits\<close>

definition is_digit :: "char \<Rightarrow> bool" where
  "is_digit c \<longleftrightarrow> CHR ''0'' \<le> c \<and> c \<le> CHR ''9''"

definition digit_val :: "char \<Rightarrow> nat" where
  "digit_val c = of_char c - 48"

definition digit_char :: "nat \<Rightarrow> char" where
  "digit_char d = ''0123456789'' ! d"

text \<open>\<open>s.replace(/\d/g, '')\<close> and \<open>s.replace(/\D/g, '')\<close>.\<close>

definition strip_digits :: "string \<Rightarrow> string" where
  "strip_digits s = filter (\<lambda>c. \<not> is_digit c) s"

definition keep_digits :: "string \<Rightarrow> string" where
  "keep_digits s = filter is_digit s"

text \<open>The value of a string of decimal digits, most significant first.\<close>

definition parse_nat :: "string \<Rightarrow> nat" where
  "parse_nat ds = foldl (\<lambda>n c. 10 * n + digit_val c) 0 ds"

text \<open>
  \<open>parseInt(ds)\<close> where \<open>ds\<close> is a string of ASCII digits, as at both call
  sites of the program (after \<open>replace(/\D/g, '')\<close> and on a
  \<open>match(/\d+/)\<close>): \<open>NaN\<close> (here \<open>None\<close>) for the empty string.
\<close>

definition parseInt_digits :: "string \<Rightarrow> nat option" where
  "parseInt_digits ds = (if ds = [] then None else Some (parse_nat ds))"

text \<open>\<open>String(n)\<close> for a non-negative integer \<open>n\<close>: its decimal digits.\<close>

fun show_nat :: "nat \<Rightarrow> string" where
  "show_nat n = (if n < 10 then [digit_char n] else show_nat (n div 10) @ [digit_char (n mod 10)])"

declare show_nat.simps [simp del]

subsection \<open>Strings\<close>

text \<open>\<open>s.replace(pat, rep)\<close> with a string pattern replaces the first occurrence only.\<close>

fun replace_first :: "string \<Rightarrow> string \<Rightarrow> string \<Rightarrow> string" where
  "replace_first pat rep [] = (if pat = [] then rep else [])"
| "replace_first pat rep (c # cs) =
     (if take (length pat) (c # cs) = pat then rep @ drop (length pat) (c # cs)
      else c # replace_first pat rep cs)"

text \<open>\<open>s.split(sep)\<close> for a one-character separator; it never returns an empty array.\<close>

fun split_on :: "char \<Rightarrow> string \<Rightarrow> string list" where
  "split_on sep [] = [[]]"
| "split_on sep (c # cs) =
     (let ws = split_on sep cs in
      if c = sep then [] # ws else (c # hd ws) # tl ws)"

text \<open>\<open>xs.join(sep)\<close>.\<close>

fun join_with :: "string \<Rightarrow> string list \<Rightarrow> string" where
  "join_with sep [] = []"
| "join_with sep [w] = w"
| "join_with sep (w # v # ws) = w @ sep @ join_with sep (v # ws)"

text \<open>\<open>s.includes(sub)\<close>.\<close>

fun js_includes :: "string \<Rightarrow> string \<Rightarrow> bool" where
  "js_includes [] sub = (sub = [])"
| "js_includes (c # cs) sub = (take (length sub) (c # cs) = sub \<or> js_includes cs sub)"

text \<open>\<open>s.match(/\d+/)\<close>: the first maximal run of digits, \<open>null\<close> (\<open>None\<close>) if none.\<close>

definition match_digits :: "string \<Rightarrow> string option" where
  "match_digits s =
     (let r = dropWhile (\<lambda>c. \<not> is_digit c) s in
      if r = [] then None else Some (takeWhile is_digit r))"

text \<open>\<open>xs[i]\<close>: \<open>undefined\<close> (\<open>None\<close>) out of range.\<close>

definition js_nth :: "'a list \<Rightarrow> nat \<Rightarrow> 'a option" where
  "js_nth xs i = (if i < length xs then Some (xs ! i) else None)"

subsection \<open>Shared lemmas\<close>

lemma outcome_state_map [simp]: "outcome_state (outcome_map f r) = f (outcome_state r)"
  by (cases r) simp_all

lemma digit_char_is_digit [js_simps]: "d < 10 \<Longrightarrow> is_digit (digit_char d)"
  by (auto simp: digit_char_def is_digit_def less_Suc_eq numeral_eq_Suc)

lemma digit_val_digit_char [js_simps]: "d < 10 \<Longrightarrow> digit_val (digit_char d) = d"
  by (auto simp: digit_char_def digit_val_def less_Suc_eq numeral_eq_Suc)

lemma show_nat_digits: "c \<in> set (show_nat n) \<Longrightarrow> is_digit c"
proof (induction n rule: show_nat.induct)
  case (1 n)
  then show ?case
    by (cases "n < 10") (auto simp: show_nat.simps [of n] js_simps)
qed

lemma show_nat_not_Nil [simp]: "show_nat n \<noteq> []"
  by (subst show_nat.simps) simp

lemma strip_digits_show_nat [simp]: "strip_digits (show_nat n) = []"
  by (auto simp: strip_digits_def filter_empty_conv dest: show_nat_digits)

lemma keep_digits_show_nat [simp]: "keep_digits (show_nat n) = show_nat n"
  by (auto simp: keep_digits_def filter_id_conv dest: show_nat_digits)

lemma keep_digits_append [simp]: "keep_digits (a @ b) = keep_digits a @ keep_digits b"
  by (simp add: keep_digits_def)

lemma strip_digits_append [simp]: "strip_digits (a @ b) = strip_digits a @ strip_digits b"
  by (simp add: strip_digits_def)

lemma strip_digits_idem [simp]: "strip_digits (strip_digits s) = strip_digits s"
  by (simp add: strip_digits_def)

lemma keep_digits_strip_digits [simp]: "keep_digits (strip_digits s) = []"
  by (simp add: keep_digits_def strip_digits_def filter_empty_conv)

lemma parse_nat_snoc [simp]: "parse_nat (xs @ [c]) = 10 * parse_nat xs + digit_val c"
  by (simp add: parse_nat_def)

theorem parse_show_nat: "parse_nat (show_nat n) = n"
proof (induction n rule: show_nat.induct)
  case (1 n)
  then show ?case
    by (cases "n < 10") (auto simp: show_nat.simps [of n] js_simps parse_nat_def)
qed

lemma show_nat_inj: "show_nat m = show_nat n \<longleftrightarrow> m = n"
  by (metis parse_show_nat)

lemma is_digit_comma [simp]: "\<not> is_digit CHR '',''"
  by (simp add: is_digit_def)

lemma join_with_Cons:
  "join_with [c] (w # ws) = w @ (if ws = [] then [] else c # join_with [c] ws)"
  by (cases ws) auto

lemma takeWhile_upto_sep: "c \<notin> set w \<Longrightarrow> takeWhile (\<lambda>x. x \<noteq> c) (w @ r) = w @ takeWhile (\<lambda>x. x \<noteq> c) r"
  by (induction w) auto

lemma join_with_inj:
  assumes "\<forall>w \<in> set xs \<union> set ys. w \<noteq> [] \<and> c \<notin> set w"
  shows "join_with [c] xs = join_with [c] ys \<longleftrightarrow> xs = ys"
  using assms
proof (induction xs arbitrary: ys)
  case Nil
  then show ?case by (cases ys) (auto simp: join_with_Cons)
next
  case (Cons w ws)
  show ?case
  proof (cases ys)
    case Nil
    with Cons.prems show ?thesis by (auto simp: join_with_Cons)
  next
    case (Cons v vs)
    have w: "c \<notin> set w" and v: "c \<notin> set v"
      using Cons.prems \<open>ys = v # vs\<close> by auto
    let ?rw = "if ws = [] then [] else c # join_with [c] ws"
    let ?rv = "if vs = [] then [] else c # join_with [c] vs"
    have split: "w @ ?rw = v @ ?rv \<longleftrightarrow> w = v \<and> ?rw = ?rv"
    proof
      assume eq: "w @ ?rw = v @ ?rv"
      have "takeWhile (\<lambda>x. x \<noteq> c) (w @ ?rw) = w"
        using w by (simp add: takeWhile_upto_sep)
      moreover have "takeWhile (\<lambda>x. x \<noteq> c) (v @ ?rv) = v"
        using v by (simp add: takeWhile_upto_sep)
      ultimately have "w = v" using eq by simp
      with eq show "w = v \<and> ?rw = ?rv" by simp
    qed simp
    have "?rw = ?rv \<longleftrightarrow> ws = vs"
      using Cons.IH [of vs] Cons.prems \<open>ys = v # vs\<close> by auto
    then show ?thesis
      using \<open>ys = v # vs\<close> split by (simp add: join_with_Cons)
  qed
qed

lemma split_on_not_Nil [simp]: "split_on sep s \<noteq> []"
  by (induction s) (auto simp: Let_def)

lemma length_split_on: "length (split_on sep s) = Suc (length (filter (\<lambda>x. x = sep) s))"
  by (induction s) (auto simp: Let_def)

lemma split_on_no_sep: "sep \<notin> set s \<Longrightarrow> split_on sep s = [s]"
  by (induction s) auto

theorem last_split_on: "last (split_on sep s) = rev (takeWhile (\<lambda>x. x \<noteq> sep) (rev s))"
proof (induction s)
  case Nil
  then show ?case by simp
next
  case (Cons c cs)
  show ?case
  proof (cases "sep \<in> set cs")
    case True
    then have "takeWhile (\<lambda>x. x \<noteq> sep) (rev cs @ [c]) = takeWhile (\<lambda>x. x \<noteq> sep) (rev cs)"
      by (auto intro: takeWhile_append1)
    moreover have "filter (\<lambda>x. x = sep) cs \<noteq> []"
      using True by (auto simp: filter_empty_conv)
    then have "Suc 0 < length (split_on sep cs)"
      by (simp add: length_split_on)
    then obtain w ws where ws: "split_on sep cs = w # ws" "ws \<noteq> []"
      by (cases "split_on sep cs") auto
    ultimately show ?thesis
      using Cons.IH by (auto simp: Let_def)
  next
    case False
    then show ?thesis
      by (simp add: split_on_no_sep takeWhile_upto_sep)
  qed
qed

end
