(* ===== verification/Doubles.thy ===== *)
theory Doubles
  imports Prelude "HOL-Library.Log_Nat"
begin

text \<open>
  IEEE 754 binary64 arithmetic, as JavaScript numbers compute it, on the
  rationals.  A JavaScript operation on doubles returns the exact result
  rounded to the nearest double, ties to the one with an even significand.
  For a positive \<open>x\<close> with \<open>2^e \<le> x < 2^(e+1)\<close> the doubles of that binade are the
  multiples of \<open>2^(e-52)\<close>, so \<open>round_double x\<close> is \<open>x / 2^(e-52)\<close> rounded to an
  integer, times \<open>2^(e-52)\<close>.  The exponent \<open>e\<close> comes from the bit lengths of
  the numerator and denominator of \<open>x\<close>.  The range of the exponent is not
  bounded: no overflow to \<open>Infinity\<close> and no subnormals, which the script's
  numbers (below \<open>2^53\<close> and above \<open>2^-10\<close>) never reach.  The main lemma is
  the relative error bound \<open>|round_double x - x| \<le> x / 2^53\<close>.
\<close>

definition dbl_exponent :: "rat \<Rightarrow> int" where
  "dbl_exponent x = (let (p, q) = quotient_of x; e0 = bitlen p - bitlen q in
     if power_int 2 e0 \<le> x then e0 else e0 - 1)"

text \<open>Round to the nearest integer, ties to even.\<close>

definition round_even :: "rat \<Rightarrow> int" where
  "round_even y = (let f = \<lfloor>y\<rfloor>; d = y - of_int f in
     if d < 1/2 then f else if 1/2 < d then f + 1 else if even f then f else f + 1)"

definition round_pos :: "rat \<Rightarrow> rat" where
  "round_pos x = (let u = power_int 2 (dbl_exponent x - 52) in of_int (round_even (x / u)) * u)"

definition round_double :: "rat \<Rightarrow> rat" where
  "round_double x = (if x = 0 then 0 else if x < 0 then - round_pos (- x) else round_pos x)"

text \<open>The operators \<open>+\<close>, \<open>*\<close> and \<open>/\<close> of JavaScript on doubles.\<close>

definition dbl_add :: "rat \<Rightarrow> rat \<Rightarrow> rat" where
  "dbl_add x y = round_double (x + y)"

definition dbl_mul :: "rat \<Rightarrow> rat \<Rightarrow> rat" where
  "dbl_mul x y = round_double (x * y)"

definition dbl_div :: "rat \<Rightarrow> rat \<Rightarrow> rat" where
  "dbl_div x y = round_double (x / y)"

text \<open>The double that the literal \<open>0.7\<close> denotes.\<close>

definition dbl_07 :: rat where
  "dbl_07 = round_double (7 / 10)"

subsection \<open>The relative error of rounding\<close>

lemma round_even_err: "\<bar>of_int (round_even y) - y\<bar> \<le> 1/2"
proof -
  have a: "of_int \<lfloor>y\<rfloor> \<le> y" "y < of_int \<lfloor>y\<rfloor> + 1" by linarith+
  show ?thesis using a unfolding round_even_def Let_def by (auto simp: abs_if; linarith)
qed

lemma bitlen_pow_bounds:
  assumes "0 < (p::int)"
  shows "power_int 2 (bitlen p - 1) \<le> (of_int p :: rat) \<and> (of_int p :: rat) < power_int 2 (bitlen p)"
proof -
  have b: "2 ^ nat (bitlen p - 1) \<le> p" "p < 2 ^ nat (bitlen p)" using bitlen_bounds [OF assms] by auto
  have "1 \<le> bitlen p" using assms by (simp add: bitlen_def floorlog_def)
  then have "power_int (2::rat) (bitlen p - 1) = of_int (2 ^ nat (bitlen p - 1))"
    "power_int (2::rat) (bitlen p) = of_int (2 ^ nat (bitlen p))"
    by (simp_all add: power_int_def)
  with b show ?thesis by (metis of_int_le_iff of_int_less_iff)
qed

lemma dbl_exponent_le:
  assumes "0 < x"
  shows "power_int 2 (dbl_exponent x) \<le> x"
proof -
  obtain p q where pq: "quotient_of x = (p, q)" by (cases "quotient_of x")
  have q0: "0 < q" using quotient_of_denom_pos [OF pq] .
  have x: "x = of_int p / of_int q" using quotient_of_div [OF pq] .
  have p0: "0 < p" using assms q0 x by (simp add: zero_less_divide_iff)
  have bp: "power_int 2 (bitlen p - 1) \<le> (of_int p :: rat)" and bq: "(of_int q :: rat) < power_int 2 (bitlen q)"
    using bitlen_pow_bounds [OF p0] bitlen_pow_bounds [OF q0] by auto
  have "power_int 2 (bitlen p - bitlen q - 1) = power_int 2 (bitlen p - 1 - bitlen q)"
    by (simp add: algebra_simps)
  also have "\<dots> = power_int 2 (bitlen p - 1) / (power_int 2 (bitlen q) :: rat)"
    by (rule power_int_diff) simp
  also have "\<dots> \<le> of_int p / of_int q"
    using bp bq q0 p0 by (intro frac_le) simp_all
  finally have "power_int 2 (bitlen p - bitlen q - 1) \<le> x" using x by simp
  then show ?thesis by (simp add: dbl_exponent_def pq Let_def)
qed

lemma round_pos_err:
  assumes "0 < x"
  shows "\<bar>round_pos x - x\<bar> \<le> x / 2 ^ 53"
proof -
  define u :: rat where "u = power_int 2 (dbl_exponent x - 52)"
  have u0: "0 < u" by (simp add: u_def)
  have "round_pos x - x = (of_int (round_even (x / u)) - x / u) * u"
    using u0 by (simp add: round_pos_def u_def [symmetric] Let_def field_simps)
  then have "\<bar>round_pos x - x\<bar> = \<bar>of_int (round_even (x / u)) - x / u\<bar> * u"
    using u0 by (simp add: abs_mult)
  also have "\<dots> \<le> u / 2"
    using round_even_err [of "x / u"] u0 by (simp add: mult_right_mono)
  also have "u / 2 = power_int 2 (dbl_exponent x) / 2 ^ 53"
    by (simp add: u_def power_int_diff)
  also have "\<dots> \<le> x / 2 ^ 53"
    using dbl_exponent_le [OF assms] by (simp add: divide_right_mono)
  finally show ?thesis .
qed

lemma round_double_err:
  assumes "0 \<le> x"
  shows "\<bar>round_double x - x\<bar> \<le> x / 2 ^ 53"
  using assms round_pos_err [of x] by (auto simp: round_double_def)

text \<open>The bound in the form the error analyses use.\<close>

lemma round_double_bounds:
  assumes "0 \<le> x"
  shows "x * (1 - 1 / 2 ^ 53) \<le> round_double x \<and> round_double x \<le> x * (1 + 1 / 2 ^ 53)"
proof -
  define e where "e = x / 2 ^ 53"
  have a: "round_double x - x \<le> e" "x - round_double x \<le> e"
    using abs_le_D1 [OF round_double_err [OF assms]] abs_le_D2 [OF round_double_err [OF assms]]
    by (simp_all add: e_def)
  have eq: "x * (1 - 1 / 2 ^ 53) = x - e" "x * (1 + 1 / 2 ^ 53) = x + e"
    by (simp_all add: e_def algebra_simps)
  show ?thesis unfolding eq using a by linarith
qed

lemma round_double_nonneg: "0 \<le> x \<Longrightarrow> 0 \<le> round_double x"
proof -
  assume x: "0 \<le> x"
  then have "0 \<le> x * (1 - 1 / 2 ^ 53)" by simp
  with round_double_bounds [OF x] show ?thesis by linarith
qed

lemma round_double_125: "round_double 125 = 125"
  by code_simp

lemma dbl_07_value: "dbl_07 = 3152519739159347 / 4503599627370496"
  unfolding dbl_07_def by code_simp

text \<open>Accumulated relative error over \<open>n\<close> roundings.\<close>

lemma eps_pow_lower: "1 - of_nat n / 2 ^ 53 \<le> (1 - 1 / 2 ^ 53 :: rat) ^ n"
  using Bernoulli_inequality [of "- 1 / 2 ^ 53 :: rat" n] by simp

lemma eps_pow_upper: "(1 + 1 / 2 ^ 53 :: rat) ^ n * (1 - of_nat n / 2 ^ 53) \<le> 1"
proof -
  have "(1 + 1 / 2 ^ 53 :: rat) ^ n * (1 - of_nat n / 2 ^ 53)
      \<le> (1 + 1 / 2 ^ 53) ^ n * (1 - 1 / 2 ^ 53) ^ n"
    using eps_pow_lower [of n] by (intro mult_left_mono) simp_all
  also have "\<dots> = (1 - 1 / 2 ^ 106) ^ n"
    by (simp add: power_mult_distrib [symmetric] algebra_simps)
  also have "\<dots> \<le> 1"
    by (intro power_le_one) simp_all
  finally show ?thesis .
qed

end
