(* ===== verification/Animations.thy ===== *)
theory Animations
  imports Doubles
begin

text \<open>
  The \<open>Animations\<close> module of src/Script.js (lines 118--263).  Four parts:
  \<^item> scroll reveal (\<open>setupScrollAnimations\<close>): each card is hidden once, then an
    intersection observer reveals it when it enters the viewport;
  \<^item> hover effects (\<open>setupHoverEffects\<close>): \<open>mouseenter\<close>/\<open>mouseleave\<close>
    write the same \<open>style.transform\<close> of the same cards;
  \<^item> particles (\<open>setupParticleEffects\<close>, \<open>createParticles\<close>): 20 particles
    per hero section and one shared style element;
  \<^item> counters (\<open>setupCounterAnimations\<close>): an observer starts
    \<open>animateCounter\<close> at most once per element (the \<open>data-animated\<close> flag); the
    animation is a 16 ms \<open>setInterval\<close> that tweens the number from 0 to the
    parsed target in 2000 ms, keeping the element's non-digit text.
  The counter computes with JavaScript doubles: the step \<open>target / 125\<close> and
  every \<open>current += step\<close> are rounded to the nearest double (theory
  \<open>Doubles\<close>), so 125 additions may fall short of the target and the interval
  then runs a 126th tick; the target itself is an integer, exact as a double
  below \<open>2^53\<close>.
\<close>

subsection \<open>Counter animation\<close>

text \<open>The state of one \<open>animateCounter\<close> run: \<open>current\<close>, \<open>target\<close>, \<open>step\<close>,
  the element's \<open>textContent\<close> and whether the interval is still set.\<close>

record counter_anim =
  cur :: rat
  tgt :: nat
  stp :: rat
  content :: string
  running :: bool

text \<open>\<open>parseInt(text.replace(/\D/g, '')) || 0\<close>.\<close>

definition counter_target :: "string \<Rightarrow> nat" where
  "counter_target s = (case parseInt_digits (keep_digits s) of None \<Rightarrow> 0 | Some n \<Rightarrow> n)"

definition counter_duration :: nat where
  "counter_duration = 2000"

definition counter_period :: nat where
  "counter_period = 16"

text \<open>\<open>target / (duration / 16)\<close> in doubles; \<open>2000 / 16\<close> is exactly 125.\<close>

definition counter_step :: "nat \<Rightarrow> rat" where
  "counter_step t = dbl_div (of_nat t) (dbl_div (of_nat counter_duration) (of_nat counter_period))"

definition counter_start :: "string \<Rightarrow> counter_anim" where
  "counter_start s =
     (let t = counter_target s in
      \<lparr>cur = 0, tgt = t, stp = counter_step t, content = s, running = True\<rparr>)"

text \<open>One interval tick: \<open>current += step\<close> (a double addition), clamp at the
  target and clear the interval there, then write \<open>Math.floor(current)\<close>
  followed by the current text with its digits removed.\<close>

definition counter_tick :: "counter_anim \<Rightarrow> counter_anim" where
  "counter_tick c =
     (let c1 = dbl_add (cur c) (stp c);
          stop = of_nat (tgt c) \<le> c1;
          c2 = (if stop then of_nat (tgt c) else c1);
          suffix = strip_digits (content c) in
      c\<lparr>cur := c2, running := \<not> stop, content := show_nat (nat \<lfloor>c2\<rfloor>) @ suffix\<rparr>)"

text \<open>The interval: ticks until it is cleared, returning the texts shown, one per
  tick; \<open>None\<close> would be an interval that is never cleared.\<close>

partial_function (option) counter_loop :: "counter_anim \<Rightarrow> string list option" where
  "counter_loop c =
     (if running c
      then Option.bind (counter_loop (counter_tick c)) (\<lambda>fs. Some (content (counter_tick c) # fs))
      else Some [])"

text \<open>Specification side: \<open>current\<close> after \<open>k\<close> unclamped additions, the tick
  at which the interval is cleared, and the frames of a whole animation.\<close>

primrec counter_value :: "rat \<Rightarrow> nat \<Rightarrow> rat" where
  "counter_value st 0 = 0"
| "counter_value st (Suc k) = dbl_add (counter_value st k) st"

definition counter_ticks :: "nat \<Rightarrow> nat" where
  "counter_ticks t =
     (if t = 0 then 1 else if of_nat t \<le> counter_value (counter_step t) 125 then 125 else 126)"

definition counter_frames :: "string \<Rightarrow> string list" where
  "counter_frames s =
     (let t = counter_target s; sfx = strip_digits s in
      map (\<lambda>j. show_nat (nat \<lfloor>counter_value (counter_step t) j\<rfloor>) @ sfx) [1..<counter_ticks t]
        @ [show_nat t @ sfx])"

text \<open>The counter observer: entries (element, isIntersecting) in delivery order;
  \<open>animated\<close> is the set of elements whose \<open>data-animated\<close> is set.  Returns
  the final flags and the elements whose animation was started, in order.\<close>

fun counter_observe :: "nat set \<Rightarrow> (nat \<times> bool) list \<Rightarrow> nat set \<times> nat list" where
  "counter_observe animated [] = (animated, [])"
| "counter_observe animated ((el, isect) # es) =
     (if isect \<and> el \<notin> animated
      then (let (a, st) = counter_observe (insert el animated) es in (a, el # st))
      else counter_observe animated es)"

subsection \<open>Scroll reveal and hover on the cards\<close>

text \<open>The inline style of one card and whether it has the \<open>fade-in-up\<close> class.\<close>

record card_style =
  opacity :: string
  transform :: string
  transition :: string
  fade_in_up :: bool

text \<open>What \<open>setupScrollAnimations\<close> does to each card before observing it.\<close>

definition scroll_setup_card :: "card_style \<Rightarrow> card_style" where
  "scroll_setup_card c =
     c\<lparr>opacity := ''0'', transform := ''translateY(30px)'',
       transition := ''opacity 0.6s ease, transform 0.6s ease''\<rparr>"

text \<open>The reveal observer's callback for one entry of this card.\<close>

definition reveal_entry :: "bool \<Rightarrow> card_style \<Rightarrow> card_style" where
  "reveal_entry is_intersecting c =
     (if is_intersecting
      then c\<lparr>opacity := ''1'', transform := ''translateY(0)'', fade_in_up := True\<rparr>
      else c)"

datatype card_event = Intersect bool | MouseEnter | MouseLeave

text \<open>Events on one card; \<open>hoverable\<close> says whether the card matches the hover
  selector (\<open>.card, .team-card, .stat-card, .social-card\<close>; contact and
  schedule cards are revealed but get no hover listeners).\<close>

fun card_step :: "bool \<Rightarrow> card_style \<Rightarrow> card_event \<Rightarrow> card_style" where
  "card_step hoverable c (Intersect b) = reveal_entry b c"
| "card_step hoverable c MouseEnter =
     (if hoverable then c\<lparr>transform := ''translateY(-12px) scale(1.02)''\<rparr> else c)"
| "card_step hoverable c MouseLeave =
     (if hoverable then c\<lparr>transform := ''translateY(0) scale(1)''\<rparr> else c)"

definition card_run :: "bool \<Rightarrow> card_style \<Rightarrow> card_event list \<Rightarrow> card_style" where
  "card_run hoverable c es = foldl (card_step hoverable) c es"

subsection \<open>Particles\<close>

text \<open>Particles per hero section and the number of \<open>#particle-styles\<close>
  elements in the head; each particle's random geometry is \<open>particle_of\<close>
  (theory \<open>Effects\<close>).\<close>

record particle_doc =
  hero_particles :: "nat list"
  particle_styles :: nat

definition particleCount :: nat where
  "particleCount = 20"

definition createParticles :: "nat \<Rightarrow> particle_doc \<Rightarrow> particle_doc" where
  "createParticles i d =
     (let d1 = d\<lparr>hero_particles := (hero_particles d)[i := hero_particles d ! i + particleCount]\<rparr> in
      if particle_styles d = 0 then d1\<lparr>particle_styles := 1\<rparr> else d1)"

definition setupParticleEffects :: "particle_doc \<Rightarrow> particle_doc" where
  "setupParticleEffects d = foldl (\<lambda>d i. createParticles i d) d [0..<length (hero_particles d)]"

subsection \<open>Counter: the loop returns the specified frames\<close>

lemma counter_loop_stopped: "\<not> running c \<Longrightarrow> counter_loop c = Some []"
  by (subst counter_loop.simps) simp

text \<open>From tick \<open>m\<close>, while \<open>current\<close> stays below the target until tick \<open>n\<close>
  reaches it, the loop shows the floors of ticks \<open>m+1, \<dots>, n-1\<close> and then
  the target.\<close>

lemma counter_loop_from:
  assumes "m < n" and below: "\<forall>j. m \<le> j \<longrightarrow> j < n \<longrightarrow> counter_value st j < of_nat t"
    and reach: "of_nat t \<le> counter_value st n"
  shows "counter_loop \<lparr>cur = counter_value st m, tgt = t, stp = st, content = x, running = True\<rparr>
    = Some (map (\<lambda>j. show_nat (nat \<lfloor>counter_value st j\<rfloor>) @ strip_digits x) [Suc m..<n]
            @ [show_nat t @ strip_digits x])"
  using assms(1,2)
proof (induction "n - Suc m" arbitrary: m x)
  case 0
  let ?c = "\<lparr>cur = counter_value st m, tgt = t, stp = st, content = x, running = True\<rparr>"
  have n: "n = Suc m" using 0 by simp
  have "counter_tick ?c = \<lparr>cur = of_nat t, tgt = t, stp = st,
      content = show_nat t @ strip_digits x, running = False\<rparr>"
    using reach n by (simp add: counter_tick_def Let_def)
  then show ?case
    using n by (simp add: counter_loop.simps [of ?c] counter_loop_stopped)
next
  case (Suc d)
  let ?c = "\<lparr>cur = counter_value st m, tgt = t, stp = st, content = x, running = True\<rparr>"
  let ?x' = "show_nat (nat \<lfloor>counter_value st (Suc m)\<rfloor>) @ strip_digits x"
  have lt: "Suc m < n" using Suc.hyps(2) by simp
  then have "counter_value st (Suc m) < of_nat t" using Suc.prems(2) [rule_format, of "Suc m"] by simp
  then have tick: "counter_tick ?c = \<lparr>cur = counter_value st (Suc m), tgt = t, stp = st,
      content = ?x', running = True\<rparr>"
    by (simp add: counter_tick_def Let_def)
  have IH: "counter_loop (counter_tick ?c)
      = Some (map (\<lambda>j. show_nat (nat \<lfloor>counter_value st j\<rfloor>) @ strip_digits x) [Suc (Suc m)..<n]
              @ [show_nat t @ strip_digits x])"
    using Suc.hyps(1) [of "Suc m" ?x'] Suc.hyps(2) Suc.prems(2) lt tick by simp
  have "[Suc m..<n] = Suc m # [Suc (Suc m)..<n]"
    using lt by (simp add: upt_rec)
  then show ?case
    using IH tick by (simp add: counter_loop.simps [of ?c])
qed

subsection \<open>Counter: error analysis of the double additions\<close>

lemma counter_step_eq: "counter_step t = round_double (of_nat t / 125)"
  by (simp add: counter_step_def dbl_div_def counter_duration_def counter_period_def round_double_125)

lemma counter_step_bounds:
  "of_nat t / 125 * (1 - 1 / 2 ^ 53) \<le> counter_step t \<and> counter_step t \<le> of_nat t / 125 * (1 + 1 / 2 ^ 53)"
  unfolding counter_step_eq by (rule round_double_bounds) simp

lemma counter_value_nonneg: "0 \<le> st \<Longrightarrow> 0 \<le> counter_value st k"
  by (induction k) (simp_all add: dbl_add_def round_double_nonneg)

lemma counter_value_upper:
  assumes "0 \<le> st"
  shows "counter_value st k \<le> of_nat k * st * (1 + 1 / 2 ^ 53) ^ k"
proof (induction k)
  case 0
  then show ?case by simp
next
  case (Suc k)
  let ?p = "(1 + 1 / 2 ^ 53 :: rat) ^ k"
  have v: "0 \<le> counter_value st k" using counter_value_nonneg [OF assms] .
  have "1 \<le> ?p" by (rule one_le_power) simp
  then have sp: "st \<le> st * ?p" using mult_left_mono [of 1 ?p st] assms by simp
  have "counter_value st (Suc k) \<le> (counter_value st k + st) * (1 + 1 / 2 ^ 53)"
    using round_double_bounds [of "counter_value st k + st"] v assms by (simp add: dbl_add_def)
  also have "\<dots> \<le> (of_nat k * st * ?p + st * ?p) * (1 + 1 / 2 ^ 53)"
    by (rule mult_right_mono [OF add_mono [OF Suc.IH sp]]) simp
  also have "\<dots> = of_nat (Suc k) * st * (1 + 1 / 2 ^ 53) ^ Suc k"
    by (simp add: algebra_simps)
  finally show ?case .
qed

lemma counter_value_lower:
  assumes "0 \<le> st"
  shows "of_nat k * st * (1 - 1 / 2 ^ 53) ^ k \<le> counter_value st k"
proof (induction k)
  case 0
  then show ?case by simp
next
  case (Suc k)
  let ?p = "(1 - 1 / 2 ^ 53 :: rat) ^ k"
  have v: "0 \<le> counter_value st k" using counter_value_nonneg [OF assms] .
  have "of_nat (Suc k) * st * (1 - 1 / 2 ^ 53) ^ Suc k = (of_nat k * st * ?p + st * ?p) * (1 - 1 / 2 ^ 53)"
    by (simp add: algebra_simps)
  also have "\<dots> \<le> (counter_value st k + st) * (1 - 1 / 2 ^ 53)"
    using Suc.IH assms by (intro mult_right_mono add_mono) (simp_all add: power_le_one mult_left_le)
  also have "\<dots> \<le> counter_value st (Suc k)"
    using round_double_bounds [of "counter_value st k + st"] v assms by (simp add: dbl_add_def)
  finally show ?case .
qed

text \<open>An addition never lowers \<open>current\<close> while \<open>current\<close> is small against the step.\<close>

lemma counter_value_step_mono:
  assumes "0 \<le> st" and small: "counter_value st k / 2 ^ 53 \<le> st * (1 - 1 / 2 ^ 53)"
  shows "counter_value st k \<le> counter_value st (Suc k)"
proof -
  have "counter_value st k \<le> (counter_value st k + st) * (1 - 1 / 2 ^ 53)"
    using small by (simp add: algebra_simps)
  also have "\<dots> \<le> counter_value st (Suc k)"
    using round_double_bounds [of "counter_value st k + st"] counter_value_nonneg [OF assms(1)] assms(1)
    by (simp add: dbl_add_def)
  finally show ?thesis .
qed

text \<open>With a positive target, \<open>current\<close> stays below it for the first 124
  additions and reaches it by the 126th: the accumulated error of at most
  126 roundings is far below one step.\<close>

lemma counter_ticks_stop:
  assumes "0 < t"
  shows "(\<forall>j < counter_ticks t. counter_value (counter_step t) j < of_nat t)
    \<and> of_nat t \<le> counter_value (counter_step t) (counter_ticks t)
    \<and> counter_ticks t \<in> {125, 126}"
proof -
  define p where "p = (1 + 1 / 2 ^ 53 :: rat)"
  define q where "q = (1 - 1 / 2 ^ 53 :: rat)"
  let ?st = "counter_step t" and ?T = "of_nat t :: rat"
  have T0: "0 < ?T" using assms by simp
  have sl: "?T / 125 * q \<le> ?st" and su: "?st \<le> ?T / 125 * p"
    using counter_step_bounds [of t, folded p_def q_def] by auto
  have q0: "0 \<le> q" and p1: "1 \<le> p" by (simp_all add: p_def q_def)
  have st0: "0 \<le> ?st" using order_trans [OF _ sl] T0 q0 by simp
  have P: "p ^ 125 * (1 - 125 / 9007199254740992) \<le> 1"
    using eps_pow_upper [of 125, folded p_def] by simp
  have Q: "1 - 127 / 9007199254740992 \<le> q ^ 127"
    using eps_pow_lower [of 127, folded q_def] by simp
  have below: "counter_value ?st j < ?T" if "j \<le> 124" for j
  proof -
    have "counter_value ?st j \<le> of_nat j * ?st * p ^ j"
      using counter_value_upper [OF st0, of j, folded p_def] .
    also have "\<dots> \<le> 124 * ?st * p ^ 124"
      using that st0 p1 by (intro mult_mono power_increasing mult_right_mono) simp_all
    also have "\<dots> \<le> 124 * (?T / 125 * p) * p ^ 124"
      using su p1 by (intro mult_right_mono mult_left_mono) simp_all
    also have "\<dots> = ?T * (124 / 125 * p ^ 125)"
      by (simp add: power_Suc [symmetric] del: power_Suc)
    also have "\<dots> < ?T"
    proof -
      have X0: "0 < p ^ 125" using p1 by simp
      have "124 / 125 * p ^ 125 < (1 - 125 / 9007199254740992) * p ^ 125"
        by (rule mult_strict_right_mono [OF _ X0]) simp
      also have "\<dots> \<le> 1" using P by (simp only: mult.commute)
      finally have "124 / 125 * p ^ 125 < 1" .
      then show ?thesis using T0 by simp
    qed
    finally show ?thesis .
  qed
  have reach: "?T \<le> counter_value ?st 126"
  proof -
    have "?T \<le> ?T * (126 / 125 * q ^ 127)"
    proof -
      have "1 \<le> 126 / 125 * q ^ 127" using Q by linarith
      then show ?thesis using T0 by simp
    qed
    also have "\<dots> = 126 * (?T / 125 * q) * q ^ 126"
      by (simp add: power_Suc [symmetric] del: power_Suc)
    also have "\<dots> \<le> 126 * ?st * q ^ 126"
      using sl q0 by (intro mult_right_mono mult_left_mono) simp_all
    also have "\<dots> \<le> counter_value ?st 126"
      using counter_value_lower [OF st0, of 126, folded q_def] by simp
    finally show ?thesis .
  qed
  show ?thesis
  proof (cases "?T \<le> counter_value ?st 125")
    case True
    then show ?thesis using assms below by (simp add: counter_ticks_def)
  next
    case False
    have "counter_value ?st j < ?T" if "j < 126" for j
      using that below False by (cases "j = 125") simp_all
    then show ?thesis using assms False reach by (simp add: counter_ticks_def)
  qed
qed

text \<open>Below the target an addition never lowers \<open>current\<close>.\<close>

lemma counter_value_mono_below:
  assumes "0 < t" and "counter_value (counter_step t) j < of_nat t"
  shows "counter_value (counter_step t) j \<le> counter_value (counter_step t) (Suc j)"
proof -
  define q where "q = (1 - 1 / 2 ^ 53 :: rat)"
  let ?st = "counter_step t" and ?T = "of_nat t :: rat"
  have sl: "?T / 125 * q \<le> ?st"
    using counter_step_bounds [of t, folded q_def] by auto
  have q0: "0 \<le> q" and qq: "1 / 2 ^ 53 \<le> q * q / 125" by (simp_all add: q_def)
  have st0: "0 \<le> ?st" using order_trans [OF _ sl] q0 by simp
  have "counter_value ?st j / 2 ^ 53 \<le> ?T * (1 / 2 ^ 53)"
    using assms(2) by simp
  also have "\<dots> \<le> ?T * (q * q / 125)"
    using qq by (intro mult_left_mono) simp_all
  also have "\<dots> = ?T / 125 * q * q" by simp
  also have "\<dots> \<le> ?st * q"
    using sl q0 by (rule mult_right_mono)
  finally show ?thesis
    using counter_value_step_mono [OF st0] by (simp add: q_def)
qed

lemma counter_start_eq:
  "counter_start s = \<lparr>cur = counter_value (counter_step (counter_target s)) 0, tgt = counter_target s,
     stp = counter_step (counter_target s), content = s, running = True\<rparr>"
  by (simp add: counter_start_def Let_def)

lemma counter_loop_start: "counter_loop (counter_start s) = Some (counter_frames s)"
proof (cases "counter_target s = 0")
  case True
  let ?c0 = "\<lparr>cur = 0, tgt = 0, stp = 0, content = s, running = True\<rparr> :: counter_anim"
  have c0: "counter_start s = ?c0"
    using True by (simp add: counter_start_def counter_step_eq round_double_def)
  have tick: "counter_tick ?c0 =
      \<lparr>cur = 0, tgt = 0, stp = 0, content = show_nat 0 @ strip_digits s, running = False\<rparr>"
    by (simp add: counter_tick_def Let_def dbl_add_def round_double_def)
  show ?thesis
    using True by (simp add: c0 counter_loop.simps [of ?c0] tick counter_loop_stopped counter_frames_def
        counter_ticks_def)
next
  case False
  then have "0 < counter_target s" by simp
  note stop = counter_ticks_stop [OF this]
  have "0 < counter_ticks (counter_target s)" by (simp add: counter_ticks_def)
  with stop show ?thesis
    using counter_loop_from [of 0 "counter_ticks (counter_target s)" "counter_step (counter_target s)"
        "counter_target s" s]
    by (simp add: counter_start_eq counter_frames_def Let_def)
qed

lemma sorted_map_upt_step:
  assumes "\<And>i. a \<le> i \<Longrightarrow> Suc i < b \<Longrightarrow> g i \<le> (g (Suc i) :: nat)"
  shows "sorted (map g [a..<b])"
  unfolding sorted_iff_nth_Suc using assms by (simp add: nth_map_upt)

text \<open>
  C25: the numbers the counter shows never decrease and never exceed the
  target (the frames' numbers followed by the target form a sorted list).
\<close>

theorem counter_numbers_sorted:
  "map_option (\<lambda>fs. sorted (map (\<lambda>f. parse_nat (keep_digits f)) fs @ [counter_target s]))
     (counter_loop (counter_start s)) = Some True"
proof (cases "counter_target s = 0")
  case True
  then show ?thesis
    by (simp add: counter_loop_start counter_frames_def counter_ticks_def parse_show_nat)
next
  case False
  let ?t = "counter_target s"
  let ?v = "counter_value (counter_step ?t)"
  let ?g = "\<lambda>j. nat \<lfloor>?v j\<rfloor>"
  have t0: "0 < ?t" using False by simp
  note stop = counter_ticks_stop [OF t0]
  have "sorted (map ?g [1..<counter_ticks ?t])"
  proof (rule sorted_map_upt_step)
    fix i assume "Suc i < counter_ticks ?t"
    then have "?v i \<le> ?v (Suc i)" using stop counter_value_mono_below [OF t0] by simp
    then show "?g i \<le> ?g (Suc i)" by (intro nat_mono floor_mono)
  qed
  moreover have "?g j \<le> ?t" if "j < counter_ticks ?t" for j
  proof -
    have "?v j \<le> of_nat ?t" using stop that by (simp add: less_imp_le)
    then have "\<lfloor>?v j\<rfloor> \<le> int ?t" by (simp add: floor_le_iff)
    then show ?thesis by simp
  qed
  ultimately have "sorted (map ?g [1..<counter_ticks ?t] @ [?t, ?t])"
    by (auto simp: sorted_append)
  then show ?thesis
    by (simp add: counter_loop_start counter_frames_def Let_def parse_show_nat o_def)
qed

text \<open>
  C4: the counter interval is always cleared: the animation of any text
  returns after 125 or 126 ticks (one when the target is 0; the 126th tick
  happens when the rounded additions fall short of the target), and its last
  frame is the target followed by the text's non-digit characters.
\<close>

theorem counter_terminates_final:
  "\<exists>fs. counter_loop (counter_start s) = Some fs
     \<and> last fs = show_nat (counter_target s) @ strip_digits s
     \<and> length fs \<in> (if counter_target s = 0 then {1} else {125, 126})"
proof (cases "counter_target s = 0")
  case True
  then show ?thesis by (simp add: counter_loop_start counter_frames_def counter_ticks_def)
next
  case False
  then have "counter_ticks (counter_target s) \<in> {125, 126}"
    using counter_ticks_stop [of "counter_target s"] by simp
  then show ?thesis
    using False by (auto simp: counter_loop_start counter_frames_def Let_def)
qed

subsection \<open>Counter observer, cards and particles\<close>

text \<open>
  C33: the counter observer starts each element's animation at most once,
  never for an element already flagged, and only for elements reported intersecting.
\<close>

theorem counter_observe_once:
  "distinct (snd (counter_observe A es))
   \<and> set (snd (counter_observe A es)) \<inter> A = {}
   \<and> set (snd (counter_observe A es)) \<subseteq> {el. (el, True) \<in> set es}"
  by (induction A es rule: counter_observe.induct)
     (auto simp: Let_def split: prod.splits dest: arg_cong [where f = set])

lemma card_run_append [simp]: "card_run h c (es @ fs) = card_run h (card_run h c es) fs"
  by (simp add: card_run_def)

lemma card_run_simps [simp]:
  "card_run h c [] = c" "card_run h c (e # es) = card_run h (card_step h c e) es"
  by (simp_all add: card_run_def)

lemma card_revealed_stays:
  "opacity c = ''1'' \<and> fade_in_up c \<Longrightarrow> opacity (card_run h c es) = ''1'' \<and> fade_in_up (card_run h c es)"
proof (induction es arbitrary: c)
  case Nil
  then show ?case by simp
next
  case (Cons e es)
  then show ?case by (cases e) (simp_all add: reveal_entry_def)
qed

text \<open>
  C35: once a card has been reported intersecting it stays revealed (opacity 1,
  class fade-in-up) whatever the later hover and observer events.
\<close>

theorem card_reveal_one_shot:
  "opacity (card_run h c (es1 @ Intersect True # es2)) = ''1''
   \<and> fade_in_up (card_run h c (es1 @ Intersect True # es2))"
  by (simp add: card_revealed_stays reveal_entry_def)

text \<open>
  hover and reveal write the same transform: hovering a card before it
  is revealed cancels its slide-in, and a reveal while hovered drops the lift.
\<close>

theorem card_hover_before_reveal:
  "transform (card_run True (scroll_setup_card c) [MouseEnter, MouseLeave]) = ''translateY(0) scale(1)''
   \<and> opacity (card_run True (scroll_setup_card c) [MouseEnter, MouseLeave]) = ''0''
   \<and> transform (card_run True (scroll_setup_card c) [MouseEnter, Intersect True]) = ''translateY(0)''"
  by (simp add: scroll_setup_card_def reveal_entry_def)

lemma createParticles_particles:
  "i < length (hero_particles d) \<Longrightarrow>
   hero_particles (createParticles i d) = (hero_particles d)[i := hero_particles d ! i + 20]"
  by (simp add: createParticles_def Let_def particleCount_def)

lemma createParticles_styles:
  "particle_styles (createParticles i d) = (if particle_styles d = 0 then 1 else particle_styles d)"
  by (simp add: createParticles_def Let_def)

lemma particles_prefix:
  "n \<le> length (hero_particles d) \<Longrightarrow>
   hero_particles (foldl (\<lambda>d i. createParticles i d) d [0..<n])
     = map (\<lambda>k. k + 20) (take n (hero_particles d)) @ drop n (hero_particles d)"
proof (induction n)
  case 0
  then show ?case by simp
next
  case (Suc n)
  let ?xs = "hero_particles d"
  let ?d = "foldl (\<lambda>d i. createParticles i d) d [0..<n]"
  have IH: "hero_particles ?d = map (\<lambda>k. k + 20) (take n ?xs) @ drop n ?xs"
    using Suc by simp
  have n: "n < length ?xs" using Suc.prems by simp
  then have drop: "drop n ?xs = ?xs ! n # drop (Suc n) ?xs"
    by (simp add: Cons_nth_drop_Suc)
  have "hero_particles (createParticles n ?d) = (hero_particles ?d)[n := hero_particles ?d ! n + 20]"
    using n IH by (simp add: createParticles_particles)
  also have "\<dots> = map (\<lambda>k. k + 20) (take (Suc n) ?xs) @ drop (Suc n) ?xs"
    using n IH drop by (simp add: list_update_append nth_append take_Suc_conv_app_nth)
  finally show ?case by simp
qed

lemma particle_styles_foldl:
  "particle_styles (foldl (\<lambda>d i. createParticles i d) d hs)
     = (if hs = [] \<or> particle_styles d \<noteq> 0 then particle_styles d else 1)"
  by (induction hs arbitrary: d) (auto simp: createParticles_styles)

text \<open>
  particle setup adds exactly 20 particles to every hero section and
  inserts the shared particle style element at most once.
\<close>

theorem setupParticleEffects_result:
  "hero_particles (setupParticleEffects d) = map (\<lambda>k. k + 20) (hero_particles d)
   \<and> particle_styles (setupParticleEffects d)
       = (if hero_particles d = [] \<or> particle_styles d \<noteq> 0 then particle_styles d else 1)"
  by (simp add: setupParticleEffects_def particles_prefix particle_styles_foldl)

end
