(* ===== verification/Timers.thy ===== *)
theory Timers
  imports Prelude
begin

text \<open>
  Browser timers as the script uses them.  \<open>setInterval(f, p)\<close> called at time
  \<open>s\<close> runs \<open>f\<close> at \<open>s + p\<close>, \<open>s + 2p\<close>, \<dots>; letting time pass until \<open>t\<close>
  runs every callback due by then, in order.  \<open>interval_run\<close> is that loop,
  one run per iteration, the \<open>k\<close>-th run getting its index (the script's
  callbacks draw \<open>Math.random()\<close>, one draw per run).  The loop terminates
  because every iteration moves the next due time forward by the period; the
  period is positive at every call site (3000, 10000, 300000 ms), and the guard
  \<open>0 < p\<close> only makes the function total.  \<open>interval_run_closed\<close> is its
  closed form: the number of runs by time \<open>t\<close> and the state as a fold over
  the run indices.
\<close>

function interval_run :: "ms \<Rightarrow> (nat \<Rightarrow> 's \<Rightarrow> 's) \<Rightarrow> ms \<Rightarrow> ms \<times> nat \<times> 's \<Rightarrow> ms \<times> nat \<times> 's" where
  "interval_run p f t (due, k, st) =
     (if 0 < p \<and> due \<le> t then interval_run p f t (due + p, Suc k, f k st) else (due, k, st))"
  by pat_completeness auto

termination
  by (relation "measure (\<lambda>(p, f, t, due, k, st). Suc t - due)") auto

declare interval_run.simps [simp del]

text \<open>The number of runs due in \<open>[due, t]\<close> with period \<open>p\<close>.\<close>

definition runs_due :: "ms \<Rightarrow> ms \<Rightarrow> ms \<Rightarrow> nat" where
  "runs_due p due t = (if due \<le> t then (t - due) div p + 1 else 0)"

text \<open>Runs with indices \<open>k, k+1, \<dots>, k+n-1\<close> applied in order.\<close>

definition run_indices :: "(nat \<Rightarrow> 's \<Rightarrow> 's) \<Rightarrow> nat \<Rightarrow> nat \<Rightarrow> 's \<Rightarrow> 's" where
  "run_indices f k n st = foldl (\<lambda>s j. f j s) st [k..<k + n]"

subsection \<open>The closed form\<close>

lemma run_indices_Suc [simp]: "run_indices f k (Suc n) st = run_indices f (Suc k) n (f k st)"
  by (simp add: run_indices_def upt_conv_Cons del: upt_Suc)

lemma run_indices_0 [simp]: "run_indices f k 0 st = st"
  by (simp add: run_indices_def)

lemma runs_due_step:
  assumes "0 < p" "due \<le> t"
  shows "runs_due p due t = Suc (runs_due p (due + p) t)"
proof (cases "due + p \<le> t")
  case True
  then have "(t - due) div p = Suc ((t - due - p) div p)"
    using assms(1) by (simp add: le_div_geq)
  with True assms(2) show ?thesis by (simp add: runs_due_def diff_diff_left)
next
  case False
  then have "(t - due) div p = 0" using assms by (simp add: div_less)
  with False assms(2) show ?thesis by (simp add: runs_due_def)
qed

theorem interval_run_closed:
  assumes "0 < p"
  shows "interval_run p f t (due, k, st)
    = (due + p * runs_due p due t, k + runs_due p due t, run_indices f k (runs_due p due t) st)"
  using assms
proof (induction "Suc t - due" arbitrary: due k st rule: less_induct)
  case less
  show ?case
  proof (cases "due \<le> t")
    case True
    then have "interval_run p f t (due, k, st) = interval_run p f t (due + p, Suc k, f k st)"
      using less.prems by (simp add: interval_run.simps)
    moreover have "Suc t - (due + p) < Suc t - due"
      using True less.prems by simp
    ultimately have "interval_run p f t (due, k, st)
        = (due + p + p * runs_due p (due + p) t, Suc k + runs_due p (due + p) t,
           run_indices f (Suc k) (runs_due p (due + p) t) (f k st))"
      using less.hyps less.prems by presburger
    then show ?thesis
      using True less.prems by (simp add: runs_due_step [of p due t])
  next
    case False
    then show ?thesis by (simp add: interval_run.simps runs_due_def)
  qed
qed

lemma runs_due_from_start:
  assumes "0 < p"
  shows "runs_due p (s + p) t = (if s \<le> t then (t - s) div p else 0)"
proof (cases "s + p \<le> t")
  case True
  then have "(t - s) div p = Suc ((t - s - p) div p)"
    using assms by (simp add: le_div_geq)
  with True show ?thesis by (simp add: runs_due_def diff_diff_left)
next
  case False
  then have "s \<le> t \<Longrightarrow> (t - s) div p = 0" by (simp add: div_less)
  with False show ?thesis by (auto simp: runs_due_def)
qed

text \<open>A callback whose run overwrites everything an earlier run wrote: after
  \<open>n + 1\<close> runs only the last one shows.\<close>

lemma run_indices_overwrite:
  assumes "\<And>i j s. f j (f i s) = f j s"
  shows "run_indices f k (Suc n) st = f (k + n) st"
proof (induction n arbitrary: k st)
  case 0
  then show ?case by simp
next
  case (Suc n)
  have "run_indices f k (Suc (Suc n)) st = run_indices f (Suc k) (Suc n) (f k st)" by simp
  also have "\<dots> = f (Suc k + n) (f k st)" by (rule Suc.IH)
  finally show ?case using assms by simp
qed

end
