(* ===== verification/Effects.thy ===== *)
theory Effects
  imports Animations Timers
begin

text \<open>
  The rest of \<open>setupHoverEffects\<close> (src/Script.js lines 161--181) and
  \<open>Animations.init\<close> (lines 119--124).
  \<^item> Button glow: \<open>mouseenter\<close>/\<open>mouseleave\<close> on every \<open>.btn-primary\<close>
    set and clear its \<open>box-shadow\<close>.
  \<^item> Logo pulse: when \<open>.logo-icon\<close> exists, a 3000 ms \<open>setInterval\<close> whose
    callback scales the logo up and schedules a 200 ms \<open>setTimeout\<close> that
    scales it back.  The pending timeouts and the interval's next due time are
    the state; \<open>logo_advance\<close> lets time pass, running the earliest due
    callback first (an earlier-scheduled timeout first on a tie), and
    terminates by a weight that every callback lowers.  \<open>logo_timeline\<close>
    gives the transform at every time in closed form.
  \<^item> \<open>animations_init\<close>: the four setups in the order of \<open>Animations.init\<close>;
    the first constructs an \<open>IntersectionObserver\<close> and throws a
    \<open>ReferenceError\<close> before any effect when the browser has none.
\<close>

subsection \<open>Button glow\<close>

datatype glow_event = GlowEnter | GlowLeave

fun glow_step :: "string \<Rightarrow> glow_event \<Rightarrow> string" where
  "glow_step sh GlowEnter = ''0 8px 30px rgba(88, 101, 242, 0.4)''"
| "glow_step sh GlowLeave = []"

subsection \<open>Particle geometry\<close>

text \<open>The random parts of one particle's \<open>cssText\<close> in \<open>createParticles\<close>
  (lines 205--208), from its four draws: the \<open>float\<close> animation's duration and
  delay in seconds and its position in percent.\<close>

record particle_css =
  float_seconds :: real
  left_pct :: real
  top_pct :: real
  delay_seconds :: real

definition particle_of :: "real \<Rightarrow> real \<Rightarrow> real \<Rightarrow> real \<Rightarrow> particle_css" where
  "particle_of r1 r2 r3 r4 =
     \<lparr>float_seconds = 3 + r1 * 4, left_pct = r2 * 100, top_pct = r3 * 100, delay_seconds = r4 * 2\<rparr>"

subsection \<open>Logo pulse\<close>

record logo_state =
  logo_transform :: string
  next_pulse :: ms
  reset_dues :: "ms list"

definition logo_period :: ms where
  "logo_period = 3000"

definition logo_reset_delay :: ms where
  "logo_reset_delay = 200"

text \<open>The interval callback, at its due time: scale up, schedule the reset, re-arm.\<close>

definition logo_pulse :: "logo_state \<Rightarrow> logo_state" where
  "logo_pulse s =
     s\<lparr>logo_transform := ''scale(1.1)'',
       reset_dues := reset_dues s @ [next_pulse s + logo_reset_delay],
       next_pulse := next_pulse s + logo_period\<rparr>"

text \<open>The earliest pending \<open>setTimeout\<close> callback.\<close>

definition logo_reset :: "logo_state \<Rightarrow> logo_state" where
  "logo_reset s = s\<lparr>logo_transform := ''scale(1)'', reset_dues := tl (reset_dues s)\<rparr>"

function logo_advance :: "ms \<Rightarrow> logo_state \<Rightarrow> logo_state" where
  "logo_advance t s =
     (if reset_dues s \<noteq> [] \<and> hd (reset_dues s) \<le> t \<and> hd (reset_dues s) \<le> next_pulse s
      then logo_advance t (logo_reset s)
      else if next_pulse s \<le> t then logo_advance t (logo_pulse s)
      else s)"
  by pat_completeness auto

termination
  by (relation "measure (\<lambda>(t, s). 2 * (Suc t - next_pulse s) + length (reset_dues s))")
     (auto simp: logo_reset_def logo_pulse_def logo_period_def)

declare logo_advance.simps [simp del]

text \<open>\<open>setupHoverEffects\<close>' logo part, called at time 0: the interval is set only
  when the logo exists; \<open>tr0\<close> is the logo's inline transform from the markup.\<close>

definition setupLogoPulse :: "bool \<Rightarrow> string \<Rightarrow> logo_state option" where
  "setupLogoPulse has_logo tr0 =
     (if has_logo then Some \<lparr>logo_transform = tr0, next_pulse = logo_period, reset_dues = []\<rparr> else None)"

text \<open>The specification: the logo's transform at time \<open>t\<close>.\<close>

definition logo_timeline :: "string \<Rightarrow> ms \<Rightarrow> string" where
  "logo_timeline tr0 t =
     (if t < logo_period then tr0
      else if t mod logo_period < logo_reset_delay then ''scale(1.1)'' else ''scale(1)'')"

subsection \<open>Animations.init\<close>

text \<open>What \<open>Animations.init\<close> changes: the cards' reveal styles, the number of
  logo-pulse intervals set (each call sets one more), the particles, and whether
  the counters are observed.  Hover and glow listeners are the event functions above.\<close>

record anim_dom =
  anim_cards :: "card_style list"
  logo_intervals :: nat
  anim_heroes :: particle_doc
  counters_observed :: bool

definition animations_init :: "bool \<Rightarrow> bool \<Rightarrow> anim_dom \<Rightarrow> anim_dom outcome" where
  "animations_init io_supported has_logo d =
     (if \<not> io_supported then Threw (ReferenceError ''IntersectionObserver is not defined'') d
      else Done (d\<lparr>anim_cards := map scroll_setup_card (anim_cards d),
                   logo_intervals := logo_intervals d + (if has_logo then 1 else 0),
                   anim_heroes := setupParticleEffects (anim_heroes d),
                   counters_observed := True\<rparr>))"

subsection \<open>Particles stay in the hero\<close>

lemma particle_of_bounds:
  assumes "\<forall>r \<in> {r1, r2, r3, r4}. 0 \<le> r \<and> r < 1"
  shows "3 \<le> float_seconds (particle_of r1 r2 r3 r4) \<and> float_seconds (particle_of r1 r2 r3 r4) < 7
    \<and> 0 \<le> left_pct (particle_of r1 r2 r3 r4) \<and> left_pct (particle_of r1 r2 r3 r4) < 100
    \<and> 0 \<le> top_pct (particle_of r1 r2 r3 r4) \<and> top_pct (particle_of r1 r2 r3 r4) < 100
    \<and> 0 \<le> delay_seconds (particle_of r1 r2 r3 r4) \<and> delay_seconds (particle_of r1 r2 r3 r4) < 2"
  using assms by (simp add: particle_of_def)

subsection \<open>The logo timeline\<close>

lemma logo_advance_reset:
  "reset_dues s \<noteq> [] \<Longrightarrow> hd (reset_dues s) \<le> t \<Longrightarrow> hd (reset_dues s) \<le> next_pulse s \<Longrightarrow>
   logo_advance t s = logo_advance t (logo_reset s)"
  by (subst logo_advance.simps [of t s]) auto

lemma logo_advance_pulse:
  "\<not> (reset_dues s \<noteq> [] \<and> hd (reset_dues s) \<le> t \<and> hd (reset_dues s) \<le> next_pulse s) \<Longrightarrow>
   next_pulse s \<le> t \<Longrightarrow> logo_advance t s = logo_advance t (logo_pulse s)"
  by (subst logo_advance.simps [of t s]) auto

lemma logo_advance_stop:
  "\<not> (reset_dues s \<noteq> [] \<and> hd (reset_dues s) \<le> t \<and> hd (reset_dues s) \<le> next_pulse s) \<Longrightarrow>
   t < next_pulse s \<Longrightarrow> logo_advance t s = s"
  by (subst logo_advance.simps [of t s]) auto

text \<open>From a state between pulses with no pending reset, the transform follows
  the pulse period from the next due time on.\<close>

lemma logo_from:
  assumes "next_pulse s = np" "reset_dues s = []"
  shows "logo_transform (logo_advance t s)
    = (if t < np then logo_transform s
       else if (t - np) mod logo_period < logo_reset_delay then ''scale(1.1)'' else ''scale(1)'')"
  using assms
proof (induction "t - np" arbitrary: s np rule: less_induct)
  case less
  let ?s1 = "logo_pulse s"
  let ?s2 = "logo_reset ?s1"
  show ?case
  proof (cases "t < np")
    case True
    then show ?thesis using less.prems by (simp add: logo_advance_stop)
  next
    case False
    then have a1: "logo_advance t s = logo_advance t ?s1"
      using less.prems by (simp add: logo_advance_pulse)
    show ?thesis
    proof (cases "t < np + logo_reset_delay")
      case True
      then have "logo_advance t ?s1 = ?s1"
        using less.prems by (intro logo_advance_stop) (simp_all add: logo_pulse_def logo_period_def logo_reset_delay_def)
      with a1 True False show ?thesis
        by (simp add: logo_pulse_def logo_period_def logo_reset_delay_def)
    next
      case no_pulse: False
      have a2: "logo_advance t ?s1 = logo_advance t ?s2"
        using no_pulse less.prems
        by (intro logo_advance_reset) (simp_all add: logo_pulse_def logo_period_def logo_reset_delay_def)
      have s2: "next_pulse ?s2 = np + logo_period" "reset_dues ?s2 = []"
        "logo_transform ?s2 = ''scale(1)''"
        using less.prems by (simp_all add: logo_pulse_def logo_reset_def)
      show ?thesis
      proof (cases "t < np + logo_period")
        case True
        then have "logo_advance t ?s2 = ?s2" using s2 by (intro logo_advance_stop) simp_all
        moreover have "(t - np) mod logo_period = t - np" using True False by (simp add: logo_period_def)
        ultimately show ?thesis using a1 a2 s2 False no_pulse by simp
      next
        case later: False
        have "t - (np + logo_period) < t - np" using later by (simp add: logo_period_def)
        from less.hyps [OF this s2(1,2)]
        have "logo_transform (logo_advance t ?s2)
            = (if (t - (np + logo_period)) mod logo_period < logo_reset_delay then ''scale(1.1)'' else ''scale(1)'')"
          using later by simp
        moreover have "(t - (np + logo_period)) mod logo_period = (t - np) mod logo_period"
          using le_mod_geq [of logo_period "t - np"] later by (simp add: diff_diff_left)
        ultimately show ?thesis using a1 a2 False by simp
      qed
    qed
  qed
qed

text \<open>
  C10: once the page has a logo, its transform at every time \<open>t\<close> is the initial
  one for the first 3 s, then \<open>scale(1.1)\<close> during the first 200 ms of every
  3 s period and \<open>scale(1)\<close> for the rest: the simulation of the interval and
  its timeouts refines the timeline.
\<close>

theorem logo_pulse_timeline:
  "setupLogoPulse True tr0 \<noteq> None
   \<and> logo_transform (logo_advance t (the (setupLogoPulse True tr0))) = logo_timeline tr0 t"
proof -
  have "t mod logo_period = (t - logo_period) mod logo_period" if "logo_period \<le> t"
    using le_mod_geq [OF that] .
  then show ?thesis
    using logo_from [of "\<lparr>logo_transform = tr0, next_pulse = logo_period, reset_dues = []\<rparr>" logo_period t]
    by (auto simp: setupLogoPulse_def logo_timeline_def)
qed

end
