(* ===== verification/Config.thy ===== *)
theory Config
  imports Prelude
begin

text \<open>
  The compiled-in configuration of src/Script.js: the \<open>CONFIG\<close> object
  (lines 4--11) and the \<open>window.getServerInfo\<close> accessor (lines 806--821),
  which returns a fixed record built from it.
\<close>

record js_config =
  ANIMATION_DURATION :: nat
  SCROLL_OFFSET :: int
  DISCORD_INVITE :: string
  MINECRAFT_IP :: string
  BEDROCK_IP :: string
  BEDROCK_PORT :: string

definition CONFIG :: js_config where
  "CONFIG = \<lparr>ANIMATION_DURATION = 300, SCROLL_OFFSET = 80,
     DISCORD_INVITE = ''https://discord.gg/your-invite-code'',
     MINECRAFT_IP = ''cat.fi.freemcserver.net:41600'',
     BEDROCK_IP = ''cat.fi.freemcserver.net'', BEDROCK_PORT = ''41600''\<rparr>"

record server_info =
  java :: string
  bedrock_ip :: string
  bedrock_port :: string
  discord :: string
  creator :: string
  owner :: string

definition getServerInfo :: "unit \<Rightarrow> server_info" where
  "getServerInfo _ =
     \<lparr>java = MINECRAFT_IP CONFIG, bedrock_ip = BEDROCK_IP CONFIG, bedrock_port = BEDROCK_PORT CONFIG,
      discord = DISCORD_INVITE CONFIG, creator = ''Ahsan (purple.prime)'',
      owner = ''Tannej (unknown001010)''\<rparr>"

text \<open>
  the server information is consistent: the Java address is the Bedrock
  host and port joined by a colon, and the port is a decimal number.
\<close>

theorem getServerInfo_consistent:
  "java (getServerInfo ()) = bedrock_ip (getServerInfo ()) @ '':'' @ bedrock_port (getServerInfo ())
   \<and> parseInt_digits (bedrock_port (getServerInfo ())) = Some 41600
   \<and> keep_digits (bedrock_port (getServerInfo ())) = bedrock_port (getServerInfo ())"
  by (simp add: getServerInfo_def CONFIG_def parseInt_digits_def parse_nat_def digit_val_def
      keep_digits_def is_digit_def)

end
