(* ===== verification/Minecraft.thy ===== *)
theory Minecraft
  imports Config
begin

text \<open>
  The \<open>Minecraft\<close> module of src/Script.js (lines 337--504).
  \<^item> \<open>checkServerStatus\<close>: a random draw (\<open>Math.random()\<close>, a real in [0, 1))
    decides online (\<open>> 0.2\<close>) and rewrites the indicator when both elements exist.
  \<^item> \<open>updatePing\<close>: \<open>Math.floor(Math.random() * 100) + 20\<close> and its colour band.
  \<^item> \<open>copyToClipboard\<close> (installed by \<open>setupCopyButtons\<close>) and \<open>showToast\<close>:
    the clipboard, the copy button's label and background, the toasts in the
    body, the toast style element and the pending timeouts they schedule.  The
    outcome of the awaited \<open>navigator.clipboard.writeText\<close> is an input; its
    continuation is modelled as running at the click's time.  Time passes in
    \<open>copy_advance\<close>, which fires due timeouts earliest first, including those
    a timeout schedules itself (the toast's nested \<open>setTimeout\<close>).
  Floating point: \<open>r * 100\<close> for \<open>r < 1\<close> stays below 100 in doubles too, so
  the real-number model of the ping is exact.
\<close>

subsection \<open>Server status and ping\<close>

record status_dom =
  has_status_dot :: bool
  has_status_text :: bool
  dot_className :: string
  status_label :: string
  status_color :: string

definition checkServerStatus :: "real \<Rightarrow> status_dom \<Rightarrow> status_dom" where
  "checkServerStatus r d =
     (let isOnline = r > 0.2 in
      if has_status_dot d \<and> has_status_text d then
        (if isOnline
         then d\<lparr>dot_className := ''status-dot online'', status_label := ''SERVER IS ONLINE!'',
                status_color := ''#22c55e''\<rparr>
         else d\<lparr>dot_className := ''status-dot offline'', status_label := ''SERVER IS OFFLINE'',
                status_color := ''#ef4444''\<rparr>)
      else d)"

definition ping_of :: "real \<Rightarrow> int" where
  "ping_of r = \<lfloor>r * 100\<rfloor> + 20"

definition ping_color :: "int \<Rightarrow> string" where
  "ping_color ping =
     (if ping < 50 then ''#22c55e'' else if ping < 100 then ''#eab308'' else ''#ef4444'')"

record ping_dom =
  has_ping_value :: bool
  ping_text :: string
  ping_style_color :: string

definition updatePing :: "real \<Rightarrow> ping_dom \<Rightarrow> ping_dom" where
  "updatePing r d =
     (if has_ping_value d
      then (let ping = ping_of r in
            d\<lparr>ping_text := show_nat (nat ping), ping_style_color := ping_color ping\<rparr>)
      else d)"

text \<open>\<open>setupServerPing\<close>: the ping element is added (and updated at once) only
  when \<open>.server-info-content\<close> exists and the path contains \<open>minecraft\<close>.\<close>

definition setupServerPing :: "bool \<Rightarrow> string \<Rightarrow> real \<Rightarrow> ping_dom \<Rightarrow> ping_dom" where
  "setupServerPing has_server_info path r d =
     (if has_server_info \<and> js_includes path ''minecraft''
      then updatePing r (d\<lparr>has_ping_value := True, ping_text := ''...''\<rparr>)
      else d)"

subsection \<open>Clipboard copy, button feedback and toasts\<close>

text \<open>The label \<open>'\<checkmark> Copied!'\<close>: U+2705 is written as its UTF-8 bytes.\<close>

definition copied_label :: string where
  "copied_label = map char_of [226 :: nat, 156, 133] @ '' Copied!''"

definition copy_message :: string where
  "copy_message = ''Server IP copied to clipboard!''"

datatype copy_timer = RestoreBtn string | SlideOut nat | RemoveToast nat

record toast =
  toast_id :: nat
  toast_class :: string
  toast_text :: string
  toast_animation :: string

record copy_dom =
  clipboard :: string
  btn_text :: string
  btn_bg :: string
  toasts :: "toast list"
  toast_styles :: nat
  next_toast :: nat
  timers :: "(ms \<times> copy_timer) list"
  cnow :: ms

text \<open>What the page provides to one call of \<open>copyToClipboard(elementId)\<close>:
  the element's text (\<open>None\<close>: no such element), whether a \<open>.copy-btn\<close> is
  beside it, whether \<open>writeText\<close> resolves, whether \<open>execCommand('copy')\<close>
  copies.\<close>

record copy_env =
  element_text :: "string option"
  has_copy_btn :: bool
  clipboard_ok :: bool
  exec_copy_ok :: bool

definition showToast :: "string \<Rightarrow> string \<Rightarrow> copy_dom \<Rightarrow> copy_dom" where
  "showToast message type d =
     (let t = \<lparr>toast_id = next_toast d, toast_class = ''toast toast-'' @ type,
               toast_text = message, toast_animation = ''slideIn 0.3s ease''\<rparr>;
          d1 = d\<lparr>toasts := toasts d @ [t], next_toast := Suc (next_toast d),
                 timers := timers d @ [(cnow d + 3000, SlideOut (next_toast d))]\<rparr> in
      if toast_styles d = 0 then d1\<lparr>toast_styles := 1\<rparr> else d1)"

definition copy_button_feedback :: "copy_dom \<Rightarrow> copy_dom" where
  "copy_button_feedback d =
     d\<lparr>btn_text := copied_label, btn_bg := ''#22c55e'',
       timers := timers d @ [(cnow d + 2000, RestoreBtn (btn_text d))]\<rparr>"

definition copyToClipboard :: "copy_env \<Rightarrow> copy_dom \<Rightarrow> copy_dom" where
  "copyToClipboard env d =
     (case element_text env of
        None \<Rightarrow> d
      | Some text \<Rightarrow>
          if clipboard_ok env then
            (let d1 = d\<lparr>clipboard := text\<rparr>;
                 d2 = (if has_copy_btn env then copy_button_feedback d1 else d1) in
             showToast copy_message ''success'' d2)
          else
            (let d1 = (if exec_copy_ok env then d\<lparr>clipboard := text\<rparr> else d) in
             showToast copy_message ''success'' d1))"

text \<open>Running one timeout.\<close>

fun fire_timer :: "copy_timer \<Rightarrow> copy_dom \<Rightarrow> copy_dom" where
  "fire_timer (RestoreBtn original) d = d\<lparr>btn_text := original, btn_bg := []\<rparr>"
| "fire_timer (SlideOut i) d =
     d\<lparr>toasts := map (\<lambda>t. if toast_id t = i then t\<lparr>toast_animation := ''slideOut 0.3s ease''\<rparr> else t)
                    (toasts d),
       timers := timers d @ [(cnow d + 300, RemoveToast i)]\<rparr>"
| "fire_timer (RemoveToast i) d = d\<lparr>toasts := filter (\<lambda>t. toast_id t \<noteq> i) (toasts d)\<rparr>"

text \<open>The earliest timeout due by \<open>t\<close>, the first scheduled among equal due times.\<close>

fun earliest :: "(ms \<times> 'a) list \<Rightarrow> (ms \<times> 'a) option" where
  "earliest [] = None"
| "earliest (x # xs) =
     (case earliest xs of None \<Rightarrow> Some x | Some y \<Rightarrow> if fst y < fst x then Some y else Some x)"

definition next_due :: "ms \<Rightarrow> (ms \<times> 'a) list \<Rightarrow> (ms \<times> 'a) option" where
  "next_due t ts = earliest (filter (\<lambda>x. fst x \<le> t) ts)"

fun timer_weight :: "copy_timer \<Rightarrow> nat" where
  "timer_weight (SlideOut i) = 2"
| "timer_weight _ = 1"

definition timers_weight :: "(ms \<times> copy_timer) list \<Rightarrow> nat" where
  "timers_weight ts = sum_list (map (timer_weight \<circ> snd) ts)"

text \<open>Time passes until \<open>t\<close>.\<close>

function copy_advance :: "ms \<Rightarrow> copy_dom \<Rightarrow> copy_dom" where
  "copy_advance t d =
     (case next_due t (timers d) of
        None \<Rightarrow> d\<lparr>cnow := max t (cnow d)\<rparr>
      | Some (due, tm) \<Rightarrow>
          copy_advance t (fire_timer tm (d\<lparr>cnow := due, timers := remove1 (due, tm) (timers d)\<rparr>)))"
  by pat_completeness auto
termination
proof (relation "measure (\<lambda>(t, d). timers_weight (timers d))")
  show "wf (measure (\<lambda>(t, d). timers_weight (timers d)))" by simp
next
  fix t :: ms and d :: copy_dom and x2 due tm
  assume nd: "next_due t (timers d) = Some x2" and x2: "(due, tm) = x2"
  have e_mem: "earliest xs = Some x \<Longrightarrow> x \<in> set xs" for xs :: "(ms \<times> copy_timer) list" and x
    by (induction xs) (auto split: option.splits if_splits)
  have "earliest (filter (\<lambda>x. fst x \<le> t) (timers d)) = Some (due, tm)"
    using nd x2 [symmetric] by (simp add: next_due_def)
  then have "(due, tm) \<in> set (filter (\<lambda>x. fst x \<le> t) (timers d))"
    by (rule e_mem)
  then have mem: "(due, tm) \<in> set (timers d)"
    by simp
  let ?d = "d\<lparr>cnow := due, timers := remove1 (due, tm) (timers d)\<rparr>"
  have w: "timers_weight (timers d) = timer_weight tm + timers_weight (remove1 (due, tm) (timers d))"
    using mem by (simp add: timers_weight_def sum_list_map_remove1)
  have "timers_weight (timers (fire_timer tm ?d)) < timers_weight (timers d)"
    using w by (cases tm) (simp_all add: timers_weight_def)
  then show "((t, fire_timer tm ?d), t, d) \<in> measure (\<lambda>(t, d). timers_weight (timers d))"
    by simp
qed

datatype copy_event = CopyClick copy_env | Wait ms

fun copy_step :: "copy_dom \<Rightarrow> copy_event \<Rightarrow> copy_dom" where
  "copy_step d (CopyClick env) = copyToClipboard env d"
| "copy_step d (Wait t) = copy_advance (cnow d + t) d"

definition copy_run :: "copy_dom \<Rightarrow> copy_event list \<Rightarrow> copy_dom" where
  "copy_run d es = foldl copy_step d es"

text \<open>A page with nothing pending, and the server-address element of the
  Minecraft page (its text is \<open>CONFIG.MINECRAFT_IP\<close>).\<close>

definition quiet_copy_page :: copy_dom where
  "quiet_copy_page = \<lparr>clipboard = [], btn_text = ''Copy'', btn_bg = [], toasts = [],
     toast_styles = 0, next_toast = 0, timers = [], cnow = 0\<rparr>"

definition ip_copy_env :: "bool \<Rightarrow> bool \<Rightarrow> copy_env" where
  "ip_copy_env writable with_btn = \<lparr>element_text = Some (MINECRAFT_IP CONFIG),
     has_copy_btn = with_btn, clipboard_ok = writable, exec_copy_ok = True\<rparr>"

subsection \<open>Ping, copy and toasts\<close>

declare copy_advance.simps [simp del]


lemma copy_advance_None [simp]:
  "next_due t (timers d) = None \<Longrightarrow> copy_advance t d = d\<lparr>cnow := max t (cnow d)\<rparr>"
  by (simp add: copy_advance.simps)

lemma copy_advance_Some [simp]:
  "next_due t (timers d) = Some (due, tm) \<Longrightarrow>
   copy_advance t d = copy_advance t (fire_timer tm (d\<lparr>cnow := due, timers := remove1 (due, tm) (timers d)\<rparr>))"
  by (simp add: copy_advance.simps)

lemma copy_run_simps [simp]:
  "copy_run d [] = d" "copy_run d (e # es) = copy_run (copy_step d e) es"
  by (simp_all add: copy_run_def)

lemma ping_of_bounds: "0 \<le> r \<Longrightarrow> r < 1 \<Longrightarrow> 20 \<le> ping_of r \<and> ping_of r < 120"
proof -
  assume "0 \<le> r" "r < 1"
  then have "0 \<le> r * 100" "r * 100 < 100" by simp_all
  then have "0 \<le> \<lfloor>r * 100\<rfloor>" "\<lfloor>r * 100\<rfloor> < 100"
    by (simp_all add: floor_less_iff)
  then show ?thesis by (simp add: ping_of_def)
qed

text \<open>
  C12: every ping shown lies in [20, 120) and is coloured green below 50,
  yellow below 100 and red otherwise.
\<close>

theorem updatePing_shows_band:
  assumes "0 \<le> r" "r < 1" "has_ping_value d"
  shows "20 \<le> parse_nat (ping_text (updatePing r d)) \<and> parse_nat (ping_text (updatePing r d)) < 120
    \<and> ping_style_color (updatePing r d)
        = (if parse_nat (ping_text (updatePing r d)) < 50 then ''#22c55e''
           else if parse_nat (ping_text (updatePing r d)) < 100 then ''#eab308'' else ''#ef4444'')"
proof -
  have b: "20 \<le> ping_of r \<and> ping_of r < 120" by (rule ping_of_bounds [OF assms(1,2)])
  then have "int (nat (ping_of r)) = ping_of r" by simp
  then show ?thesis
    using assms b by (simp add: updatePing_def parse_show_nat ping_color_def Let_def nat_less_iff le_nat_iff)
qed

text \<open>
  C5: when the clipboard write succeeds, copying puts the element's exact
  text on the clipboard and shows the toast \<open>Server IP copied to clipboard!\<close>,
  which is still shown (sliding out) at 3299 ms and gone at 3300 ms.
\<close>

theorem copy_success_toast:
  assumes "element_text env = Some T" "clipboard_ok env" "timers d = []" "toasts d = []"
  shows "clipboard (copy_run d [CopyClick env]) = T
    \<and> map toast_text (toasts (copy_run d [CopyClick env])) = [copy_message]
    \<and> toasts (copy_run d [CopyClick env, Wait 3299]) = [\<lparr>toast_id = next_toast d,
        toast_class = ''toast toast-success'', toast_text = copy_message, toast_animation = ''slideOut 0.3s ease''\<rparr>]
    \<and> toasts (copy_run d [CopyClick env, Wait 3300]) = []"
  using assms
  by (simp add: copyToClipboard_def showToast_def copy_button_feedback_def Let_def next_due_def)

text \<open>
  C11: when the clipboard write fails, the fallback still copies the text and
  shows the same toast, but the copy button gets no feedback.
\<close>

theorem copy_fallback:
  assumes "element_text env = Some T" "\<not> clipboard_ok env" "exec_copy_ok env" "timers d = []" "toasts d = []"
  shows "clipboard (copy_run d [CopyClick env]) = T
    \<and> map toast_text (toasts (copy_run d [CopyClick env])) = [copy_message]
    \<and> btn_text (copy_run d [CopyClick env]) = btn_text d
    \<and> toasts (copy_run d [CopyClick env, Wait 3300]) = []"
  using assms
  by (simp add: copyToClipboard_def showToast_def Let_def next_due_def)

text \<open>
  C31: a successful copy labels the button \<open>Copied!\<close> and restores its
  previous label 2 s later.
\<close>

theorem copy_button_restored:
  assumes "element_text env \<noteq> None" "clipboard_ok env" "has_copy_btn env" "timers d = []"
  shows "btn_text (copy_run d [CopyClick env]) = copied_label
    \<and> btn_text (copy_run d [CopyClick env, Wait 2000]) = btn_text d"
  using assms
  by (auto simp: copyToClipboard_def showToast_def copy_button_feedback_def Let_def next_due_def)

text \<open>
  C30: a second copy within 2 s saves \<open>Copied!\<close> as the label to restore,
  so the button keeps showing \<open>Copied!\<close> for good.
\<close>

theorem copy_double_click_sticks:
  assumes "element_text env \<noteq> None" "clipboard_ok env" "has_copy_btn env" "timers d = []"
  shows "btn_text (copy_run d [CopyClick env, Wait 1000, CopyClick env, Wait 5000]) = copied_label"
  using assms
  by (auto simp: copyToClipboard_def showToast_def copy_button_feedback_def Let_def next_due_def)
theorem updatePing_witness:
  "0 \<le> (1/2::real) \<and> (1/2::real) < 1 \<and> has_ping_value \<lparr>has_ping_value = True, ping_text = [], ping_style_color = []\<rparr>
   \<and> parse_nat (ping_text (updatePing (1/2) \<lparr>has_ping_value = True, ping_text = [], ping_style_color = []\<rparr>)) < 120"
  using updatePing_shows_band [of "1/2" "\<lparr>has_ping_value = True, ping_text = [], ping_style_color = []\<rparr>"]
  by simp

theorem copy_success_toast_witness:
  "element_text (ip_copy_env True True) = Some ''cat.fi.freemcserver.net:41600''
   \<and> clipboard (copy_run quiet_copy_page [CopyClick (ip_copy_env True True)]) = ''cat.fi.freemcserver.net:41600''
   \<and> toasts (copy_run quiet_copy_page [CopyClick (ip_copy_env True True), Wait 3300]) = []"
  using copy_success_toast [of "ip_copy_env True True" "''cat.fi.freemcserver.net:41600''" quiet_copy_page]
  by (simp add: ip_copy_env_def quiet_copy_page_def CONFIG_def)

theorem copy_fallback_witness:
  "\<not> clipboard_ok (ip_copy_env False True)
   \<and> clipboard (copy_run quiet_copy_page [CopyClick (ip_copy_env False True)]) = ''cat.fi.freemcserver.net:41600''"
  using copy_fallback [of "ip_copy_env False True" "''cat.fi.freemcserver.net:41600''" quiet_copy_page]
  by (simp add: ip_copy_env_def quiet_copy_page_def CONFIG_def)

theorem copy_button_restored_witness:
  "has_copy_btn (ip_copy_env True True)
   \<and> btn_text (copy_run quiet_copy_page [CopyClick (ip_copy_env True True), Wait 2000]) = ''Copy''"
  using copy_button_restored [of "ip_copy_env True True" quiet_copy_page]
  by (simp add: ip_copy_env_def quiet_copy_page_def)

theorem copy_double_click_sticks_witness:
  "has_copy_btn (ip_copy_env True True)
   \<and> btn_text (copy_run quiet_copy_page [CopyClick (ip_copy_env True True), Wait 1000,
        CopyClick (ip_copy_env True True), Wait 5000]) = copied_label"
  using copy_double_click_sticks [of "ip_copy_env True True" quiet_copy_page]
  by (simp add: ip_copy_env_def quiet_copy_page_def)

end
