(* ===== verification/ServerTimers.thy ===== *)
theory ServerTimers
  imports Minecraft Timers
begin

text \<open>
  The periodic parts of the \<open>Minecraft\<close> module (src/Script.js lines 338--355
  and 421--441): \<open>setupServerStatus\<close> checks the status at once and then every
  5 minutes, \<open>setupServerPing\<close> updates the ping at once and then every 10 s.
  Each run draws \<open>Math.random()\<close> afresh; \<open>rnd k\<close> is the draw of the
  \<open>k\<close>-th run of that callback (run 0 is the immediate one).  The two callbacks
  read the one global random stream in the order their runs interleave; any
  such interleaving is a pair of draw sequences, so modelling each callback's
  draws as its own sequence loses nothing.  Times are measured from the call.
\<close>

definition status_period :: ms where
  "status_period = 300000"

definition ping_period :: ms where
  "ping_period = 10000"

text \<open>The indicator after time \<open>t\<close>: the immediate check, then the interval's runs
  due by \<open>t\<close> (the interval is set only when \<open>.status-dot\<close> exists).\<close>

definition setupServerStatus_at :: "(nat \<Rightarrow> real) \<Rightarrow> ms \<Rightarrow> status_dom \<Rightarrow> status_dom" where
  "setupServerStatus_at rnd t d =
     (if has_status_dot d
      then snd (snd (interval_run status_period (\<lambda>k. checkServerStatus (rnd k)) t
                       (status_period, 1, checkServerStatus (rnd 0) d)))
      else d)"

text \<open>The ping element after time \<open>t\<close>: created and updated at once, then updated
  by the interval, when \<open>.server-info-content\<close> exists on a Minecraft page.\<close>

definition setupServerPing_at :: "bool \<Rightarrow> string \<Rightarrow> (nat \<Rightarrow> real) \<Rightarrow> ms \<Rightarrow> ping_dom \<Rightarrow> ping_dom" where
  "setupServerPing_at has_server_info path rnd t d =
     (if has_server_info \<and> js_includes path ''minecraft''
      then snd (snd (interval_run ping_period (\<lambda>k. updatePing (rnd k)) t
                       (ping_period, 1, setupServerPing has_server_info path (rnd 0) d)))
      else d)"

text \<open>\<open>Minecraft.init\<close> at time 0: the status, the copy function, the ping.\<close>

record minecraft_dom =
  mc_status :: status_dom
  mc_copy_defined :: bool
  mc_ping :: ping_dom

definition minecraft_init :: "bool \<Rightarrow> string \<Rightarrow> real \<Rightarrow> real \<Rightarrow> minecraft_dom \<Rightarrow> minecraft_dom" where
  "minecraft_init has_server_info path r_status r_ping d =
     d\<lparr>mc_status := (if has_status_dot (mc_status d) then checkServerStatus r_status (mc_status d) else mc_status d),
       mc_copy_defined := True,
       mc_ping := setupServerPing has_server_info path r_ping (mc_ping d)\<rparr>"

subsection \<open>Each run overwrites the previous one\<close>

lemma checkServerStatus_overwrite: "checkServerStatus r (checkServerStatus r' d) = checkServerStatus r d"
  by (simp add: checkServerStatus_def Let_def)

lemma updatePing_overwrite: "updatePing r (updatePing r' d) = updatePing r d"
  by (simp add: updatePing_def Let_def)

lemma interval_from_one:
  assumes "0 < p" "\<And>i j s. f j (f i s) = f j s"
  shows "snd (snd (interval_run p f t (p, 1, f 0 st))) = f (t div p) st"
proof -
  have "snd (snd (interval_run p f t (p, 1, f 0 st))) = run_indices f 1 (runs_due p p t) (f 0 st)"
    using assms(1) by (simp add: interval_run_closed)
  also have "\<dots> = run_indices f 0 (Suc (runs_due p p t)) st" by simp
  also have "\<dots> = f (runs_due p p t) st" using run_indices_overwrite [of f, OF assms(2)] by simp
  also have "runs_due p p t = t div p"
    using runs_due_from_start [OF assms(1), of 0 t] by simp
  finally show ?thesis .
qed

subsection \<open>Refresh timelines\<close>

text \<open>
  C13: the status indicator at any time \<open>t\<close> after \<open>setupServerStatus\<close> shows the
  result of the draw of the last 5-minute run, number \<open>t div 300000\<close>: the
  interval simulation refines the closed form, and the indicator never
  goes stale for longer than one period.
\<close>

theorem status_refresh_timeline:
  "setupServerStatus_at rnd t d
     = (if has_status_dot d then checkServerStatus (rnd (t div 300000)) d else d)"
  using interval_from_one [of status_period "\<lambda>k. checkServerStatus (rnd k)" t d]
  by (simp add: setupServerStatus_at_def checkServerStatus_overwrite status_period_def)

text \<open>
  C14: on a Minecraft page with the server-info box, at every time \<open>t\<close> the ping
  shows the draw of run \<open>t div 10000\<close>, a number in [20, 120), coloured by its band.
\<close>

theorem ping_always_in_band:
  assumes "\<forall>k. 0 \<le> rnd k \<and> rnd k < 1" and "has_server_info" and "js_includes path ''minecraft''"
  shows "ping_text (setupServerPing_at has_server_info path rnd t d)
           = show_nat (nat (ping_of (rnd (t div 10000))))
    \<and> 20 \<le> parse_nat (ping_text (setupServerPing_at has_server_info path rnd t d))
    \<and> parse_nat (ping_text (setupServerPing_at has_server_info path rnd t d)) < 120
    \<and> ping_style_color (setupServerPing_at has_server_info path rnd t d) = ping_color (ping_of (rnd (t div 10000)))"
proof -
  have at: "setupServerPing_at has_server_info path rnd t d
      = updatePing (rnd (t div 10000)) (d\<lparr>has_ping_value := True, ping_text := ''...''\<rparr>)"
    using interval_from_one [of ping_period "\<lambda>k. updatePing (rnd k)" t
        "d\<lparr>has_ping_value := True, ping_text := ''...''\<rparr>"] assms(2,3)
    by (simp add: setupServerPing_at_def setupServerPing_def updatePing_overwrite ping_period_def)
  have b: "20 \<le> ping_of (rnd (t div 10000)) \<and> ping_of (rnd (t div 10000)) < 120"
    using ping_of_bounds assms(1) by blast
  then have "int (nat (ping_of (rnd (t div 10000)))) = ping_of (rnd (t div 10000))" by simp
  then show ?thesis
    using b unfolding at by (simp add: updatePing_def parse_show_nat Let_def nat_less_iff le_nat_iff)
qed

theorem ping_always_in_band_witness:
  "js_includes ''/minecraft.html'' ''minecraft''
   \<and> parse_nat (ping_text (setupServerPing_at True ''/minecraft.html'' (\<lambda>k. 1 / 2) 25000
        \<lparr>has_ping_value = False, ping_text = [], ping_style_color = []\<rparr>)) < 120"
proof -
  have j: "js_includes ''/minecraft.html'' ''minecraft''" by simp
  have r: "\<forall>k. 0 \<le> (\<lambda>k. 1 / 2 :: real) k \<and> (\<lambda>k. 1 / 2 :: real) k < 1" by simp
  show ?thesis
    using j ping_always_in_band [OF r TrueI j, of 25000 "\<lparr>has_ping_value = False, ping_text = [], ping_style_color = []\<rparr>"]
    by blast
qed

end
