(* ===== verification/Navigation.thy ===== *)
theory Navigation
  imports Config
begin

text \<open>
  The \<open>Navigation\<close> module of src/Script.js (lines 31--115) with the utilities
  it uses, \<open>debounce\<close> and \<open>scrollTo\<close> (lines 17--28).
  \<^item> Mobile menu (\<open>setupMobileMenu\<close>): each call registers a click listener
    on the toggle button, one on every \<open>.nav-link\<close> and one on the document.
    The listeners are kept as a list, so that a second registration is visible;
    a click runs the listeners of its target (registration order) and then,
    bubbling, those of the document.  Nav links sit inside the menu element.
  \<^item> Smooth scrolling (\<open>setupSmoothScrolling\<close>): the handler of an in-page
    anchor; \<open>document.querySelector\<close> is a map from selector to the target's
    \<open>offsetTop\<close> (invalid selectors, which throw, are not modelled).
  \<^item> Active links (\<open>setupActiveLinks\<close>): the page name from the path and
    from each link's \<open>href\<close>, by the string operations of the code.
  \<^item> Header effect (\<open>setupScrollEffects\<close>): a \<open>debounce\<close>d scroll handler
    that colours the header from \<open>window.scrollY\<close> when it finally runs.
\<close>

subsection \<open>Configuration and scrolling\<close>

text \<open>\<open>scrollTo(element, offset)\<close>: the \<open>top\<close> passed to \<open>window.scrollTo\<close>.\<close>

definition scroll_top :: "int \<Rightarrow> int \<Rightarrow> int" where
  "scroll_top offsetTop offset = offsetTop - offset"

datatype anchor_action = FollowDefault | SmoothScroll int

text \<open>The click handler of a link whose \<open>href\<close> starts with \<open>#\<close>.\<close>

definition anchor_click :: "(string \<rightharpoonup> int) \<Rightarrow> string \<Rightarrow> anchor_action" where
  "anchor_click query href =
     (if href = ''#'' then FollowDefault
      else case query href of
        None \<Rightarrow> FollowDefault
      | Some offsetTop \<Rightarrow> SmoothScroll (scroll_top offsetTop (SCROLL_OFFSET CONFIG)))"

subsection \<open>Mobile menu\<close>

record menu_dom =
  toggle_active :: bool
  menu_active :: bool
  body_overflow :: string

definition menu_closed :: menu_dom where
  "menu_closed = \<lparr>toggle_active = False, menu_active = False, body_overflow = []\<rparr>"

datatype menu_listener = ToggleClick | NavLinkClick | DocumentClick

datatype click_target = OnToggle | OnNavLink | InMenu | Outside

text \<open>\<open>setupMobileMenu\<close>: nothing when the toggle or the menu is missing.\<close>

definition setupMobileMenu :: "bool \<Rightarrow> bool \<Rightarrow> menu_listener list \<Rightarrow> menu_listener list" where
  "setupMobileMenu has_toggle has_menu ls =
     (if \<not> has_toggle \<or> \<not> has_menu then ls else ls @ [ToggleClick, NavLinkClick, DocumentClick])"

definition menu_toggle :: "menu_dom \<Rightarrow> menu_dom" where
  "menu_toggle d =
     (let d1 = d\<lparr>toggle_active := \<not> toggle_active d, menu_active := \<not> menu_active d\<rparr> in
      d1\<lparr>body_overflow := (if menu_active d1 then ''hidden'' else [])\<rparr>)"

definition menu_close :: "menu_dom \<Rightarrow> menu_dom" where
  "menu_close d = d\<lparr>toggle_active := False, menu_active := False, body_overflow := []\<rparr>"

text \<open>\<open>toggle.contains(e.target) || menu.contains(e.target)\<close>.\<close>

fun inside_toggle_or_menu :: "click_target \<Rightarrow> bool" where
  "inside_toggle_or_menu Outside = False"
| "inside_toggle_or_menu _ = True"

fun at_target :: "click_target \<Rightarrow> menu_listener \<Rightarrow> bool" where
  "at_target OnToggle ToggleClick = True"
| "at_target OnNavLink NavLinkClick = True"
| "at_target _ _ = False"

fun run_listener :: "click_target \<Rightarrow> menu_dom \<Rightarrow> menu_listener \<Rightarrow> menu_dom" where
  "run_listener tgt d ToggleClick = menu_toggle d"
| "run_listener tgt d NavLinkClick = menu_close d"
| "run_listener tgt d DocumentClick = (if inside_toggle_or_menu tgt then d else menu_close d)"

text \<open>Dispatch of one click: target phase, then the document.\<close>

definition menu_click :: "menu_listener list \<Rightarrow> click_target \<Rightarrow> menu_dom \<Rightarrow> menu_dom" where
  "menu_click ls tgt d =
     foldl (run_listener tgt) d (filter (at_target tgt) ls @ filter (\<lambda>l. l = DocumentClick) ls)"

text \<open>The states a page reaches from a closed menu by clicks.\<close>

inductive menu_reach :: "menu_listener list \<Rightarrow> menu_dom \<Rightarrow> bool" for ls where
  closed: "menu_reach ls menu_closed"
| click: "menu_reach ls d \<Longrightarrow> menu_reach ls (menu_click ls tgt d)"

definition menu_inv :: "menu_dom \<Rightarrow> bool" where
  "menu_inv d \<longleftrightarrow> toggle_active d = menu_active d
     \<and> body_overflow d = (if menu_active d then ''hidden'' else [])"

subsection \<open>Active links\<close>

text \<open>\<open>pathname.split('/').pop().replace('.html', '') || 'index'\<close>.\<close>

definition currentPage :: "string \<Rightarrow> string" where
  "currentPage path =
     (let p = replace_first ''.html'' [] (last (split_on CHR ''/'' path)) in
      if p = [] then ''index'' else p)"

definition linkPage :: "string \<Rightarrow> string" where
  "linkPage href = replace_first ''./'' [] (replace_first ''.html'' [] href)"

definition link_is_active :: "string \<Rightarrow> string \<Rightarrow> bool" where
  "link_is_active path href =
     (let lp = linkPage href; cp = currentPage path in lp = cp \<or> (cp = ''index'' \<and> lp = []))"

text \<open>Each nav link: its \<open>href\<close> (if any) and whether it has the \<open>active\<close> class.
  The code only adds the class.\<close>

definition setupActiveLinks :: "string \<Rightarrow> (string option \<times> bool) list \<Rightarrow> (string option \<times> bool) list" where
  "setupActiveLinks path links =
     map (\<lambda>(href, active). case href of
            None \<Rightarrow> (href, active)
          | Some h \<Rightarrow> (href, active \<or> (h \<noteq> [] \<and> link_is_active path h))) links"

text \<open>The site's pages (the keys of the title table, lines 867--872).\<close>

definition site_pages :: "string list" where
  "site_pages = [''index'', ''minecraft'', ''voice-chat'', ''social-media'']"

subsection \<open>Debounce and the header effect\<close>

text \<open>
  \<open>debounce(func, wait)\<close>: every call clears the one pending timeout and sets
  a new one \<open>wait\<close> ms later; \<open>func\<close> runs when a timeout is reached.
  \<open>db_pending\<close> is the due time of the pending timeout.
\<close>

record header_state =
  clock :: ms
  db_pending :: "ms option"
  scrollY :: int
  header_bg :: string
  header_shadow :: string
  handler_runs :: "ms list"

definition header_wait :: ms where
  "header_wait = 100"

definition header_style :: "int \<Rightarrow> string \<times> string" where
  "header_style y =
     (if y > 50 then (''rgba(26, 31, 58, 0.98)'', ''0 4px 20px rgba(0, 0, 0, 0.3)'')
      else (''rgba(26, 31, 58, 0.95)'', ''none''))"

text \<open>The debounced function itself: reads \<open>scrollY\<close> when it runs.\<close>

definition handle_scroll :: "header_state \<Rightarrow> header_state" where
  "handle_scroll h =
     h\<lparr>header_bg := fst (header_style (scrollY h)), header_shadow := snd (header_style (scrollY h)),
       handler_runs := handler_runs h @ [clock h]\<rparr>"

definition debounce_call :: "ms \<Rightarrow> header_state \<Rightarrow> header_state" where
  "debounce_call wait h = h\<lparr>db_pending := Some (clock h + wait)\<rparr>"

text \<open>Time passes by \<open>t\<close>; a timeout due meanwhile runs at its due time.\<close>

definition header_elapse :: "header_state \<Rightarrow> ms \<Rightarrow> header_state" where
  "header_elapse h t =
     (case db_pending h of
        Some due \<Rightarrow>
          if due \<le> clock h + t
          then (handle_scroll (h\<lparr>clock := due, db_pending := None\<rparr>))\<lparr>clock := clock h + t\<rparr>
          else h\<lparr>clock := clock h + t\<rparr>
      | None \<Rightarrow> h\<lparr>clock := clock h + t\<rparr>)"

datatype header_event = Scroll int | Pass ms

fun header_step :: "header_state \<Rightarrow> header_event \<Rightarrow> header_state" where
  "header_step h (Scroll y) = debounce_call header_wait (h\<lparr>scrollY := y\<rparr>)"
| "header_step h (Pass t) = header_elapse h t"

definition header_run :: "header_state \<Rightarrow> header_event list \<Rightarrow> header_state" where
  "header_run h es = foldl header_step h es"

text \<open>The header at page load: no timeout pending, no inline style yet.\<close>

definition header_initial :: header_state where
  "header_initial = \<lparr>clock = 0, db_pending = None, scrollY = 0, header_bg = [], header_shadow = [],
     handler_runs = []\<rparr>"

fun is_scroll :: "header_event \<Rightarrow> bool" where
  "is_scroll (Scroll y) = True"
| "is_scroll (Pass t) = False"

subsection \<open>Navigation.init\<close>

text \<open>What \<open>Navigation.init\<close> changes: the menu listeners, the nav links'
  classes, and how many times the anchor handlers (\<open>anchor_click\<close>) and the
  debounced scroll listener (\<open>header_step\<close>) were registered.\<close>

record nav_dom =
  nav_menu :: "menu_listener list"
  nav_links :: "(string option \<times> bool) list"
  anchor_setups :: nat
  scroll_listeners :: nat

definition setupScrollEffects :: "bool \<Rightarrow> nat \<Rightarrow> nat" where
  "setupScrollEffects has_header n = (if has_header then Suc n else n)"

definition navigation_init :: "bool \<Rightarrow> bool \<Rightarrow> bool \<Rightarrow> string \<Rightarrow> nav_dom \<Rightarrow> nav_dom" where
  "navigation_init has_toggle has_menu has_header path d =
     d\<lparr>nav_menu := setupMobileMenu has_toggle has_menu (nav_menu d),
       anchor_setups := Suc (anchor_setups d),
       nav_links := setupActiveLinks path (nav_links d),
       scroll_listeners := setupScrollEffects has_header (scroll_listeners d)\<rparr>"


subsection \<open>Mobile menu, active links, header\<close>

text \<open>
  C37: with the menu set up once, a click on the toggle toggles the menu, a
  click on a nav link or outside closes it, and a click inside the menu changes nothing.
\<close>

theorem menu_click_single:
  "menu_click (setupMobileMenu True True []) tgt d =
     (case tgt of OnToggle \<Rightarrow> menu_toggle d | OnNavLink \<Rightarrow> menu_close d
      | InMenu \<Rightarrow> d | Outside \<Rightarrow> menu_close d)"
  by (cases tgt) (simp_all add: menu_click_def setupMobileMenu_def menu_close_def)

lemma menu_inv_toggle: "menu_inv d \<Longrightarrow> menu_inv (menu_toggle d)"
  by (simp add: menu_inv_def menu_toggle_def)

lemma menu_inv_close: "menu_inv (menu_close d)"
  by (simp add: menu_inv_def menu_close_def)

lemma menu_inv_listener: "menu_inv d \<Longrightarrow> menu_inv (run_listener tgt d l)"
  by (cases l) (simp_all add: menu_inv_toggle menu_inv_close)

lemma menu_inv_foldl: "menu_inv d \<Longrightarrow> menu_inv (foldl (run_listener tgt) d ls)"
  by (induction ls arbitrary: d) (simp_all add: menu_inv_listener)

lemma menu_inv_click: "menu_inv d \<Longrightarrow> menu_inv (menu_click ls tgt d)"
  by (simp add: menu_click_def menu_inv_foldl)

text \<open>
  C6: in every state reached from a closed menu by clicks, whatever the
  listeners, the toggle's and the menu's active classes agree and the body
  scrolls exactly when the menu is closed.
\<close>

theorem menu_reach_inv: "menu_reach ls d \<Longrightarrow> menu_inv d"
proof (induction rule: menu_reach.induct)
  case closed
  show ?case by (simp add: menu_inv_def menu_closed_def)
next
  case (click d tgt)
  from click.IH show ?case by (rule menu_inv_click)
qed

theorem menu_reach_inv_witness:
  "menu_reach (setupMobileMenu True True []) (menu_click (setupMobileMenu True True []) OnToggle menu_closed)
   \<and> menu_inv (menu_click (setupMobileMenu True True []) OnToggle menu_closed)"
proof -
  have r: "menu_reach (setupMobileMenu True True []) (menu_click (setupMobileMenu True True []) OnToggle menu_closed)"
    by (rule menu_reach.click [OF menu_reach.closed])
  show ?thesis using r menu_reach_inv [OF r] by simp
qed

lemma menu_toggle_twice: "menu_inv d \<Longrightarrow> menu_toggle (menu_toggle d) = d"
  by (simp add: menu_inv_def menu_toggle_def)

text \<open>
  C15: if the menu is set up twice (a second \<open>init\<close>), every toggle click runs
  two toggle listeners and leaves the menu as it was: the menu can no longer be opened.
\<close>

theorem menu_double_setup_toggle_noop:
  "menu_inv d \<Longrightarrow>
   menu_click (setupMobileMenu True True (setupMobileMenu True True [])) OnToggle d = d"
  by (simp add: menu_click_def setupMobileMenu_def menu_toggle_twice menu_inv_toggle)

theorem menu_double_setup_witness:
  "menu_inv menu_closed \<and>
   \<not> menu_active (menu_click (setupMobileMenu True True (setupMobileMenu True True [])) OnToggle menu_closed)"
  using menu_double_setup_toggle_noop [of menu_closed] by (simp add: menu_inv_def menu_closed_def)

text \<open>
  the root path marks the index link and an extension-less path its page,
  but a path with a trailing slash marks the index link instead of the page's.
\<close>

theorem active_links_paths:
  "link_is_active ''/'' ''index.html''
   \<and> link_is_active ''/minecraft'' ''minecraft.html''
   \<and> link_is_active ''/minecraft/'' ''index.html''
   \<and> \<not> link_is_active ''/minecraft/'' ''minecraft.html''"
  by (simp add: link_is_active_def linkPage_def currentPage_def)

text \<open>
  C28: after a scroll to \<open>y\<close> followed by 100 ms without scrolling, the
  debounced handler has run: no timeout is pending and the header's colours are
  those of \<open>y\<close>.
\<close>

theorem header_settles:
  "header_wait \<le> t \<Longrightarrow>
   (header_bg (header_run h (es @ [Scroll y, Pass t])), header_shadow (header_run h (es @ [Scroll y, Pass t])))
     = header_style y
   \<and> db_pending (header_run h (es @ [Scroll y, Pass t])) = None"
  by (simp add: header_run_def header_elapse_def debounce_call_def handle_scroll_def)

text \<open>
  C29: the debounced handler never runs within 100 ms of a scroll event: a
  scroll cancels the pending timeout.
\<close>

theorem header_quiet_in_burst:
  "t < header_wait \<Longrightarrow>
   handler_runs (header_run h (es @ [Scroll y, Pass t])) = handler_runs (header_run h es)"
  by (simp add: header_run_def header_elapse_def debounce_call_def)

lemma header_runs_bound_gen:
  "length (handler_runs (header_run h es)) + (if db_pending (header_run h es) = None then 0 else 1)
   \<le> length (handler_runs h) + (if db_pending h = None then 0 else 1) + length (filter is_scroll es)"
proof (induction es arbitrary: h)
  case Nil
  then show ?case by (auto simp: header_run_def split: if_splits)
next
  case (Cons e es)
  have step: "length (handler_runs (header_step h e)) + (if db_pending (header_step h e) = None then 0 else 1)
     \<le> length (handler_runs h) + (if db_pending h = None then 0 else 1) + (if is_scroll e then 1 else 0)"
    by (cases e) (auto simp: debounce_call_def header_elapse_def handle_scroll_def split: option.splits)
  have "length (handler_runs (header_run (header_step h e) es))
      + (if db_pending (header_run (header_step h e) es) = None then 0 else 1)
     \<le> length (handler_runs h) + (if db_pending h = None then 0 else 1)
      + (if is_scroll e then 1 else 0) + length (filter is_scroll es)"
    using Cons.IH [of "header_step h e"] step by linarith
  then show ?case by (auto simp: header_run_def split: if_splits)
qed

text \<open>
  the header handler runs at most once per scroll event.
\<close>

theorem header_runs_le_scrolls:
  "db_pending h = None \<Longrightarrow>
   length (handler_runs (header_run h es)) \<le> length (handler_runs h) + length (filter is_scroll es)"
  using header_runs_bound_gen [of h es] by simp
theorem header_settles_witness:
  "header_wait \<le> 100 \<and>
   (header_bg (header_run header_initial ([] @ [Scroll 60, Pass 100])),
    header_shadow (header_run header_initial ([] @ [Scroll 60, Pass 100]))) = header_style 60"
  using header_settles [of 100 header_initial "[]" 60] by (simp add: header_wait_def)

theorem header_quiet_in_burst_witness:
  "(50::nat) < header_wait \<and>
   handler_runs (header_run header_initial ([] @ [Scroll 60, Pass 50])) = handler_runs (header_run header_initial [])"
  using header_quiet_in_burst [of 50 header_initial "[]" 60] by (simp add: header_wait_def)

theorem header_runs_le_scrolls_witness:
  "db_pending header_initial = None \<and>
   length (handler_runs (header_run header_initial [Scroll 10, Pass 100, Scroll 70, Pass 100]))
     \<le> length (handler_runs header_initial) + length (filter is_scroll [Scroll 10, Pass 100, Scroll 70, Pass 100])"
  using header_runs_le_scrolls [of header_initial "[Scroll 10, Pass 100, Scroll 70, Pass 100]"]
  by (simp add: header_initial_def)

end
