(* ===== verification/Social.thy ===== *)
theory Social
  imports Config
begin

text \<open>
  The \<open>Social\<close> module of src/Script.js (lines 266--334): the two redirect
  functions it installs on \<open>window\<close> (\<open>redirectToDiscordUser\<close>,
  \<open>redirectToDiscord\<close>), the Discord widget iframe and the click feedback of
  the social buttons.  A redirect shows a blocking \<open>confirm\<close> dialog whose
  answer is an input; its observable effects are the dialog's message and the
  URLs opened with \<open>window.open(url, '_blank')\<close>.
\<close>

record redirect_result =
  prompts :: "string list"
  opened :: "string list"

definition newline2 :: string where
  "newline2 = [CHR 10, CHR 10]"

definition redirectToDiscordUser :: "string \<Rightarrow> bool \<Rightarrow> redirect_result" where
  "redirectToDiscordUser username confirmed =
     (let discordUrl = ''https://discord.com/users/'' @ username;
          msg = ''Open Discord profile for '' @ username @ ''?'' @ newline2 @ ''This will redirect you to Discord.'' in
      \<lparr>prompts = [msg], opened = (if confirmed then [discordUrl] else [])\<rparr>)"

definition redirectToDiscord :: "bool \<Rightarrow> redirect_result" where
  "redirectToDiscord confirmed =
     \<lparr>prompts = [''Join BLACKFLAME NOVA Discord Server?'' @ newline2 @ ''This will redirect you to Discord.''],
      opened = (if confirmed then [DISCORD_INVITE CONFIG] else [])\<rparr>"

text \<open>\<open>loadDiscordWidget\<close>: one iframe (its \<open>src\<close>) per call when the container exists.\<close>

definition discord_widget_url :: "string \<Rightarrow> string" where
  "discord_widget_url serverId = ''https://discord.com/widget?id='' @ serverId @ ''&theme=dark''"

definition loadDiscordWidget :: "bool \<Rightarrow> string list \<Rightarrow> string list" where
  "loadDiscordWidget has_container iframes =
     (if has_container then iframes @ [discord_widget_url ''YOUR_SERVER_ID''] else iframes)"

text \<open>A social button: its text, inline transform and the pending reset;
  \<open>toLowerCase\<close> on the ASCII letters.\<close>

definition js_lower :: "char \<Rightarrow> char" where
  "js_lower c =
     (case map_of (zip ''ABCDEFGHIJKLMNOPQRSTUVWXYZ'' ''abcdefghijklmnopqrstuvwxyz'') c of
        Some l \<Rightarrow> l
      | None \<Rightarrow> c)"

record social_btn =
  btn_label :: string
  btn_transform :: string
  resets_due :: "ms list"
  click_log :: "string list"

definition social_click :: "ms \<Rightarrow> social_btn \<Rightarrow> social_btn" where
  "social_click now b =
     b\<lparr>click_log := click_log b @ [''Social click: '' @ map js_lower (btn_label b)],
       btn_transform := ''scale(0.95)'', resets_due := resets_due b @ [now + 150]\<rparr>"

text \<open>Time reaches \<open>t\<close>: every reset due by then clears the transform.\<close>

definition social_elapse :: "ms \<Rightarrow> social_btn \<Rightarrow> social_btn" where
  "social_elapse t b =
     (if \<exists>due \<in> set (resets_due b). due \<le> t
      then b\<lparr>btn_transform := [], resets_due := filter (\<lambda>due. \<not> due \<le> t) (resets_due b)\<rparr>
      else b)"

text \<open>\<open>Social.init\<close>: the widget and the two \<open>window\<close> functions
  (\<open>setupDiscordIntegration\<close>), then the button listeners, which are
  \<open>social_click\<close> and \<open>social_elapse\<close>.\<close>

record social_dom =
  soc_iframes :: "string list"
  redirects_defined :: bool

definition social_init :: "bool \<Rightarrow> social_dom \<Rightarrow> social_dom" where
  "social_init has_widget d =
     d\<lparr>soc_iframes := loadDiscordWidget has_widget (soc_iframes d), redirects_defined := True\<rparr>"

subsection \<open>Redirects and buttons\<close>

text \<open>
  C32: both Discord redirects show exactly one confirmation dialog and open the
  profile or invite URL in a new tab only when it is confirmed; a declined
  dialog opens nothing.
\<close>

theorem redirect_only_on_confirm:
  "opened (redirectToDiscordUser u c) = (if c then [''https://discord.com/users/'' @ u] else [])
   \<and> opened (redirectToDiscord c) = (if c then [''https://discord.gg/your-invite-code''] else [])
   \<and> length (prompts (redirectToDiscordUser u c)) = 1 \<and> length (prompts (redirectToDiscord c)) = 1"
  by (simp add: redirectToDiscordUser_def redirectToDiscord_def Let_def CONFIG_def)

text \<open>
  a social button click logs the lower-cased label and pulses the button,
  and the first click's 150 ms reset clears the pulse even when a second click came later.
\<close>

theorem social_click_log:
  "click_log (social_click 0 \<lparr>btn_label = ''Discord'', btn_transform = [], resets_due = [], click_log = []\<rparr>)
     = [''Social click: discord'']
   \<and> btn_transform (social_elapse 150 (social_click 0 \<lparr>btn_label = ''Discord'', btn_transform = [], resets_due = [], click_log = []\<rparr>)) = []
   \<and> btn_transform (social_elapse 150 (social_click 100 (social_click 0
       \<lparr>btn_label = ''Discord'', btn_transform = [], resets_due = [], click_log = []\<rparr>))) = []"
  by (simp add: social_click_def social_elapse_def js_lower_def)
end
