(* ===== verification/VoiceChat.thy ===== *)
theory VoiceChat
  imports Doubles
begin

text \<open>
  The \<open>VoiceChat\<close> module of src/Script.js (lines 507--569).
  \<^item> \<open>setupEventSchedule\<close>: on a path containing \<open>voice-chat\<close>, every
    \<open>.schedule-card\<close> whose \<open>.schedule-day\<close> text is today's weekday name
    (\<open>days[new Date().getDay()]\<close>) gets a green border and one more
    \<open>TODAY\<close> badge.
  \<^item> \<open>setupVoiceChannelStatus\<close>: for every \<open>.channel-info\<close> with a
    \<open>.channel-capacity\<close>, the capacity is \<open>parseInt(text.match(/\d+/)[0])\<close>
    and a status line with a random count is appended.  When the capacity text
    has no digit, \<open>match\<close> returns \<open>null\<close> and reading \<open>[0]\<close> throws a
    \<open>TypeError\<close>: the \<open>forEach\<close> stops there, the channels before keep
    their new status lines.
  The random draws are a function from the channel's position to a real in
  [0, 1); the status line is kept as its numbers and colour (its text adds an
  emoji and \<open>users online\<close>).
\<close>

definition days :: "string list" where
  "days = [''Sunday'', ''Monday'', ''Tuesday'', ''Wednesday'', ''Thursday'', ''Friday'', ''Saturday'']"

record schedule_card =
  day_text :: "string option"
  card_border :: string
  card_shadow :: string
  card_position :: string
  today_badges :: nat

definition highlight_card :: "string option \<Rightarrow> schedule_card \<Rightarrow> schedule_card" where
  "highlight_card currentDay c =
     (case day_text c of
        Some t \<Rightarrow>
          if Some t = currentDay
          then c\<lparr>card_border := ''2px solid #22c55e'', card_shadow := ''0 0 20px rgba(34, 197, 94, 0.3)'',
                 card_position := ''relative'', today_badges := Suc (today_badges c)\<rparr>
          else c
      | None \<Rightarrow> c)"

definition setupEventSchedule :: "string \<Rightarrow> nat \<Rightarrow> schedule_card list \<Rightarrow> schedule_card list" where
  "setupEventSchedule path today cards =
     (if \<not> js_includes path ''voice-chat'' then cards
      else map (highlight_card (js_nth days today)) cards)"

text \<open>An appended status line: current users, capacity, colour.\<close>

record channel_info =
  capacity_text :: "string option"
  channel_status :: "(nat \<times> nat \<times> string) list"

text \<open>\<open>currentUsers > maxUsers * 0.7\<close>: the product is a double multiplication by
  the double nearest 0.7, compared exactly with the integer count.\<close>

definition occupancy_color :: "nat \<Rightarrow> nat \<Rightarrow> string" where
  "occupancy_color currentUsers maxUsers =
     (if of_nat currentUsers > dbl_mul (of_nat maxUsers) dbl_07 then ''#ef4444'' else ''#22c55e'')"

definition null_index_error :: js_exn where
  "null_index_error = TypeError ''Cannot read properties of null (reading 0)''"

definition channel_update :: "real \<Rightarrow> channel_info \<Rightarrow> channel_info outcome" where
  "channel_update r info =
     (case capacity_text info of
        None \<Rightarrow> Done info
      | Some t \<Rightarrow>
          (case match_digits t of
             None \<Rightarrow> Threw null_index_error info
           | Some ds \<Rightarrow>
               (let maxUsers = parse_nat ds; currentUsers = nat \<lfloor>r * real maxUsers\<rfloor> in
                Done (info\<lparr>channel_status := channel_status info @
                  [(currentUsers, maxUsers, occupancy_color currentUsers maxUsers)]\<rparr>))))"

text \<open>The \<open>forEach\<close>: the \<open>i\<close>-th channel uses the draw \<open>rnd i\<close>.\<close>

fun setupVoiceChannelStatus :: "(nat \<Rightarrow> real) \<Rightarrow> nat \<Rightarrow> channel_info list \<Rightarrow> channel_info list outcome" where
  "setupVoiceChannelStatus rnd i [] = Done []"
| "setupVoiceChannelStatus rnd i (c # cs) =
     (case channel_update (rnd i) c of
        Threw e c' \<Rightarrow> Threw e (c' # cs)
      | Done c' \<Rightarrow>
          (case setupVoiceChannelStatus rnd (Suc i) cs of
             Done cs' \<Rightarrow> Done (c' # cs')
           | Threw e cs' \<Rightarrow> Threw e (c' # cs')))"

record voice_dom =
  schedule_cards :: "schedule_card list"
  channels :: "channel_info list"

text \<open>\<open>VoiceChat.init\<close>: the schedule, then the channels; an exception of the
  second leaves the first's effects.\<close>

definition voicechat_init :: "string \<Rightarrow> nat \<Rightarrow> (nat \<Rightarrow> real) \<Rightarrow> voice_dom \<Rightarrow> voice_dom outcome" where
  "voicechat_init path today rnd d =
     (let d1 = d\<lparr>schedule_cards := setupEventSchedule path today (schedule_cards d)\<rparr> in
      case setupVoiceChannelStatus rnd 0 (channels d1) of
        Done cs \<Rightarrow> Done (d1\<lparr>channels := cs\<rparr>)
      | Threw e cs \<Rightarrow> Threw e (d1\<lparr>channels := cs\<rparr>))"

subsection \<open>Schedule and channel status\<close>

text \<open>
  on a voice-chat page each schedule card whose day label is today's
  weekday name gets exactly one more TODAY badge; no other card changes its badges.
\<close>

theorem schedule_badges:
  "map today_badges (setupEventSchedule path today cs)
   = map (\<lambda>c. today_badges c +
        (if js_includes path ''voice-chat'' \<and> day_text c \<noteq> None \<and> day_text c = js_nth days today
         then 1 else 0)) cs"
  by (auto simp: setupEventSchedule_def highlight_card_def split: option.splits)

text \<open>
  the schedule highlight is not idempotent: running it twice gives today's
  card two TODAY badges.
\<close>

theorem schedule_twice_two_badges:
  "map today_badges (setupEventSchedule ''/voice-chat.html'' 1
      (setupEventSchedule ''/voice-chat.html'' 1
        [\<lparr>day_text = Some ''Monday'', card_border = [], card_shadow = [], card_position = [], today_badges = 0\<rparr>,
         \<lparr>day_text = Some ''Friday'', card_border = [], card_shadow = [], card_position = [], today_badges = 0\<rparr>]))
   = [2, 0]"
  by (simp add: setupEventSchedule_def highlight_card_def days_def js_nth_def)

lemma floor_random_below:
  assumes "0 \<le> r" "r < 1"
  shows "nat \<lfloor>r * real m\<rfloor> < m \<or> (m = 0 \<and> nat \<lfloor>r * real m\<rfloor> = 0)"
proof (cases "m = 0")
  case True
  then show ?thesis by simp
next
  case False
  then have "r * real m < real m" using assms by simp
  then have "\<lfloor>r * real m\<rfloor> < int m" by (simp add: floor_less_iff)
  then show ?thesis by linarith
qed

text \<open>Away from the 70 percent boundary the rounding never decides the colour: for a
  capacity below \<open>2^49\<close> the rounded product is within 0.1 of \<open>0.7 * maxUsers\<close>.\<close>

lemma occupancy_color_bands:
  assumes "m < 2 ^ 49"
  shows "(7 * m < 10 * cur \<longrightarrow> occupancy_color cur m = ''#ef4444'')
    \<and> (10 * cur < 7 * m \<longrightarrow> occupancy_color cur m = ''#22c55e'')"
proof -
  define M where "M = (of_nat m :: rat)"
  define U where "U = (of_nat cur :: rat)"
  define P where "P = dbl_mul M dbl_07"
  have M0: "0 \<le> M" and Mb: "M < 562949953421312"
    using assms by (simp_all add: M_def)
  have Pb: "M * dbl_07 * (1 - 1 / 2 ^ 53) \<le> P \<and> P \<le> M * dbl_07 * (1 + 1 / 2 ^ 53)"
    unfolding P_def dbl_mul_def by (rule round_double_bounds) (simp add: M0 dbl_07_value)
  then have lo: "M * (3152519739159347 / 4503599627370496 * (9007199254740991 / 9007199254740992)) \<le> P"
    and hi: "P \<le> M * (3152519739159347 / 4503599627370496 * (9007199254740993 / 9007199254740992))"
    by (simp_all add: dbl_07_value algebra_simps)
  have "7 * m < 10 * cur \<Longrightarrow> P < U"
  proof -
    assume "7 * m < 10 * cur"
    then have "of_nat (7 * m + 1) \<le> (of_nat (10 * cur) :: rat)" by (simp only: of_nat_le_iff)
    then have "7 * M + 1 \<le> 10 * U" by (simp add: M_def U_def)
    then show "P < U" using hi Mb M0 by linarith
  qed
  moreover have "10 * cur < 7 * m \<Longrightarrow> U < P"
  proof -
    assume "10 * cur < 7 * m"
    then have "of_nat (10 * cur + 1) \<le> (of_nat (7 * m) :: rat)" by (simp only: of_nat_le_iff)
    then have "10 * U + 1 \<le> 7 * M" by (simp add: M_def U_def)
    then show "U < P" using lo Mb M0 by linarith
  qed
  ultimately show ?thesis
    by (auto simp: occupancy_color_def M_def U_def P_def)
qed

text \<open>The count 0 is never red.\<close>

lemma occupancy_color_zero [simp]: "occupancy_color 0 m = ''#22c55e''"
proof -
  have "0 \<le> dbl_mul (of_nat m) dbl_07"
    unfolding dbl_mul_def by (rule round_double_nonneg) (simp add: dbl_07_value)
  then show ?thesis by (simp add: occupancy_color_def)
qed

text \<open>
  C20: a channel whose capacity text contains digits gets one status line with
  its capacity and a random count below it (0 when the capacity is 0),
  coloured red or green.  For a capacity below \<open>2^49\<close> the colour is red above
  70 percent occupancy and green below it; at exactly 70 percent the double product
  \<open>maxUsers * 0.7\<close> decides.
\<close>

theorem channel_occupancy:
  assumes "0 \<le> r" "r < 1" "capacity_text c = Some t" "match_digits t = Some ds"
  shows "\<exists>cur col. channel_update r c = Done (c\<lparr>channel_status := channel_status c @ [(cur, parse_nat ds, col)]\<rparr>)
    \<and> (cur < parse_nat ds \<or> (parse_nat ds = 0 \<and> cur = 0))
    \<and> (col = ''#ef4444'' \<or> col = ''#22c55e'')
    \<and> (parse_nat ds < 2 ^ 49 \<longrightarrow>
         (7 * parse_nat ds < 10 * cur \<longrightarrow> col = ''#ef4444'')
       \<and> (10 * cur < 7 * parse_nat ds \<longrightarrow> col = ''#22c55e''))
    \<and> (10 * cur = 7 * parse_nat ds \<longrightarrow>
         (col = ''#ef4444'' \<longleftrightarrow> of_nat cur > dbl_mul (of_nat (parse_nat ds)) dbl_07))"
proof -
  let ?m = "parse_nat ds"
  let ?cur = "nat \<lfloor>r * real ?m\<rfloor>"
  have du: "channel_update r c = Done (c\<lparr>channel_status := channel_status c @
      [(?cur, ?m, occupancy_color ?cur ?m)]\<rparr>)"
    using assms by (simp add: channel_update_def Let_def)
  have b: "?cur < ?m \<or> (?m = 0 \<and> ?cur = 0)"
    by (rule floor_random_below [OF assms(1,2)])
  have "?m < 2 ^ 49 \<longrightarrow> (7 * ?m < 10 * ?cur \<longrightarrow> occupancy_color ?cur ?m = ''#ef4444'')
      \<and> (10 * ?cur < 7 * ?m \<longrightarrow> occupancy_color ?cur ?m = ''#22c55e'')"
    using occupancy_color_bands by blast
  with du b show ?thesis by (auto simp: occupancy_color_def)
qed

text \<open>
  C21: a capacity text without digits throws a TypeError that stops the loop:
  the channels before keep their status lines, that channel and the later ones get none.
\<close>

theorem channel_status_stops_at_throw:
  assumes "setupVoiceChannelStatus rnd i cs = Done cs'"
    and "channel_update (rnd (i + length cs)) c = Threw e c"
  shows "setupVoiceChannelStatus rnd i (cs @ c # rest) = Threw e (cs' @ c # rest)"
  using assms
proof (induction cs arbitrary: i cs')
  case Nil
  then show ?case by simp
next
  case (Cons x xs)
  then show ?case
    by (auto split: outcome.splits)
qed

theorem channel_occupancy_witness:
  "0 \<le> (7 / 10 :: real) \<and> (7 / 10 :: real) < 1
   \<and> capacity_text \<lparr>capacity_text = Some ''Max 90 users'', channel_status = []\<rparr> = Some ''Max 90 users''
   \<and> match_digits ''Max 90 users'' = Some ''90''
   \<and> (\<exists>cur col. channel_update (7 / 10) \<lparr>capacity_text = Some ''Max 90 users'', channel_status = []\<rparr>
        = Done \<lparr>capacity_text = Some ''Max 90 users'', channel_status = [(cur, parse_nat ''90'', col)]\<rparr>
        \<and> (col = ''#ef4444'' \<or> col = ''#22c55e''))"
proof -
  have m: "match_digits ''Max 90 users'' = Some ''90''"
    by (simp add: match_digits_def is_digit_def)
  show ?thesis
    using channel_occupancy [of "7 / 10" "\<lparr>capacity_text = Some ''Max 90 users'', channel_status = []\<rparr>"
        "''Max 90 users''" "''90''"] m
    by auto
qed

text \<open>At the boundary: 63 of 90 users is red, because \<open>90 * 0.7\<close> evaluates to
  62.99999999999999 in doubles.\<close>

lemma occupancy_63_of_90: "occupancy_color 63 90 = ''#ef4444''"
  unfolding occupancy_color_def dbl_mul_def dbl_07_value by code_simp

theorem channel_status_stops_at_throw_witness:
  "setupVoiceChannelStatus (\<lambda>_. 0) 0 [\<lparr>capacity_text = Some ''Max 25 users'', channel_status = []\<rparr>]
     = Done [\<lparr>capacity_text = Some ''Max 25 users'', channel_status = [(0, 25, ''#22c55e'')]\<rparr>]
   \<and> channel_update 0 \<lparr>capacity_text = Some ''unlimited'', channel_status = []\<rparr>
     = Threw null_index_error \<lparr>capacity_text = Some ''unlimited'', channel_status = []\<rparr>
   \<and> setupVoiceChannelStatus (\<lambda>_. 0) 0
       [\<lparr>capacity_text = Some ''Max 25 users'', channel_status = []\<rparr>,
        \<lparr>capacity_text = Some ''unlimited'', channel_status = []\<rparr>,
        \<lparr>capacity_text = Some ''Max 25 users'', channel_status = []\<rparr>]
     = Threw null_index_error
       [\<lparr>capacity_text = Some ''Max 25 users'', channel_status = [(0, 25, ''#22c55e'')]\<rparr>,
        \<lparr>capacity_text = Some ''unlimited'', channel_status = []\<rparr>,
        \<lparr>capacity_text = Some ''Max 25 users'', channel_status = []\<rparr>]"
proof -
  have m: "match_digits ''Max 25 users'' = Some ''25''" "match_digits ''unlimited'' = None"
    "parse_nat ''25'' = 25"
    by (simp_all add: match_digits_def is_digit_def parse_nat_def digit_val_def)
  have d: "setupVoiceChannelStatus (\<lambda>_. 0) 0 [\<lparr>capacity_text = Some ''Max 25 users'', channel_status = []\<rparr>]
     = Done [\<lparr>capacity_text = Some ''Max 25 users'', channel_status = [(0, 25, ''#22c55e'')]\<rparr>]"
    using m by (simp add: channel_update_def)
  have t: "channel_update 0 \<lparr>capacity_text = Some ''unlimited'', channel_status = []\<rparr>
     = Threw null_index_error \<lparr>capacity_text = Some ''unlimited'', channel_status = []\<rparr>"
    using m by (simp add: channel_update_def)
  show ?thesis
    using d t channel_status_stops_at_throw [OF d, of "\<lparr>capacity_text = Some ''unlimited'', channel_status = []\<rparr>"
        null_index_error "[\<lparr>capacity_text = Some ''Max 25 users'', channel_status = []\<rparr>]"] by simp
qed

text \<open>Every channel with a digit in its capacity text (or none at all) lets the loop run to the end.\<close>

lemma channels_ok_done:
  "\<forall>c \<in> set cs. capacity_text c = None \<or> match_digits (the (capacity_text c)) \<noteq> None \<Longrightarrow>
   \<exists>cs'. setupVoiceChannelStatus rd i cs = Done cs'"
proof (induction cs arbitrary: i)
  case Nil
  then show ?case by simp
next
  case (Cons c cs)
  then obtain cs' where IH: "setupVoiceChannelStatus rd (Suc i) cs = Done cs'" by auto
  from Cons.prems have "\<exists>c'. channel_update (rd i) c = Done c'"
    by (auto simp: channel_update_def Let_def split: option.splits)
  with IH show ?case by auto
qed

end
