(* ===== verification/Accessibility.thy ===== *)
theory Accessibility
  imports Social
begin

text \<open>
  The \<open>Accessibility\<close> module of src/Script.js (lines 572--682).
  \<^item> \<open>setupKeyboardNavigation\<close>: cards get \<open>tabindex=0\<close> and
    \<open>role=button\<close>; Enter or Space on a card prevents the default and clicks
    its first link (or \<open>.btn\<close>); a document listener maps Ctrl/Cmd+K to
    \<open>redirectToDiscord\<close> and Ctrl/Cmd+M to \<open>minecraft.html\<close>.
  \<^item> \<open>setupFocusManagement\<close>, \<open>setupReducedMotion\<close>: style elements added
    to the head (the second only under \<open>prefers-reduced-motion\<close>).
  \<^item> \<open>setupScreenReaderSupport\<close>: ARIA labels from each card's \<open>h3\<close> and a
    skip link inserted at the top of the body.
  Key events carry \<open>e.key\<close> and the modifier flags; the handlers' effects are
  returned as a list of actions in the order the code performs them.
\<close>

record key_event =
  key :: string
  ctrlKey :: bool
  metaKey :: bool

datatype a11y_action = PreventDefault | ClickInner | DiscordPrompt redirect_result | GoTo string

text \<open>Keydown on a card; \<open>inner\<close>: the card has a link or a \<open>.btn\<close>.\<close>

definition card_keydown :: "bool \<Rightarrow> key_event \<Rightarrow> a11y_action list" where
  "card_keydown inner e =
     (if key e = ''Enter'' \<or> key e = '' ''
      then PreventDefault # (if inner then [ClickInner] else [])
      else [])"

text \<open>The document's shortcut listener; \<open>confirmed\<close> is the answer to the
  Discord dialog.\<close>

definition shortcut_keydown :: "bool \<Rightarrow> key_event \<Rightarrow> a11y_action list" where
  "shortcut_keydown confirmed e =
     (if (ctrlKey e \<or> metaKey e) \<and> key e = ''k''
      then [PreventDefault, DiscordPrompt (redirectToDiscord confirmed)] else [])
     @ (if (ctrlKey e \<or> metaKey e) \<and> key e = ''m''
        then [PreventDefault, GoTo ''minecraft.html''] else [])"

record a11y_card =
  card_title :: "string option"
  tabindex :: "string option"
  role :: "string option"
  aria_label :: "string option"

definition keyboard_setup_card :: "a11y_card \<Rightarrow> a11y_card" where
  "keyboard_setup_card c = c\<lparr>tabindex := Some ''0'', role := Some ''button''\<rparr>"

definition aria_setup_card :: "a11y_card \<Rightarrow> a11y_card" where
  "aria_setup_card c =
     (case card_title c of
        Some t \<Rightarrow> c\<lparr>aria_label := Some (t @ '' - Click to learn more'')\<rparr>
      | None \<Rightarrow> c)"

datatype head_style = FocusStyle | ReducedMotionStyle

record a11y_doc =
  a11y_cards :: "a11y_card list"
  head_styles :: "head_style list"
  skip_links :: nat

text \<open>\<open>Accessibility.init\<close> without the listeners (they are the functions above):
  \<open>.card\<close> elements are the cards here; the keyboard setup also covers the
  team, stat and social cards, which have no ARIA step.\<close>

definition accessibility_init :: "bool \<Rightarrow> a11y_doc \<Rightarrow> a11y_doc" where
  "accessibility_init reduce d =
     (let d1 = d\<lparr>a11y_cards := map keyboard_setup_card (a11y_cards d)\<rparr>;
          d2 = d1\<lparr>head_styles := head_styles d1 @ [FocusStyle]\<rparr>;
          d3 = d2\<lparr>a11y_cards := map aria_setup_card (a11y_cards d2), skip_links := Suc (skip_links d2)\<rparr> in
      if reduce then d3\<lparr>head_styles := head_styles d3 @ [ReducedMotionStyle]\<rparr> else d3)"

subsection \<open>Keys and init\<close>

text \<open>
  the global shortcut listener acts exactly on Ctrl or Cmd with the key
  \<open>k\<close> or \<open>m\<close>.
\<close>

theorem shortcut_keys:
  "shortcut_keydown c e \<noteq> [] \<longleftrightarrow> (ctrlKey e \<or> metaKey e) \<and> (key e = ''k'' \<or> key e = ''m'')"
  by (auto simp: shortcut_keydown_def)

text \<open>
  Ctrl+K prevents the default and shows the Discord dialog, but with Shift
  or Caps Lock (\<open>e.key = 'K'\<close>) the shortcut does nothing.
\<close>

theorem shortcut_shift_k_ignored:
  "shortcut_keydown c \<lparr>key = ''k'', ctrlKey = True, metaKey = False\<rparr>
     = [PreventDefault, DiscordPrompt (redirectToDiscord c)]
   \<and> shortcut_keydown c \<lparr>key = ''K'', ctrlKey = True, metaKey = False\<rparr> = []"
  by (simp add: shortcut_keydown_def)

text \<open>
  \<open>Accessibility.init\<close> is not idempotent: a second run adds a second
  focus style (and reduced-motion style) and a second skip link, while the card
  attributes stay as after the first run.
\<close>

theorem accessibility_init_twice:
  "head_styles (accessibility_init r (accessibility_init r d))
     = head_styles d @ (FocusStyle # (if r then [ReducedMotionStyle] else [])) @ (FocusStyle # (if r then [ReducedMotionStyle] else []))
   \<and> skip_links (accessibility_init r (accessibility_init r d)) = skip_links d + 2
   \<and> a11y_cards (accessibility_init r (accessibility_init r d)) = a11y_cards (accessibility_init r d)"
  by (simp add: accessibility_init_def Let_def keyboard_setup_card_def aria_setup_card_def o_def
      split: option.splits)

end
