(* ===== verification/Performance.thy ===== *)
theory Performance
  imports Prelude
begin

text \<open>
  The \<open>Performance\<close> module of src/Script.js (lines 685--735).
  \<^item> \<open>setupLazyLoading\<close>: when \<open>IntersectionObserver\<close> exists and some
    \<open>img[data-src]\<close> is present, those images are observed; an intersecting
    entry copies \<open>data-src\<close> into \<open>src\<close>, removes the class \<open>lazy\<close> and
    unobserves the image.  Entries arrive only for observed images.
  \<^item> \<open>optimizeImages\<close>: \<open>loading="lazy"\<close> on every image without a
    \<open>loading\<close> attribute.
  \<^item> \<open>setupServiceWorker\<close>: when \<open>navigator.serviceWorker\<close> exists, one
    more \<open>load\<close> listener that registers \<open>/sw.js\<close> and logs whether the
    registration promise resolved (its argument, the registration object or
    the error, is not modelled).
  \<^item> \<open>performance_init\<close>: the three in the order of \<open>Performance.init\<close>.
\<close>

record lazy_img =
  data_src :: "string option"
  img_src :: string
  lazy_class :: bool
  observed :: bool
  loading_attr :: "string option"

definition setupLazyLoading :: "bool \<Rightarrow> lazy_img list \<Rightarrow> lazy_img list" where
  "setupLazyLoading io_supported imgs =
     (if io_supported \<and> (\<exists>i \<in> set imgs. data_src i \<noteq> None)
      then map (\<lambda>i. if data_src i \<noteq> None then i\<lparr>observed := True\<rparr> else i) imgs
      else imgs)"

text \<open>The observer's callback for one entry (image index, isIntersecting).\<close>

definition lazy_entry :: "lazy_img list \<Rightarrow> nat \<times> bool \<Rightarrow> lazy_img list" where
  "lazy_entry imgs e =
     (let (k, isect) = e in
      if k < length imgs \<and> observed (imgs ! k) \<and> isect
      then imgs[k := (imgs ! k)\<lparr>img_src := (case data_src (imgs ! k) of Some s \<Rightarrow> s | None \<Rightarrow> img_src (imgs ! k)),
                               lazy_class := False, observed := False\<rparr>]
      else imgs)"

definition lazy_run :: "lazy_img list \<Rightarrow> (nat \<times> bool) list \<Rightarrow> lazy_img list" where
  "lazy_run imgs es = foldl lazy_entry imgs es"

definition optimizeImages :: "lazy_img list \<Rightarrow> lazy_img list" where
  "optimizeImages imgs = map (\<lambda>i. if loading_attr i = None then i\<lparr>loading_attr := Some ''lazy''\<rparr> else i) imgs"

text \<open>The \<open>load\<close> listener: \<open>register\<close>'s outcome is an input; the log line.\<close>

definition sw_on_load :: "bool \<Rightarrow> string" where
  "sw_on_load registered =
     (if registered then ''SW registered: '' else ''SW registration failed: '')"

record perf_dom =
  perf_images :: "lazy_img list"
  sw_load_listeners :: nat

definition setupServiceWorker :: "bool \<Rightarrow> perf_dom \<Rightarrow> perf_dom" where
  "setupServiceWorker has_sw d =
     (if has_sw then d\<lparr>sw_load_listeners := Suc (sw_load_listeners d)\<rparr> else d)"

definition performance_init :: "bool \<Rightarrow> bool \<Rightarrow> perf_dom \<Rightarrow> perf_dom" where
  "performance_init io_supported has_sw d =
     setupServiceWorker has_sw
       (d\<lparr>perf_images := optimizeImages (setupLazyLoading io_supported (perf_images d))\<rparr>)"

text \<open>Each image is in one of two states: still waiting (observed or never
  observed, \<open>src\<close> as loaded), or loaded from its \<open>data-src\<close> and no
  longer observed.\<close>

definition img_ok :: "lazy_img \<Rightarrow> lazy_img \<Rightarrow> bool" where
  "img_ok i0 i \<longleftrightarrow> data_src i = data_src i0 \<and> loading_attr i = loading_attr i0 \<and>
     ((img_src i = img_src i0 \<and> lazy_class i = lazy_class i0) \<or>
      (\<not> observed i \<and> \<not> lazy_class i \<and> Some (img_src i) = data_src i0))"

subsection \<open>Lazy loading\<close>

lemma img_ok_refl: "img_ok i i"
  by (simp add: img_ok_def)

lemma lazy_entry_ok:
  assumes "list_all2 img_ok imgs0 imgs"
    and "list_all2 (\<lambda>i0 i. observed i \<longrightarrow> data_src i0 \<noteq> None) imgs0 imgs"
  shows "list_all2 img_ok imgs0 (lazy_entry imgs e)
    \<and> list_all2 (\<lambda>i0 i. observed i \<longrightarrow> data_src i0 \<noteq> None) imgs0 (lazy_entry imgs e)"
  using assms
  by (auto simp: lazy_entry_def Let_def list_all2_conv_all_nth nth_list_update img_ok_def
      split: prod.splits option.splits)

text \<open>
  C26: starting from a page where no image is observed, whatever entries the
  observer delivers, every image either keeps its original \<open>src\<close> and class or
  has been loaded from its own \<open>data-src\<close>, lost the class \<open>lazy\<close> and been unobserved.
\<close>

theorem lazy_loading_sound:
  assumes "\<forall>i \<in> set imgs. \<not> observed i"
  shows "list_all2 img_ok imgs (lazy_run (setupLazyLoading io imgs) es)"
proof -
  have "list_all2 img_ok imgs (lazy_run (setupLazyLoading io imgs) es)
      \<and> list_all2 (\<lambda>i0 i. observed i \<longrightarrow> data_src i0 \<noteq> None) imgs (lazy_run (setupLazyLoading io imgs) es)"
  proof (induction es rule: rev_induct)
    case Nil
    show ?case
      using assms by (auto simp: lazy_run_def setupLazyLoading_def list_all2_conv_all_nth img_ok_def)
  next
    case (snoc e es)
    then show ?case
      using lazy_entry_ok by (simp add: lazy_run_def)
  qed
  then show ?thesis by simp
qed

text \<open>
  with IntersectionObserver available, an image with a \<open>data-src\<close> that
  intersects is loaded from it and unobserved.
\<close>

theorem lazy_loads_on_intersect:
  "k < length imgs \<Longrightarrow> io \<Longrightarrow> data_src (imgs ! k) = Some s \<Longrightarrow>
   img_src (lazy_run (setupLazyLoading io imgs) [(k, True)] ! k) = s
   \<and> \<not> observed (lazy_run (setupLazyLoading io imgs) [(k, True)] ! k)"
  by (auto simp: lazy_run_def lazy_entry_def setupLazyLoading_def)

text \<open>
  \<open>optimizeImages\<close> gives every image without a \<open>loading\<close> attribute
  \<open>loading=lazy\<close>, keeps existing ones, and is idempotent.
\<close>

theorem optimizeImages_idem:
  "optimizeImages (optimizeImages imgs) = optimizeImages imgs
   \<and> map loading_attr (optimizeImages imgs)
       = map (\<lambda>i. case loading_attr i of None \<Rightarrow> Some ''lazy'' | Some l \<Rightarrow> Some l) imgs"
  by (auto simp: optimizeImages_def split: option.splits)

theorem lazy_loading_sound_witness:
  "\<not> observed \<lparr>data_src = Some ''a.png'', img_src = [], lazy_class = True, observed = False, loading_attr = None\<rparr>
   \<and> list_all2 img_ok [\<lparr>data_src = Some ''a.png'', img_src = [], lazy_class = True, observed = False, loading_attr = None\<rparr>] (lazy_run (setupLazyLoading True [\<lparr>data_src = Some ''a.png'', img_src = [], lazy_class = True, observed = False, loading_attr = None\<rparr>]) [(0, False), (0, True), (0, True)])"
  using lazy_loading_sound [of "[\<lparr>data_src = Some ''a.png'', img_src = [], lazy_class = True, observed = False, loading_attr = None\<rparr>]" True "[(0, False), (0, True), (0, True)]"] by simp

theorem lazy_loads_on_intersect_witness:
  "0 < length [\<lparr>data_src = Some ''a.png'', img_src = [], lazy_class = True, observed = False, loading_attr = None\<rparr>] \<and> data_src ([\<lparr>data_src = Some ''a.png'', img_src = [], lazy_class = True, observed = False, loading_attr = None\<rparr>] ! 0) = Some ''a.png''
   \<and> img_src (lazy_run (setupLazyLoading True [\<lparr>data_src = Some ''a.png'', img_src = [], lazy_class = True, observed = False, loading_attr = None\<rparr>]) [(0, True)] ! 0) = ''a.png''"
  using lazy_loads_on_intersect [of 0 "[\<lparr>data_src = Some ''a.png'', img_src = [], lazy_class = True, observed = False, loading_attr = None\<rparr>]" True "''a.png''"] by simp

end
