(* ===== verification/Bootstrap.thy ===== *)
theory Bootstrap
  imports Effects ServerTimers Navigation Social VoiceChat Accessibility Performance
begin

text \<open>
  \<open>BlackflameNova.init\<close> (src/Script.js lines 738--769): the seven module
  \<open>init\<close>s in order inside one \<open>try\<close>.  Each module's \<open>init\<close> is the
  composition its theory defines (\<open>navigation_init\<close>, \<open>animations_init\<close>,
  \<open>social_init\<close>, \<open>minecraft_init\<close>, \<open>voicechat_init\<close>,
  \<open>accessibility_init\<close>, \<open>performance_init\<close>), acting on its own part of
  the page record.  Two of them can throw: \<open>Animations.init\<close> without
  \<open>IntersectionObserver\<close>, \<open>VoiceChat.init\<close> on a capacity text without
  digits.  A throw keeps the effects before it, skips the rest and is logged.
\<close>

subsection \<open>The page and the modules\<close>

text \<open>The modules, in the order \<open>BlackflameNova.init\<close> calls them.\<close>

datatype module = NavigationM | AnimationsM | SocialM | MinecraftM | VoiceChatM | AccessibilityM | PerformanceM

definition init_order :: "module list" where
  "init_order = [NavigationM, AnimationsM, SocialM, MinecraftM, VoiceChatM, AccessibilityM, PerformanceM]"

text \<open>What the browser and the markup provide and the code only reads.\<close>

record page_env =
  path :: string
  today :: nat
  has_toggle :: bool
  has_menu :: bool
  has_header :: bool
  io_supported :: bool
  has_logo :: bool
  has_widget :: bool
  has_server_info :: bool
  reduce_motion :: bool
  has_sw :: bool
  rnd :: "nat \<Rightarrow> real"

text \<open>The parts of the live document the modules change: one component state per
  module, the number of document \<open>keydown\<close> listeners of the keyboard
  shortcuts, the \<open>loaded\<close> class and the console.\<close>

record page =
  nav :: nav_dom
  anim :: anim_dom
  social :: social_dom
  mc :: minecraft_dom
  voice :: voice_dom
  a11y :: a11y_doc
  shortcut_listeners :: nat
  perf :: perf_dom
  body_loaded :: bool
  console_log :: "string list"
  console_errors :: "js_exn list"

text \<open>Each module's \<open>init\<close> on its part of the page.  The draws \<open>rnd 0\<close> and
  \<open>rnd 1\<close> are the first status and ping draws, \<open>rnd (i + 2)\<close> the
  \<open>i\<close>-th channel's.\<close>

fun module_init :: "page_env \<Rightarrow> module \<Rightarrow> page \<Rightarrow> page outcome" where
  "module_init env NavigationM p =
     Done (p\<lparr>nav := navigation_init (has_toggle env) (has_menu env) (has_header env) (path env) (nav p)\<rparr>)"
| "module_init env AnimationsM p =
     outcome_map (\<lambda>a. p\<lparr>anim := a\<rparr>) (animations_init (io_supported env) (has_logo env) (anim p))"
| "module_init env SocialM p =
     Done (p\<lparr>social := social_init (has_widget env) (social p)\<rparr>)"
| "module_init env MinecraftM p =
     Done (p\<lparr>mc := minecraft_init (has_server_info env) (path env) (rnd env 0) (rnd env 1) (mc p)\<rparr>)"
| "module_init env VoiceChatM p =
     outcome_map (\<lambda>v. p\<lparr>voice := v\<rparr>) (voicechat_init (path env) (today env) (\<lambda>i. rnd env (i + 2)) (voice p))"
| "module_init env AccessibilityM p =
     Done (p\<lparr>a11y := accessibility_init (reduce_motion env) (a11y p),
             shortcut_listeners := Suc (shortcut_listeners p)\<rparr>)"
| "module_init env PerformanceM p =
     Done (p\<lparr>perf := performance_init (io_supported env) (has_sw env) (perf p)\<rparr>)"

text \<open>Calling the modules in order; an exception skips the rest.  Generic in
  the module and state types: the composition only needs the outcome interface.\<close>

fun run_inits :: "('m \<Rightarrow> 's \<Rightarrow> 's outcome) \<Rightarrow> 'm list \<Rightarrow> 's \<Rightarrow> 's outcome" where
  "run_inits f [] s = Done s"
| "run_inits f (m # ms) s = outcome_bind (f m s) (run_inits f ms)"

text \<open>The welcome template literal, line by line (each line indented by eight
  spaces, the closing one by six); emojis as their UTF-8 bytes.\<close>

definition welcome_message :: string where
  "welcome_message =
     (let bolt = map char_of [226, 154, 161 :: nat]; ind = replicate 8 (CHR '' '') in
      join_with [CHR 10]
        ([] # map (\<lambda>l. ind @ l)
          [bolt @ '' BLACKFLAME NOVA '' @ bolt,
           ''Website loaded successfully!'',
           [],
           map char_of [240, 159, 142, 174 :: nat] @ '' Minecraft IP: '' @ MINECRAFT_IP CONFIG,
           map char_of [240, 159, 147, 177 :: nat] @ '' Bedrock: '' @ BEDROCK_IP CONFIG @ '':'' @ BEDROCK_PORT CONFIG,
           [],
           ''Created by Ahsan '' @ map char_of [240, 159, 142, 168 :: nat] @ '' | Owned by Tannej ''
             @ map char_of [240, 159, 145, 145 :: nat],
           ''Made in Pakistan '' @ map char_of [240, 159, 135, 181, 240, 159, 135, 176 :: nat]]
         @ [replicate 6 (CHR '' '')]))"

text \<open>\<open>BlackflameNova.init\<close>: the \<open>try\<close> around the module calls, the
  \<open>loaded\<close> class and the welcome log on success, \<open>console.error\<close> on failure.\<close>

definition blackflame_init :: "page_env \<Rightarrow> page \<Rightarrow> page" where
  "blackflame_init env p =
     (case run_inits (module_init env) init_order p of
        Done p' \<Rightarrow> p'\<lparr>body_loaded := True, console_log := console_log p' @ [welcome_message]\<rparr>
      | Threw e p' \<Rightarrow> p'\<lparr>console_errors := console_errors p' @ [e]\<rparr>)"

text \<open>A concrete page and environment for the witnesses: a voice-chat page whose
  channel capacity texts are given.\<close>

definition demo_env :: "bool \<Rightarrow> page_env" where
  "demo_env io = \<lparr>path = ''/voice-chat.html'', today = 1, has_toggle = True, has_menu = True,
     has_header = True, io_supported = io, has_logo = True, has_widget = False, has_server_info = False,
     reduce_motion = False, has_sw = True, rnd = (\<lambda>_. 0)\<rparr>"

definition demo_page :: "string list \<Rightarrow> page" where
  "demo_page caps = \<lparr>nav = \<lparr>nav_menu = [], nav_links = [], anchor_setups = 0, scroll_listeners = 0\<rparr>,
     anim = \<lparr>anim_cards = [], logo_intervals = 0, anim_heroes = \<lparr>hero_particles = [], particle_styles = 0\<rparr>,
             counters_observed = False\<rparr>,
     social = \<lparr>soc_iframes = [], redirects_defined = False\<rparr>,
     mc = \<lparr>mc_status = \<lparr>has_status_dot = False, has_status_text = False, dot_className = [], status_label = [],
               status_color = []\<rparr>, mc_copy_defined = False,
           mc_ping = \<lparr>has_ping_value = False, ping_text = [], ping_style_color = []\<rparr>\<rparr>,
     voice = \<lparr>schedule_cards = [], channels = map (\<lambda>t. \<lparr>capacity_text = Some t, channel_status = []\<rparr>) caps\<rparr>,
     a11y = \<lparr>a11y_cards = [], head_styles = [], skip_links = 0\<rparr>, shortcut_listeners = 0,
     perf = \<lparr>perf_images = [], sw_load_listeners = 0\<rparr>, body_loaded = False, console_log = [], console_errors = []\<rparr>"

subsection \<open>Properties of the bootstrap\<close>

lemma run_inits_append:
  "run_inits f (ms @ ns) s = outcome_bind (run_inits f ms s) (run_inits f ns)"
proof (induction ms arbitrary: s)
  case Nil
  then show ?case by simp
next
  case (Cons m ms)
  then show ?case by (cases "f m s") simp_all
qed

lemma run_inits_preserve:
  assumes "\<And>m s. m \<in> set ms \<Longrightarrow> P s \<Longrightarrow> P (outcome_state (f m s))" and "P s"
  shows "P (outcome_state (run_inits f ms s))"
  using assms
proof (induction ms arbitrary: s)
  case Nil
  then show ?case by simp
next
  case (Cons m ms)
  have step: "P (outcome_state (f m s))" using Cons.prems by simp
  show ?case
  proof (cases "f m s")
    case (Done s')
    with step Cons.IH [of s'] Cons.prems(1) show ?thesis by simp
  next
    case (Threw e s')
    with step show ?thesis by simp
  qed
qed

lemma module_init_frame:
  "body_loaded (outcome_state (module_init env m p)) = body_loaded p
   \<and> console_errors (outcome_state (module_init env m p)) = console_errors p"
  by (cases m) (simp_all split: outcome.splits)

lemma run_inits_stops:
  assumes "run_inits f ms s = Done s1" and "f m s1 = Threw e s2"
  shows "run_inits f (ms @ m # ns) s = Threw e s2"
  using assms by (simp add: run_inits_append)

text \<open>
  C8: on a page not yet marked loaded, the bootstrap marks it loaded exactly
  when every module's init returns normally; it never throws.
\<close>

theorem bootstrap_loaded_iff:
  "\<not> body_loaded p \<Longrightarrow>
   body_loaded (blackflame_init env p) \<longleftrightarrow> (\<exists>p'. run_inits (module_init env) init_order p = Done p')"
proof -
  assume nl: "\<not> body_loaded p"
  have "\<not> body_loaded (outcome_state (run_inits (module_init env) init_order p))"
    by (rule run_inits_preserve [where P = "\<lambda>q. \<not> body_loaded q"]) (simp_all add: module_init_frame nl)
  then show ?thesis
    by (auto simp: blackflame_init_def split: outcome.splits)
qed

text \<open>
  C2: when the voice-chat channel setup throws (a capacity text without digits),
  the bootstrap catches it: the earlier modules' effects stay, Accessibility and
  Performance never run (no shortcuts, no ARIA labels, no lazy images), the page is
  not marked loaded and the error is logged.
\<close>

theorem bootstrap_voicechat_throws:
  assumes "io_supported env"
    and "voicechat_init (path env) (today env) (\<lambda>i. rnd env (i + 2)) (voice p) = Threw e v"
  shows "a11y (blackflame_init env p) = a11y p
    \<and> shortcut_listeners (blackflame_init env p) = shortcut_listeners p
    \<and> perf (blackflame_init env p) = perf p
    \<and> body_loaded (blackflame_init env p) = body_loaded p
    \<and> console_errors (blackflame_init env p) = console_errors p @ [e]
    \<and> voice (blackflame_init env p) = v
    \<and> redirects_defined (social (blackflame_init env p)) \<and> mc_copy_defined (mc (blackflame_init env p))"
  using assms by (simp add: blackflame_init_def init_order_def animations_init_def social_init_def minecraft_init_def)

text \<open>
  C17: without IntersectionObserver, \<open>Animations.init\<close> throws at once: only
  Navigation has run, nothing else changes but the logged error (Performance's
  own feature check never gets to run).
\<close>

theorem bootstrap_without_intersection_observer:
  "\<not> io_supported env \<Longrightarrow>
   blackflame_init env p = p\<lparr>nav := navigation_init (has_toggle env) (has_menu env) (has_header env) (path env) (nav p),
       console_errors := console_errors p @ [ReferenceError ''IntersectionObserver is not defined'']\<rparr>"
  by (simp add: blackflame_init_def init_order_def animations_init_def)

lemma module_init_nav:
  "m \<noteq> NavigationM \<Longrightarrow> nav (outcome_state (module_init env m p)) = nav p"
  by (cases m) (simp_all split: outcome.splits)

lemma nav_menu_blackflame_init:
  "nav_menu (nav (blackflame_init env p)) = setupMobileMenu (has_toggle env) (has_menu env) (nav_menu (nav p))"
proof -
  have "nav (outcome_state (run_inits (module_init env) [AnimationsM, SocialM, MinecraftM, VoiceChatM, AccessibilityM, PerformanceM] q)) = nav q" for q
    by (rule run_inits_preserve [where P = "\<lambda>r. nav r = nav q"]) (auto simp: module_init_nav)
  from this [of "p\<lparr>nav := navigation_init (has_toggle env) (has_menu env) (has_header env) (path env) (nav p)\<rparr>"]
  show ?thesis
    by (auto simp: blackflame_init_def init_order_def navigation_init_def split: outcome.splits)
qed

text \<open>
  C16: running the bootstrap twice on a page with the mobile menu registers its
  listeners twice, and a toggle click then leaves the menu closed.
\<close>

theorem bootstrap_twice_menu_stuck:
  assumes "has_toggle env" "has_menu env" "nav_menu (nav p) = []"
  shows "menu_click (nav_menu (nav (blackflame_init env (blackflame_init env p)))) OnToggle menu_closed = menu_closed"
  using assms
  by (simp add: nav_menu_blackflame_init menu_click_def setupMobileMenu_def menu_toggle_def menu_closed_def)

text \<open>
  C1: when IntersectionObserver exists and every channel capacity text has a
  digit, the bootstrap runs every module, marks the page loaded and logs the welcome.
\<close>

theorem bootstrap_success:
  assumes "io_supported env"
    and "\<forall>c \<in> set (channels (voice p)). capacity_text c = None \<or> match_digits (the (capacity_text c)) \<noteq> None"
  shows "body_loaded (blackflame_init env p)
    \<and> console_log (blackflame_init env p) = console_log p @ [welcome_message]
    \<and> a11y (blackflame_init env p) = accessibility_init (reduce_motion env) (a11y p)
    \<and> shortcut_listeners (blackflame_init env p) = Suc (shortcut_listeners p)
    \<and> perf_images (perf (blackflame_init env p)) = optimizeImages (setupLazyLoading True (perf_images (perf p)))"
proof -
  obtain cs' where "setupVoiceChannelStatus (\<lambda>i. rnd env (i + 2)) 0 (channels (voice p)) = Done cs'"
    using channels_ok_done [OF assms(2)] by blast
  then show ?thesis
    using assms(1) by (simp add: blackflame_init_def init_order_def voicechat_init_def Let_def
        animations_init_def performance_init_def setupServiceWorker_def)
qed

theorem bootstrap_loaded_iff_witness:
  "\<not> body_loaded (demo_page [''Max 25 users''])
   \<and> body_loaded (blackflame_init (demo_env True) (demo_page [''Max 25 users'']))"
proof -
  have "\<exists>p'. run_inits (module_init (demo_env True)) init_order (demo_page [''Max 25 users'']) = Done p'"
    by (simp add: init_order_def demo_env_def demo_page_def voicechat_init_def Let_def setupEventSchedule_def
        channel_update_def match_digits_def is_digit_def animations_init_def)
  then show ?thesis
    using bootstrap_loaded_iff [of "demo_page [''Max 25 users'']" "demo_env True"]
    by (simp add: demo_page_def)
qed

theorem bootstrap_voicechat_throws_witness:
  "io_supported (demo_env True)
   \<and> voicechat_init (path (demo_env True)) (today (demo_env True)) (\<lambda>i. rnd (demo_env True) (i + 2))
       (voice (demo_page [''unlimited'']))
     = Threw null_index_error (voice (demo_page [''unlimited'']))
   \<and> shortcut_listeners (blackflame_init (demo_env True) (demo_page [''unlimited''])) = 0"
proof -
  have t: "voicechat_init (path (demo_env True)) (today (demo_env True)) (\<lambda>i. rnd (demo_env True) (i + 2))
       (voice (demo_page [''unlimited'']))
     = Threw null_index_error (voice (demo_page [''unlimited'']))"
    by (simp add: demo_env_def demo_page_def voicechat_init_def Let_def setupEventSchedule_def
        channel_update_def match_digits_def is_digit_def)
  show ?thesis
    using t bootstrap_voicechat_throws [where env = "demo_env True" and e = null_index_error
        and v = "voice (demo_page [''unlimited''])" and p = "demo_page [''unlimited'']"]
    by (simp add: demo_env_def demo_page_def)
qed

theorem bootstrap_without_intersection_observer_witness:
  "\<not> io_supported (demo_env False)
   \<and> console_errors (blackflame_init (demo_env False) (demo_page []))
       = [ReferenceError ''IntersectionObserver is not defined'']"
  using bootstrap_without_intersection_observer [of "demo_env False" "demo_page []"]
  by (simp add: demo_env_def demo_page_def)

theorem bootstrap_twice_menu_stuck_witness:
  "has_toggle (demo_env True) \<and> has_menu (demo_env True) \<and> nav_menu (nav (demo_page [])) = []
   \<and> menu_click (nav_menu (nav (blackflame_init (demo_env True) (blackflame_init (demo_env True) (demo_page [])))))
       OnToggle menu_closed = menu_closed"
  using bootstrap_twice_menu_stuck [of "demo_env True" "demo_page []"]
  by (simp add: demo_env_def demo_page_def)

theorem bootstrap_success_witness:
  "io_supported (demo_env True)
   \<and> channels (voice (demo_page [''Max 25 users''])) = [\<lparr>capacity_text = Some ''Max 25 users'', channel_status = []\<rparr>]
   \<and> match_digits ''Max 25 users'' = Some ''25''
   \<and> body_loaded (blackflame_init (demo_env True) (demo_page [''Max 25 users'']))
   \<and> shortcut_listeners (blackflame_init (demo_env True) (demo_page [''Max 25 users''])) = 1"
proof -
  have m: "match_digits ''Max 25 users'' = Some ''25''"
    by (simp add: match_digits_def is_digit_def)
  show ?thesis
    using bootstrap_success [of "demo_env True" "demo_page [''Max 25 users'']"] m
    by (simp add: demo_env_def demo_page_def)
qed

end
