(* ===== verification/Konami.thy ===== *)
theory Konami
  imports Prelude
begin

text \<open>
  The Konami-code easter egg of src/Script.js (the global \<open>keydown\<close> listener
  registered at script load, lines 823--854).  The listener keeps the last key
  codes in \<open>konamiCode\<close>, compares it with \<open>konamiSequence\<close> by
  \<open>join(',')\<close>, and on a match turns the body's animation on, appends a
  \<open><style>\<close> element and schedules a \<open>setTimeout\<close> that after 10 s clears
  the animation and removes that style element.  The state is the buffer plus
  the part of the document the handler touches, with a clock and the pending
  timeouts; events are key presses and the passing of time.
\<close>

definition konamiSequence :: "nat list" where
  "konamiSequence = [38, 38, 40, 40, 37, 39, 37, 39, 66, 65]"

text \<open>\<open>ks.join(',')\<close> for a list of numeric key codes.\<close>

definition key_join :: "nat list \<Rightarrow> string" where
  "key_join ks = join_with '','' (map show_nat ks)"

definition rainbow_animation :: string where
  "rainbow_animation = ''rainbow 2s infinite''"

text \<open>
  \<open>rainbow_styles\<close> lists the ids of the appended rainbow style elements still
  in the document, \<open>resets\<close> the pending timeouts as (due time, style id).
\<close>

record konami_doc =
  konamiCode :: "nat list"
  body_animation :: string
  rainbow_styles :: "nat list"
  next_style :: nat
  resets :: "(ms \<times> nat) list"
  now :: ms

definition konami_init :: konami_doc where
  "konami_init = \<lparr>konamiCode = [], body_animation = [], rainbow_styles = [],
     next_style = 0, resets = [], now = 0\<rparr>"

text \<open>\<open>konamiCode.push(k)\<close>, then one \<open>shift()\<close> when it is too long.\<close>

definition konami_push :: "nat list \<Rightarrow> nat \<Rightarrow> nat list" where
  "konami_push buf k =
     (let b = buf @ [k] in if length b > length konamiSequence then tl b else b)"

definition konami_activates :: "nat list \<Rightarrow> bool" where
  "konami_activates buf \<longleftrightarrow> key_join buf = key_join konamiSequence"

text \<open>The whole \<open>keydown\<close> handler.\<close>

definition konami_keydown :: "konami_doc \<Rightarrow> nat \<Rightarrow> konami_doc" where
  "konami_keydown d k =
     (let buf = konami_push (konamiCode d) k; d1 = d\<lparr>konamiCode := buf\<rparr> in
      if konami_activates buf then
        d1\<lparr>body_animation := rainbow_animation,
           rainbow_styles := rainbow_styles d @ [next_style d],
           next_style := Suc (next_style d),
           resets := resets d @ [(now d + 10000, next_style d)]\<rparr>
      else d1)"

text \<open>
  Time passes by \<open>t\<close>: every timeout due by then runs, clearing the body's
  animation and removing its own style element.
\<close>

definition konami_elapse :: "konami_doc \<Rightarrow> ms \<Rightarrow> konami_doc" where
  "konami_elapse d t =
     (let t' = now d + t;
          due = filter (\<lambda>(a, i). a \<le> t') (resets d);
          rest = filter (\<lambda>(a, i). \<not> a \<le> t') (resets d) in
      if due = [] then d\<lparr>now := t'\<rparr>
      else d\<lparr>now := t', body_animation := [],
             rainbow_styles := filter (\<lambda>i. i \<notin> set (map snd due)) (rainbow_styles d),
             resets := rest\<rparr>)"

datatype kevent = KeyDown nat | Elapse ms

fun konami_step :: "konami_doc \<Rightarrow> kevent \<Rightarrow> konami_doc" where
  "konami_step d (KeyDown k) = konami_keydown d k"
| "konami_step d (Elapse t) = konami_elapse d t"

definition konami_run :: "konami_doc \<Rightarrow> kevent list \<Rightarrow> konami_doc" where
  "konami_run d es = foldl konami_step d es"

text \<open>The abstract buffer: the last ten keys typed, as a list.\<close>

definition last_keys :: "nat list \<Rightarrow> nat list" where
  "last_keys ks = drop (length ks - length konamiSequence) ks"

fun keys_of :: "kevent list \<Rightarrow> nat list" where
  "keys_of [] = []"
| "keys_of (KeyDown k # es) = k # keys_of es"
| "keys_of (Elapse t # es) = keys_of es"

text \<open>
  The invariant: the buffer never exceeds the sequence's length, the animation
  is on only while a reset is pending, every pending reset is due within the
  next 10 s, the style elements present are exactly those of the pending
  resets, and the resets name distinct style ids below the next fresh one.
\<close>

definition konami_inv :: "konami_doc \<Rightarrow> bool" where
  "konami_inv d \<longleftrightarrow>
     length (konamiCode d) \<le> length konamiSequence \<and>
     (body_animation d \<noteq> [] \<longrightarrow> resets d \<noteq> []) \<and>
     (\<forall>(a, i) \<in> set (resets d). now d < a \<and> a \<le> now d + 10000 \<and> i < next_style d) \<and>
     distinct (map snd (resets d)) \<and>
     set (rainbow_styles d) = snd ` set (resets d)"

subsection \<open>Join comparison and the buffer\<close>

lemma length_konamiSequence [simp]: "length konamiSequence = 10"
  by (simp add: konamiSequence_def)

lemma show_nat_no_comma: "CHR '','' \<notin> set (show_nat n)"
  using show_nat_digits is_digit_comma by blast

lemma key_join_eq: "key_join xs = key_join ys \<longleftrightarrow> xs = ys"
proof -
  have "\<forall>w \<in> set (map show_nat xs) \<union> set (map show_nat ys). w \<noteq> [] \<and> CHR '','' \<notin> set w"
    by (auto simp: show_nat_no_comma)
  then have "key_join xs = key_join ys \<longleftrightarrow> map show_nat xs = map show_nat ys"
    unfolding key_join_def by (rule join_with_inj)
  moreover have "inj show_nat"
    by (rule injI) (simp add: show_nat_inj)
  ultimately show ?thesis
    by (simp add: inj_map_eq_map)
qed

text \<open>C36: comparing the buffer with the sequence by \<open>join(',')\<close> is list equality.\<close>

theorem konami_activates_iff: "konami_activates buf \<longleftrightarrow> buf = konamiSequence"
  by (simp add: konami_activates_def key_join_eq)

lemma konami_push_last_keys: "konami_push (last_keys ks) k = last_keys (ks @ [k])"
proof (cases "length ks < 10")
  case True
  then show ?thesis by (simp add: konami_push_def last_keys_def Let_def)
next
  case False
  then have "Suc (length ks) - 10 = Suc (length ks - 10)"
    by arith
  then have "tl (drop (length ks - 10) ks @ [k]) = drop (Suc (length ks) - 10) (ks @ [k])"
    using False by (simp add: drop_Suc tl_drop)
  with False show ?thesis by (simp add: konami_push_def last_keys_def Let_def)
qed

lemma konamiCode_keydown [simp]: "konamiCode (konami_keydown d k) = konami_push (konamiCode d) k"
  by (simp add: konami_keydown_def Let_def)

lemma konamiCode_elapse [simp]: "konamiCode (konami_elapse d t) = konamiCode d"
  by (simp add: konami_elapse_def Let_def)

lemma konami_run_append [simp]: "konami_run d (es @ fs) = konami_run (konami_run d es) fs"
  by (simp add: konami_run_def)

lemma konami_run_simps [simp]:
  "konami_run d [] = d" "konami_run d (e # es) = konami_run (konami_step d e) es"
  by (simp_all add: konami_run_def)

lemma keys_of_append [simp]: "keys_of (es @ fs) = keys_of es @ keys_of fs"
  by (induction es rule: keys_of.induct) auto

lemma keys_of_map_KeyDown [simp]: "keys_of (map KeyDown ks) = ks"
  by (induction ks) auto

lemma konamiCode_run_from:
  "konamiCode d = last_keys ks \<Longrightarrow> konamiCode (konami_run d es) = last_keys (ks @ keys_of es)"
proof (induction es arbitrary: d ks)
  case Nil
  then show ?case by simp
next
  case (Cons e es)
  show ?case
  proof (cases e)
    case (KeyDown k)
    have "konamiCode (konami_keydown d k) = last_keys (ks @ [k])"
      using Cons.prems by (simp add: konami_push_last_keys)
    from Cons.IH [OF this] KeyDown show ?thesis by simp
  next
    case (Elapse t)
    with Cons show ?thesis by simp
  qed
qed

lemma konamiCode_init: "konamiCode konami_init = last_keys []"
  by (simp add: konami_init_def last_keys_def)

text \<open>
  C23: refinement.  Whatever the events, the buffer is the abstract "last ten
  keys typed" (\<open>last_keys\<close>) of the key events so far.
\<close>

theorem konami_buffer_last_keys:
  "konamiCode (konami_run konami_init es) = last_keys (keys_of es)"
  using konamiCode_run_from [OF konamiCode_init, of es] by simp

lemma konami_keydown_fires:
  "rainbow_styles (konami_keydown d k) \<noteq> rainbow_styles d
   \<longleftrightarrow> konami_push (konamiCode d) k = konamiSequence"
  by (simp add: konami_keydown_def Let_def konami_activates_def key_join_eq)

text \<open>
  C22: a key press turns the rainbow on (adds a style element) exactly when it
  completes the sequence: the last ten keys typed, this one included, are
  \<open>konamiSequence\<close>.
\<close>

theorem konami_fires_iff:
  "rainbow_styles (konami_keydown (konami_run konami_init es) k)
     \<noteq> rainbow_styles (konami_run konami_init es)
   \<longleftrightarrow> last_keys (keys_of es @ [k]) = konamiSequence"
  using konamiCode_run_from [OF konamiCode_init, of es]
  by (simp add: konami_keydown_fires konami_push_last_keys)

lemma konami_keys_only_short:
  "length ks < 10 \<Longrightarrow> rainbow_styles (konami_run konami_init (map KeyDown ks)) = []"
proof (induction ks rule: rev_induct)
  case Nil
  then show ?case by (simp add: konami_init_def)
next
  case (snoc k ks)
  have "last_keys (ks @ [k]) \<noteq> konamiSequence"
    using snoc.prems by (auto simp: last_keys_def dest: arg_cong [where f = length])
  then show ?case
    using snoc konami_keydown_fires [of "konami_run konami_init (map KeyDown ks)" k]
      konamiCode_run_from [OF konamiCode_init, of "map KeyDown ks"]
    by (simp add: konami_push_last_keys)
qed

text \<open>
  C3: from a fresh page, ten key presses turn the rainbow on if and only if they
  are the Konami sequence; any other ten keys do not.
\<close>

theorem konami_ten_keys:
  assumes "length ks = 10"
  shows "rainbow_styles (konami_run konami_init (map KeyDown ks)) \<noteq> [] \<longleftrightarrow> ks = konamiSequence"
proof -
  obtain js k where ks: "ks = js @ [k]" and "length js = 9"
    using assms by (cases ks rule: rev_cases) auto
  then have "rainbow_styles (konami_run konami_init (map KeyDown js)) = []"
    by (simp add: konami_keys_only_short)
  moreover have "last_keys (js @ [k]) = js @ [k]"
    using \<open>length js = 9\<close> by (simp add: last_keys_def)
  ultimately show ?thesis
    using konami_keydown_fires [of "konami_run konami_init (map KeyDown js)" k]
      konamiCode_run_from [OF konamiCode_init, of "map KeyDown js"] ks
    by (simp add: konami_push_last_keys)
qed

theorem konami_ten_keys_witness:
  "length konamiSequence = 10 \<and>
   rainbow_styles (konami_run konami_init (map KeyDown konamiSequence)) \<noteq> []"
  using konami_ten_keys [of konamiSequence] by simp

subsection \<open>The invariant and the end of the rainbow\<close>

lemma konami_inv_init: "konami_inv konami_init"
  by (simp add: konami_inv_def konami_init_def)

lemma length_konami_push: "length buf \<le> 10 \<Longrightarrow> length (konami_push buf k) \<le> 10"
  by (simp add: konami_push_def Let_def)

lemma konami_inv_keydown: "konami_inv d \<Longrightarrow> konami_inv (konami_keydown d k)"
  by (fastforce simp: konami_inv_def konami_keydown_def Let_def length_konami_push
      rainbow_animation_def)

lemma snd_filter_partition:
  assumes "distinct (map snd xs)" and "\<And>x. Q x \<longleftrightarrow> \<not> P x"
  shows "snd ` set xs - snd ` set (filter P xs) = snd ` set (filter Q xs)"
  using assms by (induction xs) (auto simp: image_iff)

lemma konami_inv_elapse: "konami_inv d \<Longrightarrow> konami_inv (konami_elapse d t)"
proof -
  assume inv: "konami_inv d"
  let ?t' = "now d + t"
  let ?due = "filter (\<lambda>(a, i). a \<le> ?t') (resets d)"
  let ?rest = "filter (\<lambda>(a, i). \<not> a \<le> ?t') (resets d)"
  have rest: "\<forall>(a, i) \<in> set ?rest. ?t' < a \<and> a \<le> ?t' + 10000 \<and> i < next_style d"
    using inv by (auto simp: konami_inv_def)
  have dist: "distinct (map snd ?rest)"
    using inv by (auto simp: konami_inv_def distinct_map_filter)
  show ?thesis
  proof (cases "?due = []")
    case True
    then have "?rest = resets d"
      by (auto simp: filter_empty_conv intro: filter_True)
    then show ?thesis
      using inv rest by (simp add: konami_inv_def konami_elapse_def Let_def True)
  next
    case False
    have "set (filter (\<lambda>i. i \<notin> set (map snd ?due)) (rainbow_styles d))
        = snd ` set (resets d) - snd ` set ?due"
      using inv by (auto simp: konami_inv_def)
    also have "\<dots> = snd ` set ?rest"
      using inv by (intro snd_filter_partition) (auto simp: konami_inv_def)
    finally have "set (filter (\<lambda>i. i \<notin> set (map snd ?due)) (rainbow_styles d)) = snd ` set ?rest" .
    then show ?thesis
      using inv rest dist False by (simp add: konami_inv_def konami_elapse_def Let_def) blast
  qed
qed

lemma konami_inv_step: "konami_inv d \<Longrightarrow> konami_inv (konami_step d e)"
  by (cases e) (simp_all add: konami_inv_keydown konami_inv_elapse)

lemma konami_inv_run_from: "konami_inv d \<Longrightarrow> konami_inv (konami_run d es)"
  by (induction es arbitrary: d) (simp_all add: konami_inv_step)

text \<open>C34: every state reached from a fresh page satisfies \<open>konami_inv\<close>.\<close>

theorem konami_inv_run: "konami_inv (konami_run konami_init es)"
  by (rule konami_inv_run_from [OF konami_inv_init])

lemma konami_elapse_quiet:
  assumes "konami_inv d"
  shows "body_animation (konami_elapse d 10000) = [] \<and> rainbow_styles (konami_elapse d 10000) = []
    \<and> resets (konami_elapse d 10000) = []"
proof (cases "resets d = []")
  case True
  with assms show ?thesis
    by (simp add: konami_inv_def konami_elapse_def)
next
  case False
  from assms have all_due: "\<forall>(a, i) \<in> set (resets d). a \<le> now d + 10000"
    by (auto simp: konami_inv_def)
  then have "filter (\<lambda>(a, i). a \<le> now d + 10000) (resets d) = resets d"
    by (auto intro: filter_True)
  moreover have "filter (\<lambda>(a, i). \<not> a \<le> now d + 10000) (resets d) = []"
    using all_due by (auto simp: filter_empty_conv)
  moreover have "filter (\<lambda>i. i \<notin> set (map snd (resets d))) (rainbow_styles d) = []"
    using assms by (auto simp: konami_inv_def filter_empty_conv)
  ultimately show ?thesis
    using False by (simp add: konami_elapse_def Let_def)
qed

text \<open>
  C24: whatever happened before, 10 s without a key press end rainbow mode: the
  body's animation is cleared and every rainbow style element is removed.
\<close>

theorem konami_rainbow_ends:
  "body_animation (konami_run konami_init (es @ [Elapse 10000])) = []
   \<and> rainbow_styles (konami_run konami_init (es @ [Elapse 10000])) = []"
  using konami_elapse_quiet [OF konami_inv_run_from [OF konami_inv_init, of es]] by simp

text \<open>
  a second activation 5 s after the first is cut short: the first
  activation's timeout clears the body's animation at 10 s although the
  second activation's style element is still in the document.
\<close>

theorem konami_overlap_cut_short:
  "body_animation (konami_run konami_init
      (map KeyDown konamiSequence @ [Elapse 5000] @ map KeyDown konamiSequence @ [Elapse 5000])) = []
   \<and> rainbow_styles (konami_run konami_init
      (map KeyDown konamiSequence @ [Elapse 5000] @ map KeyDown konamiSequence @ [Elapse 5000])) = [1]"
  by (simp add: konamiSequence_def konami_init_def konami_keydown_def konami_elapse_def
      konami_push_def konami_activates_def key_join_eq Let_def)

end
