(* ===== verification/Utilities.thy ===== *)
theory Utilities
  imports Minecraft Navigation
begin

text \<open>
  The global utilities of src/Script.js (lines 771--877): \<open>sharePage\<close>
  (lines 784--803), the \<open>visibilitychange\<close> listener that swaps the
  document title (lines 862--877), and \<open>scrollToTop\<close> and \<open>printPage\<close>
  (lines 774--781), each a single browser call, modelled as the call it makes.
  \<open>sharePage\<close>'s fallback calls \<open>Minecraft.prototype.showToast\<close>, but
  \<open>Minecraft\<close> is an object literal: its \<open>prototype\<close> is \<open>undefined\<close>
  and reading \<open>showToast\<close> of it throws a \<open>TypeError\<close>, which the
  surrounding \<open>catch\<close> turns into the log line \<open>Could not copy URL\<close>.
  Titles with non-ASCII characters are written as their UTF-8 bytes.
\<close>

datatype window_call = WindowScrollTo int string | WindowPrint

definition scrollToTop :: window_call where
  "scrollToTop = WindowScrollTo 0 ''smooth''"

definition printPage :: window_call where
  "printPage = WindowPrint"

definition prototype_showToast :: "js_exn + (string \<Rightarrow> string \<Rightarrow> copy_dom \<Rightarrow> copy_dom)" where
  "prototype_showToast = Inl (TypeError ''Cannot read properties of undefined (reading showToast)'')"

record share_env =
  has_web_share :: bool
  share_resolves :: bool
  clipboard_resolves :: bool
  location_href :: string

record share_result =
  shared :: "string list"
  share_dom :: copy_dom
  share_log :: "string list"

definition sharePage :: "share_env \<Rightarrow> copy_dom \<Rightarrow> share_result" where
  "sharePage env d =
     (if has_web_share env then
        \<lparr>shared = [location_href env], share_dom = d,
         share_log = (if share_resolves env then [] else [''Error sharing:''])\<rparr>
      else if clipboard_resolves env then
        (let d1 = d\<lparr>clipboard := location_href env\<rparr> in
         case prototype_showToast of
           Inl e \<Rightarrow> \<lparr>shared = [], share_dom = d1, share_log = [''Could not copy URL'']\<rparr>
         | Inr show \<Rightarrow> \<lparr>shared = [], share_dom = show ''URL copied to clipboard!'' ''success'' d1, share_log = []\<rparr>)
      else \<lparr>shared = [], share_dom = d, share_log = [''Could not copy URL'']\<rparr>)"

definition index_title :: string where
  "index_title = ''Top'' @ map char_of [226, 157, 182, 240, 157, 144, 129, 240, 157, 144, 139, 240, 157, 144, 128, 240, 157, 144, 130, 240, 157, 144, 138, 240, 157, 144, 133, 240, 157, 144, 139, 240, 157, 144, 128, 240, 157, 144, 140, 240, 157, 144, 132, 32, 240, 157, 144, 141, 240, 157, 144, 142, 240, 157, 144, 149, 240, 157, 144, 128 :: nat] @ '' - Discord Server''"

definition hidden_title :: string where
  "hidden_title = map char_of [240 :: nat, 159, 146, 164] @ '' Come back to BLACKFLAME NOVA!''"

definition pageTitles :: "string \<rightharpoonup> string" where
  "pageTitles = [''index'' \<mapsto> index_title, ''minecraft'' \<mapsto> ''Minecraft Server - BLACKFLAME NOVA'',
     ''voice-chat'' \<mapsto> ''Voice Chat Events - BLACKFLAME NOVA'',
     ''social-media'' \<mapsto> ''Social Media & Team - BLACKFLAME NOVA'']"

text \<open>The listener: the new title for \<open>document.hidden\<close> and the path.\<close>

definition visibility_title :: "bool \<Rightarrow> string \<Rightarrow> string" where
  "visibility_title hidden path =
     (if hidden then hidden_title
      else case pageTitles (currentPage path) of Some t \<Rightarrow> t | None \<Rightarrow> ''BLACKFLAME NOVA'')"

subsection \<open>Share and titles\<close>

text \<open>
  C27: without the Web Share API, a successful clipboard write copies the page
  URL, but \<open>Minecraft.prototype.showToast\<close> throws: no toast is shown and the
  log says \<open>Could not copy URL\<close>.
\<close>

theorem sharePage_fallback_no_toast:
  assumes "\<not> has_web_share env" "clipboard_resolves env"
  shows "clipboard (share_dom (sharePage env d)) = location_href env
    \<and> toasts (share_dom (sharePage env d)) = toasts d
    \<and> share_log (sharePage env d) = [''Could not copy URL'']"
  using assms by (simp add: sharePage_def prototype_showToast_def)

text \<open>
  when the page becomes visible again the title is the table's title of
  the current page (the index title at the root and, wrongly, for a trailing
  slash; the default elsewhere); when hidden it is the come-back title.
\<close>

theorem visibility_titles:
  "list_all (\<lambda>p. visibility_title False (''/'' @ p @ ''.html'') = the (pageTitles p)) site_pages
   \<and> visibility_title False ''/'' = index_title
   \<and> visibility_title False ''/minecraft/'' = index_title
   \<and> visibility_title False ''/about.html'' = ''BLACKFLAME NOVA''
   \<and> visibility_title True p = hidden_title"
  by (simp add: visibility_title_def site_pages_def pageTitles_def currentPage_def)
theorem sharePage_fallback_witness:
  "\<not> has_web_share \<lparr>has_web_share = False, share_resolves = False, clipboard_resolves = True, location_href = ''https://example.org/index.html''\<rparr> \<and> clipboard_resolves \<lparr>has_web_share = False, share_resolves = False, clipboard_resolves = True, location_href = ''https://example.org/index.html''\<rparr>
   \<and> share_log (sharePage \<lparr>has_web_share = False, share_resolves = False, clipboard_resolves = True, location_href = ''https://example.org/index.html''\<rparr> quiet_copy_page) = [''Could not copy URL'']"
  using sharePage_fallback_no_toast [of "\<lparr>has_web_share = False, share_resolves = False, clipboard_resolves = True, location_href = ''https://example.org/index.html''\<rparr>" quiet_copy_page] by simp

end
