(* ===== verification/Site.thy ===== *)
theory Site
  imports Bootstrap Konami Utilities
begin

text \<open>
  The page wiring of src/Script.js: what the script registers when it is
  evaluated, and how the document's events reach the modules.
  \<^item> At evaluation the script adds, in this order, the Konami \<open>keydown\<close>
    listener (line 827), the \<open>DOMContentLoaded\<close> listener that runs
    \<open>BlackflameNova.init\<close> (line 857) and the \<open>visibilitychange\<close> listener
    (line 862), and assigns \<open>window.BlackflameNova\<close> (lines 880--889), an
    object with the seven modules and \<open>CONFIG\<close> but no \<open>init\<close>.
  \<^item> \<open>Accessibility.init\<close> adds one more document \<open>keydown\<close> listener per run
    (the shortcuts); document listeners run in registration order, so the
    Konami listener always runs first.
  A key event carries \<open>e.key\<close>, the modifiers and \<open>e.keyCode\<close>; the answer
  to the Discord \<open>confirm\<close> is part of the event.  The shortcut listeners'
  effects are collected as actions in the order they happen.
\<close>

record site =
  pg :: page
  konami :: konami_doc
  doc_title :: string
  actions :: "a11y_action list"

datatype site_event =
    DOMContentLoaded
  | DocKeyDown key_event nat bool
  | VisibilityChange bool
  | TimePasses ms

text \<open>The members of \<open>window.BlackflameNova\<close> (line 880): the module objects and the configuration.\<close>

definition exported_members :: "string list" where
  "exported_members = [''Navigation'', ''Animations'', ''Social'', ''Minecraft'', ''VoiceChat'',
     ''Accessibility'', ''Performance'', ''CONFIG'']"

text \<open>The state right after the script ran, before \<open>DOMContentLoaded\<close>.\<close>

definition script_loaded :: "page \<Rightarrow> string \<Rightarrow> site" where
  "script_loaded p title = \<lparr>pg = p, konami = konami_init, doc_title = title, actions = []\<rparr>"

text \<open>One event: the document's listeners for it, in registration order.\<close>

fun site_step :: "page_env \<Rightarrow> site \<Rightarrow> site_event \<Rightarrow> site" where
  "site_step env s DOMContentLoaded = s\<lparr>pg := blackflame_init env (pg s)\<rparr>"
| "site_step env s (DocKeyDown e code confirmed) =
     s\<lparr>konami := konami_keydown (konami s) code,
       actions := actions s @ concat (replicate (shortcut_listeners (pg s)) (shortcut_keydown confirmed e))\<rparr>"
| "site_step env s (VisibilityChange hidden) = s\<lparr>doc_title := visibility_title hidden (path env)\<rparr>"
| "site_step env s (TimePasses t) = s\<lparr>konami := konami_elapse (konami s) t\<rparr>"

definition site_run :: "page_env \<Rightarrow> site \<Rightarrow> site_event list \<Rightarrow> site" where
  "site_run env s es = foldl (site_step env) s es"

text \<open>The Konami events hidden in a sequence of site events.\<close>

fun konami_events :: "site_event list \<Rightarrow> kevent list" where
  "konami_events [] = []"
| "konami_events (DocKeyDown e code c # es) = KeyDown code # konami_events es"
| "konami_events (TimePasses t # es) = Elapse t # konami_events es"
| "konami_events (_ # es) = konami_events es"

text \<open>Ctrl+K: \<open>e.key\<close> is \<open>k\<close>, \<open>e.keyCode\<close> is 75.\<close>

definition ctrl_k :: key_event where
  "ctrl_k = \<lparr>key = ''k'', ctrlKey = True, metaKey = False\<rparr>"

subsection \<open>Listeners and their order\<close>

lemma site_run_append [simp]: "site_run env s (es @ fs) = site_run env (site_run env s es) fs"
  by (simp add: site_run_def)

lemma site_run_Cons [simp]: "site_run env s (e # es) = site_run env (site_step env s e) es"
  by (simp add: site_run_def)

lemma site_run_Nil [simp]: "site_run env s [] = s"
  by (simp add: site_run_def)

lemma konami_run_Cons: "konami_run d (e # es) = konami_run (konami_step d e) es"
  by (simp add: konami_run_def)

text \<open>The Konami listener sees only key codes and time, whatever else happens.\<close>

lemma site_run_konami:
  "konami (site_run env s es) = konami_run (konami s) (konami_events es)"
proof (induction es arbitrary: s)
  case Nil
  then show ?case by (simp add: konami_run_def)
next
  case (Cons e es)
  then show ?case by (cases e) (simp_all add: konami_run_Cons)
qed

text \<open>Without \<open>DOMContentLoaded\<close> the page (and so the number of shortcut
  listeners) does not change; with none registered no action happens.\<close>

lemma site_actions_frozen:
  assumes "shortcut_listeners (pg s) = 0" "DOMContentLoaded \<notin> set es"
  shows "actions (site_run env s es) = actions s \<and> pg (site_run env s es) = pg s"
  using assms
proof (induction es arbitrary: s)
  case Nil
  then show ?case by simp
next
  case (Cons e es)
  have "e \<noteq> DOMContentLoaded" using Cons.prems by auto
  then have "pg (site_step env s e) = pg s" and "actions (site_step env s e) = actions s"
    using Cons.prems(1) by (cases e; simp)+
  with Cons show ?case by simp
qed

text \<open>
  C18: before \<open>DOMContentLoaded\<close>, on a page whose modules have not run, no
  event reaches the modules: no shortcut acts and the page is unchanged, while
  the Konami listener, registered when the script ran, already follows every
  key code and elapsed time.
\<close>

theorem before_load_only_konami:
  assumes "shortcut_listeners p = 0" "DOMContentLoaded \<notin> set es"
  shows "actions (site_run env (script_loaded p title) es) = []
    \<and> pg (site_run env (script_loaded p title) es) = p
    \<and> konami (site_run env (script_loaded p title) es) = konami_run konami_init (konami_events es)"
  using site_actions_frozen [of "script_loaded p title" es env] site_run_konami [of env "script_loaded p title" es] assms
  by (simp add: script_loaded_def)

text \<open>
  C19: after a successful bootstrap on a fresh page, Ctrl+K prevents the default
  and shows the Discord dialog exactly once, and the key still reaches the
  Konami buffer first.
\<close>

theorem ctrl_k_after_load:
  assumes "io_supported env"
    and "\<forall>c \<in> set (channels (voice p)). capacity_text c = None \<or> match_digits (the (capacity_text c)) \<noteq> None"
    and "shortcut_listeners p = 0"
  shows "actions (site_run env (script_loaded p title) [DOMContentLoaded, DocKeyDown ctrl_k 75 c])
           = [PreventDefault, DiscordPrompt (redirectToDiscord c)]
    \<and> konamiCode (konami (site_run env (script_loaded p title) [DOMContentLoaded, DocKeyDown ctrl_k 75 c])) = [75]"
proof -
  obtain cs' where "setupVoiceChannelStatus (\<lambda>i. rnd env (i + 2)) 0 (channels (voice p)) = Done cs'"
    using channels_ok_done [OF assms(2)] by blast
  then have "shortcut_listeners (blackflame_init env p) = 1"
    using assms(1,3) by (simp add: blackflame_init_def init_order_def voicechat_init_def Let_def
        animations_init_def)
  then show ?thesis
    by (simp add: script_loaded_def ctrl_k_def shortcut_keydown_def konami_keydown_def konami_init_def
        konami_push_def Let_def konamiSequence_def)
qed

text \<open>
  C9: a voice-chat capacity text without digits disables the keyboard shortcuts
  for the whole visit: the bootstrap throws before Accessibility registers them,
  so Ctrl+K after \<open>DOMContentLoaded\<close> does nothing, while the Konami listener
  still records the key.
\<close>

theorem voicechat_throw_disables_shortcuts:
  assumes "io_supported env"
    and "voicechat_init (path env) (today env) (\<lambda>i. rnd env (i + 2)) (voice p) = Threw e v"
    and "shortcut_listeners p = 0" and "DOMContentLoaded \<notin> set es"
  shows "actions (site_run env (script_loaded p title) (DOMContentLoaded # es)) = []
    \<and> konami (site_run env (script_loaded p title) (DOMContentLoaded # es))
        = konami_run konami_init (konami_events es)"
proof -
  let ?s1 = "site_step env (script_loaded p title) DOMContentLoaded"
  have "shortcut_listeners (pg ?s1) = 0"
    using assms(1-3) by (simp add: script_loaded_def blackflame_init_def init_order_def animations_init_def)
  then have "actions (site_run env ?s1 es) = actions ?s1"
    using site_actions_frozen assms(4) by blast
  moreover have "konami (site_run env ?s1 es) = konami_run (konami ?s1) (konami_events es)"
    by (rule site_run_konami)
  ultimately show ?thesis by (simp add: script_loaded_def)
qed


theorem before_load_only_konami_witness:
  "actions (site_run (demo_env True) (script_loaded (demo_page []) ''BLACKFLAME NOVA'')
      [DocKeyDown ctrl_k 75 True, VisibilityChange True, TimePasses 10]) = []
   \<and> pg (site_run (demo_env True) (script_loaded (demo_page []) ''BLACKFLAME NOVA'')
      [DocKeyDown ctrl_k 75 True, VisibilityChange True, TimePasses 10]) = demo_page []"
  using before_load_only_konami [where p = "demo_page []" and env = "demo_env True"
      and es = "[DocKeyDown ctrl_k 75 True, VisibilityChange True, TimePasses 10]" and title = "''BLACKFLAME NOVA''"]
  by (simp add: demo_page_def)

theorem ctrl_k_after_load_witness:
  "actions (site_run (demo_env True) (script_loaded (demo_page [''Max 25 users'']) ''BLACKFLAME NOVA'')
      [DOMContentLoaded, DocKeyDown ctrl_k 75 True]) = [PreventDefault, DiscordPrompt (redirectToDiscord True)]"
proof -
  have "match_digits ''Max 25 users'' = Some ''25''" by (simp add: match_digits_def is_digit_def)
  then show ?thesis
    using ctrl_k_after_load [where p = "demo_page [''Max 25 users'']" and env = "demo_env True"
        and title = "''BLACKFLAME NOVA''" and c = True]
    by (simp add: demo_page_def demo_env_def)
qed

theorem voicechat_throw_disables_shortcuts_witness:
  "actions (site_run (demo_env True) (script_loaded (demo_page [''unlimited'']) ''BLACKFLAME NOVA'')
      [DOMContentLoaded, DocKeyDown ctrl_k 75 True]) = []"
proof -
  have t: "voicechat_init (path (demo_env True)) (today (demo_env True)) (\<lambda>i. rnd (demo_env True) (i + 2))
       (voice (demo_page [''unlimited'']))
     = Threw null_index_error (voice (demo_page [''unlimited'']))"
    by (simp add: demo_env_def demo_page_def voicechat_init_def Let_def setupEventSchedule_def
        channel_update_def match_digits_def is_digit_def)
  show ?thesis
    using t voicechat_throw_disables_shortcuts [where p = "demo_page [''unlimited'']" and env = "demo_env True"
        and e = null_index_error and v = "voice (demo_page [''unlimited''])"
        and es = "[DocKeyDown ctrl_k 75 True]" and title = "''BLACKFLAME NOVA''"]
    by (simp add: demo_env_def demo_page_def)
qed

end
