(* ===== verification/Toasts.thy ===== *)
theory Toasts
  imports Minecraft "HOL-Library.Multiset"
begin

text \<open>
  Well-formedness of the toast machinery of \<open>showToast\<close> (src/Script.js lines
  461--503).  Each toast schedules a slide-out timeout, whose callback
  schedules the removal \<open>document.body.removeChild(toast)\<close>; \<open>removeChild\<close>
  of a node that is no longer a child throws a \<open>NotFoundError\<close>.  The
  invariant \<open>toast_wf\<close>: toast ids are distinct and below the next id, and the
  ids named by the pending toast timeouts are, as a multiset, exactly the ids of
  the toasts in the body: every toast has one pending timeout and every pending
  timeout has its toast.  So a removal always finds its toast.
\<close>

fun toast_timer_id :: "copy_timer \<Rightarrow> nat list" where
  "toast_timer_id (SlideOut i) = [i]"
| "toast_timer_id (RemoveToast i) = [i]"
| "toast_timer_id (RestoreBtn s) = []"

definition toast_timer_ids :: "(ms \<times> copy_timer) list \<Rightarrow> nat list" where
  "toast_timer_ids ts = concat (map (toast_timer_id \<circ> snd) ts)"

definition toast_wf :: "copy_dom \<Rightarrow> bool" where
  "toast_wf d \<longleftrightarrow> distinct (map toast_id (toasts d))
     \<and> list_all (\<lambda>t. toast_id t < next_toast d) (toasts d)
     \<and> mset (toast_timer_ids (timers d)) = mset (map toast_id (toasts d))"

text \<open>The removals pending in a state.\<close>

definition pending_removals :: "copy_dom \<Rightarrow> nat list" where
  "pending_removals d = [i. (due, RemoveToast i) \<leftarrow> timers d]"

subsection \<open>The invariant is preserved\<close>

lemma toast_timer_ids_simps [simp]:
  "toast_timer_ids [] = []"
  "toast_timer_ids (x # xs) = toast_timer_id (snd x) @ toast_timer_ids xs"
  by (simp_all add: toast_timer_ids_def)

lemma toast_timer_ids_append [simp]:
  "toast_timer_ids (xs @ ys) = toast_timer_ids xs @ toast_timer_ids ys"
  by (simp add: toast_timer_ids_def)

lemma toast_timer_ids_remove1:
  "x \<in> set ts \<Longrightarrow> mset (toast_timer_ids ts) = mset (toast_timer_ids (remove1 x ts)) + mset (toast_timer_id (snd x))"
  by (induction ts) (auto simp: ac_simps)

lemma toast_wf_ids_set:
  "toast_wf d \<Longrightarrow> set (toast_timer_ids (timers d)) = toast_id ` set (toasts d)"
  by (metis set_mset_mset set_map toast_wf_def)

lemma earliest_mem: "earliest xs = Some x \<Longrightarrow> x \<in> set xs"
  by (induction xs) (auto split: option.splits if_splits)

lemma next_due_mem: "next_due t ts = Some x \<Longrightarrow> x \<in> set ts"
  by (auto simp: next_due_def dest: earliest_mem)

text \<open>A copy click keeps the invariant provided the toast it shows does.\<close>

lemma toast_wf_copyToClipboard:
  assumes shown: "\<And>e. toast_wf e \<Longrightarrow> toast_wf (showToast copy_message ''success'' e)"
    and wf: "toast_wf d"
  shows "toast_wf (copyToClipboard env d)"
proof -
  have fb: "toast_wf e \<Longrightarrow> toast_wf (copy_button_feedback e)" for e
    by (simp add: toast_wf_def copy_button_feedback_def)
  have upd: "toast_wf e \<Longrightarrow> toast_wf (e\<lparr>clipboard := x\<rparr>)" for e x
    by (simp add: toast_wf_def)
  show ?thesis
    using wf by (auto simp: copyToClipboard_def Let_def intro!: shown fb upd split: option.splits)
qed

lemma map_filter_remove1:
  "distinct (map f ts) \<Longrightarrow> map f (filter (\<lambda>t. f t \<noteq> i) ts) = remove1 i (map f ts)"
  by (induction ts) (auto intro: filter_True simp: remove1_idem)

text \<open>The invariant only looks at the ids.\<close>

lemma toast_wf_by_ids:
  assumes "map toast_id (toasts d') = map toast_id (toasts d)" "next_toast d' = next_toast d"
    and "mset (toast_timer_ids (timers d')) = mset (toast_timer_ids (timers d))"
  shows "toast_wf d' = toast_wf d"
proof -
  have lall: "list_all (\<lambda>t. toast_id t < n) ts \<longleftrightarrow> list_all (\<lambda>i. i < n) (map toast_id ts)" for ts n
    by (simp add: list_all_iff)
  have "list_all (\<lambda>t. toast_id t < n) (toasts d') = list_all (\<lambda>t. toast_id t < n) (toasts d)" for n
    by (simp only: lall assms(1))
  moreover have "mset (map toast_id (toasts d')) = mset (map toast_id (toasts d))"
    using assms(1) by (simp only:)
  ultimately show ?thesis using assms(1-3) unfolding toast_wf_def by metis
qed

lemma toast_wf_fire:
  assumes wf: "toast_wf d" and mem: "(due, tm) \<in> set (timers d)"
  shows "toast_wf (fire_timer tm (d\<lparr>cnow := due, timers := remove1 (due, tm) (timers d)\<rparr>))"
proof -
  have ids: "mset (map toast_id (toasts d))
      = mset (toast_timer_ids (remove1 (due, tm) (timers d))) + mset (toast_timer_id tm)"
    using wf mem toast_timer_ids_remove1 [OF mem] by (simp add: toast_wf_def)
  have live: "set (toast_timer_id tm) \<subseteq> toast_id ` set (toasts d)"
    using mem toast_wf_ids_set [OF wf] by (force simp: toast_timer_ids_def)
  show ?thesis
  proof (cases tm)
    case (RestoreBtn s)
    then show ?thesis using wf ids by (simp add: toast_wf_def)
  next
    case (SlideOut i)
    let ?d = "fire_timer tm (d\<lparr>cnow := due, timers := remove1 (due, tm) (timers d)\<rparr>)"
    have "map toast_id (map (\<lambda>t. if toast_id t = i then t\<lparr>toast_animation := x\<rparr> else t) ts)
        = map toast_id ts" for ts :: "toast list" and x
      by (induction ts) simp_all
    then have "map toast_id (toasts ?d) = map toast_id (toasts d)" using SlideOut by simp
    moreover have "mset (toast_timer_ids (timers ?d)) = mset (toast_timer_ids (timers d))"
      using SlideOut toast_timer_ids_remove1 [OF mem] by simp
    ultimately show ?thesis
      using wf SlideOut toast_wf_by_ids [of ?d d] by simp
  next
    case (RemoveToast i)
    have "mset (map toast_id (filter (\<lambda>t. toast_id t \<noteq> i) (toasts d))) = mset (map toast_id (toasts d)) - {#i#}"
      using wf by (simp add: toast_wf_def map_filter_remove1)
    then show ?thesis
      using wf ids RemoveToast by (auto simp: toast_wf_def list_all_iff distinct_map_filter)
  qed
qed

lemma toast_wf_copy_advance: "toast_wf d \<Longrightarrow> toast_wf (copy_advance t d)"
proof (induction t d rule: copy_advance.induct)
  case (1 t d)
  show ?case
  proof (cases "next_due t (timers d)")
    case None
    then show ?thesis using "1.prems" by (simp add: toast_wf_def)
  next
    case (Some x)
    obtain due tm where x: "x = (due, tm)" by (cases x)
    have "(due, tm) \<in> set (timers d)" using Some x by (simp add: next_due_mem)
    then have "toast_wf (fire_timer tm (d\<lparr>cnow := due, timers := remove1 (due, tm) (timers d)\<rparr>))"
      using "1.prems" by (rule toast_wf_fire [rotated])
    with "1.IH" [OF Some x [symmetric]] Some x show ?thesis by simp
  qed
qed

lemma toast_wf_quiet: "toast_wf quiet_copy_page"
  by (simp add: toast_wf_def quiet_copy_page_def toast_timer_ids_def)

lemma pending_removals_live:
  "toast_wf d \<Longrightarrow> set (pending_removals d) \<subseteq> toast_id ` set (toasts d)"
proof
  fix i assume wf: "toast_wf d" and "i \<in> set (pending_removals d)"
  then obtain due where "(due, RemoveToast i) \<in> set (timers d)"
    by (auto simp: pending_removals_def split: prod.splits copy_timer.splits)
  then have "i \<in> set (toast_timer_ids (timers d))" by (force simp: toast_timer_ids_def)
  then show "i \<in> toast_id ` set (toasts d)" using toast_wf_ids_set [OF wf] by simp
qed

text \<open>
  C7: in every state reached from a quiet page by copy clicks and passing
  time, the toast machinery is well formed, and every pending
  \<open>removeChild\<close> targets a toast that is still in the body, so the removal
  never throws.
\<close>

theorem toast_removal_safe:
  "toast_wf (copy_run quiet_copy_page es)
   \<and> set (pending_removals (copy_run quiet_copy_page es)) \<subseteq> toast_id ` set (toasts (copy_run quiet_copy_page es))"
proof -
  have shown: "toast_wf (showToast m ty e)" if "toast_wf e" for m ty e
    using that by (auto simp: toast_wf_def showToast_def Let_def list_all_iff)
  have "toast_wf (copy_run d es)" if "toast_wf d" for d
    using that
  proof (induction es arbitrary: d)
    case Nil
    then show ?case by simp
  next
    case (Cons e es)
    have "toast_wf (copy_step d e)"
      using Cons.prems shown by (cases e) (simp_all add: toast_wf_copyToClipboard toast_wf_copy_advance)
    then show ?case by (simp add: Cons.IH)
  qed
  then show ?thesis using toast_wf_quiet pending_removals_live by blast
qed

end
