(* ===== verification/Spec2Isabelle.thy ===== *)
theory Spec2Isabelle
  imports Site Toasts
begin

text \<open>
  \<^bold>\<open>A verification model of src/Script.js (BLACKFLAME NOVA site behaviour).\<close>

  \<^bold>\<open>The program.\<close>  One browser script: a \<open>CONFIG\<close> object, seven
  module objects (Navigation, Animations, Social, Minecraft, VoiceChat,
  Accessibility, Performance), each with an \<open>init\<close> that wires event
  listeners, observers and timers to the live document, a bootstrap
  \<open>BlackflameNova.init\<close> that calls them in that order inside one
  \<open>try/catch\<close> on \<open>DOMContentLoaded\<close>, and global utilities (\<open>sharePage\<close>,
  \<open>getServerInfo\<close>, the Konami \<open>keydown\<close> listener, the
  \<open>visibilitychange\<close> title swap).  The modules share no variables; they
  interact only through the DOM nodes several of them touch (the cards, whose
  transform both the reveal observer and the hover listeners write), the
  functions one installs on \<open>window\<close> and another calls
  (\<open>redirectToDiscord\<close>), and the bootstrap's exception handling.

  \<^bold>\<open>Theories, one per part.\<close>
  \<^item> \<open>Prelude\<close>: the JS built-ins the code calls (\<open>replace\<close> with a string or
    a digit regex, \<open>split\<close>/\<open>pop\<close>, \<open>join\<close>, \<open>includes\<close>,
    \<open>match(/\d+/)\<close>, \<open>parseInt\<close> on digits, number to string), the
    exception values and the \<open>outcome\<close> type (\<open>Done\<close>/\<open>Threw\<close>, the
    state kept in both because effects before a throw persist), and the shared
    lemmas: the decimal round trip \<open>parse_nat (show_nat n) = n\<close>,
    injectivity of \<open>join\<close> on comma-free words, \<open>split\<close>/\<open>pop\<close> as
    \<open>takeWhile\<close>.
  \<^item> \<open>Doubles\<close>: JavaScript number arithmetic as IEEE binary64 rounding
    on the rationals (\<open>round_double\<close>: nearest, ties to even, 53-bit
    significand), the operators \<open>dbl_add\<close>, \<open>dbl_mul\<close>, \<open>dbl_div\<close>, the
    double \<open>dbl_07\<close> of the literal \<open>0.7\<close>, and the relative error bound
    \<open>|round_double x - x| \<le> x / 2^53\<close> with its accumulated form over
    \<open>n\<close> roundings (Bernoulli's inequality).
  \<^item> \<open>Config\<close>: \<open>CONFIG\<close> and \<open>getServerInfo\<close> as records.
  \<^item> \<open>Konami\<close>: the key buffer, the join comparison, activation, the 10 s
    reset timeouts; events are key presses and elapsed time (\<open>konami_run\<close>).
    Refinement of the buffer by the abstract \<open>last_keys\<close>, activation exactly
    on the sequence, an invariant of all reachable states and the liveness of the
    reset, and the bug that overlapping activations are cut short.
  \<^item> \<open>Animations\<close>: the counter tween as a \<open>partial_function (option)\<close>
    loop over interval ticks whose step and sums are double operations; an
    error analysis (\<open>counter_value_upper\<close>, \<open>counter_value_lower\<close>,
    \<open>counter_ticks_stop\<close>) proves it returns after 125 or 126 ticks with the
    frames of the abstract \<open>counter_frames\<close>, whose numbers never decrease;
    the once-only counter observer; reveal and hover on a card; particles.
  \<^item> \<open>Navigation\<close>: the mobile menu's listeners as a registration list
    dispatched target-then-document, the reachable menu states (an
    \<open>inductive\<close> set) and their invariant, the smooth-scroll handler, the
    active-link matching by the code's string operations, and the \<open>debounce\<close>d
    header effect as a timed event model.
  \<^item> \<open>Minecraft\<close>: status and ping draws, \<open>copyToClipboard\<close> and
    \<open>showToast\<close> with a timer queue (\<open>copy_advance\<close>, a \<open>function\<close>
    whose termination measure weighs a slide-out timeout 2 because it schedules
    one removal).
  \<^item> \<open>VoiceChat\<close>: today's schedule highlight and the channel loop whose
    \<open>match(...)[0]\<close> on \<open>null\<close> throws; the status colour compares the
    count with the double product \<open>maxUsers * 0.7\<close> (\<open>occupancy_color_bands\<close>:
    exact away from 70 percent for capacities below \<open>2^49\<close>; at 70 percent the
    rounding decides, and 63 of 90 is red).
  \<^item> \<open>Social\<close>, \<open>Accessibility\<close>, \<open>Performance\<close>, \<open>Utilities\<close>: the
    confirm-guarded redirects and button pulses, the keyboard handlers and
    non-idempotent init, the lazy-image observer and the service worker's load
    listener, \<open>sharePage\<close>, \<open>scrollToTop\<close>, \<open>printPage\<close> and the titles;
    each ends with its module's \<open>init\<close> (\<open>social_init\<close>,
    \<open>accessibility_init\<close>, \<open>performance_init\<close>).
  \<^item> \<open>Timers\<close>: \<open>setInterval\<close> as a terminating loop \<open>interval_run\<close>
    (a \<open>function\<close> whose measure is the time left to the horizon) and its
    closed form \<open>interval_run_closed\<close>: \<open>(t - s) div p\<close> runs by time
    \<open>t\<close>, the state a fold over the run indices.
  \<^item> \<open>Effects\<close>: the button glow, the particle geometry, the logo pulse (an
    interval whose callback schedules a timeout, run earliest-first by
    \<open>logo_advance\<close>) with its closed-form timeline, and \<open>animations_init\<close>.
  \<^item> \<open>ServerTimers\<close>: the 5-minute status and 10-second ping intervals as
    timelines refining their closed forms, and \<open>minecraft_init\<close>.
  \<^item> \<open>Toasts\<close>: the toast well-formedness invariant (ids of pending toast
    timeouts equal the live toasts' ids as multisets), so
    \<open>removeChild\<close> never throws.
  \<^item> \<open>Bootstrap\<close>: the page record composed of the modules' states,
    \<open>module_init\<close> for each module from its \<open>init\<close> definition, the
    generic \<open>run_inits\<close> and \<open>blackflame_init\<close>.
  \<^item> \<open>Site\<close>: the page wiring, i.e. the listeners the script adds when it
    runs (Konami \<open>keydown\<close>, \<open>DOMContentLoaded\<close>,
    \<open>visibilitychange\<close>), the shortcut listeners init adds after them, and
    the document events dispatched to them in registration order
    (\<open>site_step\<close>, \<open>site_run\<close>).

  \<^bold>\<open>What the bootstrap and wiring properties show.\<close>  \<open>run_inits\<close> is
  stated over any module and state type (\<open>run_inits_append\<close>,
  \<open>run_inits_preserve\<close>, \<open>run_inits_stops\<close>); \<open>module_init_frame\<close>
  says no module touches the \<open>loaded\<close> class or the error log.  From these:
  the page is marked loaded exactly when every init returns; with
  IntersectionObserver and digit-bearing capacity texts all seven modules run;
  a digit-less capacity text or a missing IntersectionObserver stops the
  bootstrap part-way with the earlier effects kept; a second bootstrap
  registers the menu listeners twice and the menu can no longer be opened.  In
  \<open>Site\<close>: before \<open>DOMContentLoaded\<close> only the Konami listener reacts;
  after a successful bootstrap Ctrl+K shows the Discord dialog once; after a
  VoiceChat throw the shortcuts stay dead for the whole visit, while the
  Konami state depends on key codes and time alone (\<open>site_run_konami\<close>).

  \<^bold>\<open>Correspondence.\<close>  Each definition is named after the source function it
  translates (\<open>setupMobileMenu\<close>, \<open>copyToClipboard\<close>, \<open>showToast\<close>,
  \<open>setupEventSchedule\<close>, \<open>setupLazyLoading\<close>, ...); records hold the DOM
  properties the function writes; inputs the code reads from the browser
  (\<open>Math.random()\<close>, \<open>confirm\<close>, whether \<open>writeText\<close> resolves, the path,
  the weekday) are parameters.  Awaited promises are resolved at the time of
  the call.

  \<^bold>\<open>Numbers, bounds and termination.\<close>  Key codes, counts and times are
  naturals (integers below \<open>2^53\<close> are exact doubles); the random draws are
  reals in [0, 1).  Where the code's result depends on double rounding it is
  computed with \<open>Doubles\<close>: the counter's \<open>target / (2000 / 16)\<close> and
  \<open>current += step\<close>, whose 125 rounded additions fall short of the target
  for some targets (then a 126th tick clamps), and \<open>maxUsers * 0.7\<close>.  The
  rounding has an unbounded exponent (no overflow, no subnormals), which the
  script's values never need.  No loop uses
  fuel: the counter loop is a \<open>partial_function (option)\<close> and the theorems
  prove it returns; \<open>copy_advance\<close>, \<open>interval_run\<close> and
  \<open>logo_advance\<close> are \<open>function\<close>s with measures (timer weights, time to
  the horizon, twice the time to the horizon plus the pending timeouts).
  Intervals run until a finite horizon \<open>t\<close>, which is how time is observed.

  \<^bold>\<open>Not modelled.\<close>  The CSS text of the injected style elements (kept as
  their identity), the argument the service worker's log line prints, the
  \<open>$\<close>/\<open>$$\<close> query helpers (the model takes the elements they find as
  inputs), and exceptions of \<open>querySelector\<close> on invalid selectors.
  Numbers the script only produces within the exact range are taken exactly:
  \<open>parseInt\<close> of a digit string is its natural number (JavaScript loses
  precision from \<open>2^53\<close> and gives \<open>Infinity\<close> for very long strings, and
  \<open>String(n)\<close> switches to exponent form at \<open>10^21\<close>);
  \<open>Math.floor(Math.random() * maxUsers)\<close>, the ping and the status draw use
  the exact real product, and the draws are reals rather than doubles.  Random
  draws of different callbacks are independent input sequences (the one global
  stream, read in any interleaving, is such a pair of sequences).
\<close>

end
